theory Spec2Isabelle
  imports Complex_Main
begin

section \<open>Multiple-shooting SQP solver (ocs2_sqp, MultipleShootingSolver.cpp)\<close>

text \<open>
  A shallow embedding of \<^verbatim>\<open>MultipleShootingSolver\<close>: the SQP driver \<^verbatim>\<open>runImpl\<close>, the
  subproblem assembler \<^verbatim>\<open>setupQuadraticSubproblem\<close>, the performance evaluator
  \<^verbatim>\<open>computePerformance\<close>, the QP call \<^verbatim>\<open>getOCPSolution\<close> and the filter line-search
  \<^verbatim>\<open>takeStep\<close>.

  Conventions of the embedding.
  \<^item> \<^verbatim>\<open>scalar_t\<close> (a double) is \<open>real\<close>, with two refinements. The sums that reduce
    performance indices (\<^verbatim>\<open>operator+=\<close> over the nodes of a worker, the initial-state
    residual added to the index of worker \<open>0\<close>, the accumulation over the workers, and
    the sum that gives the merit) are floating-point sums, whose order matters because
    floating-point addition is not associative: each is the exact sum, rounded by the
    rounding of the machine. That rounding is the parameter \<open>roundScalar\<close>, and no
    theorem assumes anything of it. The square root of a negative sum of squared errors
    is NaN, and a comparison with NaN is false: a violation norm is a
    \<open>scalar_t option\<close>, \<open>None\<close> being NaN. Elsewhere arithmetic is exact; infinities and
    NaN inputs are not modelled.
  \<^item> \<^verbatim>\<open>vector_t\<close> is a list of scalars; \<^verbatim>\<open>matrix_t\<close> is a number of columns and a list
    of rows, so that a matrix without rows still has its columns. Eigen asserts that
    the operands of a sum or a product have conforming dimensions; the operations
    below are total and agree with Eigen on conforming operands.
  \<^item> A C++ member \<^verbatim>\<open>name_\<close> is the field \<open>name\<close> (an Isabelle name cannot end in an
    underscore); the members \<^verbatim>\<open>dynamics_\<close>, \<^verbatim>\<open>cost_\<close> and \<^verbatim>\<open>constraints_\<close> are the
    fields \<open>dynamicsQP\<close>, \<open>costQP\<close> and \<open>constraintsQP\<close>, apart from the fields of a node's
    transcription.
  \<^item> An exception and an undefined operation (an index out of range, \<^verbatim>\<open>front()\<close> or
    \<^verbatim>\<open>back()\<close> of an empty vector) are values of the type \<open>error\<close>.
  \<^item> The collaborators that the file calls but does not define (node transcription, the
    HPIPM interface, interpolation, the time discretization) are the fields of a record
    of functions, \<open>Env\<close>: every theorem holds for all of them.
\<close>

subsection \<open>Scalars, vectors and matrices\<close>

type_synonym scalar_t = real
type_synonym vector_t = "real list"
type_synonym scalar_array_t = "scalar_t list"
type_synonym vector_array_t = "vector_t list"

text \<open>An Eigen matrix: \<open>ncols\<close> is \<^verbatim>\<open>cols()\<close>, the length of \<open>rowsOf\<close> is \<^verbatim>\<open>rows()\<close>, and
  every row has \<open>ncols\<close> coefficients. \<open>Matrix 0 []\<close> is the default (empty) matrix.\<close>

datatype matrix_t = Matrix (ncols: nat) (rowsOf: "vector_t list")

type_synonym matrix_array_t = "matrix_t list"

definition vadd :: "vector_t \<Rightarrow> vector_t \<Rightarrow> vector_t" where
  "vadd a b = map2 (+) a b"

definition vsub :: "vector_t \<Rightarrow> vector_t \<Rightarrow> vector_t" where
  "vsub a b = map2 (-) a b"

definition smul :: "scalar_t \<Rightarrow> vector_t \<Rightarrow> vector_t" where
  "smul k a = map ((*) k) a"

definition dot :: "vector_t \<Rightarrow> vector_t \<Rightarrow> scalar_t" where
  "dot a b = sum_list (map2 (*) a b)"

definition squaredNorm :: "vector_t \<Rightarrow> scalar_t" where
  "squaredNorm a = dot a a"

definition matvec :: "matrix_t \<Rightarrow> vector_t \<Rightarrow> vector_t" where
  "matvec M v = map (\<lambda>row. dot row v) (rowsOf M)"

definition madd :: "matrix_t \<Rightarrow> matrix_t \<Rightarrow> matrix_t" where
  "madd P Q = Matrix (ncols P) (map2 vadd (rowsOf P) (rowsOf Q))"

text \<open>Column \<open>j\<close> of a matrix, and the product: \<open>rows P\<close> by \<open>cols Q\<close>, also when the inner
  dimension is \<open>0\<close> (every coefficient is then the empty sum).\<close>

definition column :: "matrix_t \<Rightarrow> nat \<Rightarrow> vector_t" where
  "column Q j = map (\<lambda>row. row ! j) (rowsOf Q)"

definition mmul :: "matrix_t \<Rightarrow> matrix_t \<Rightarrow> matrix_t" where
  "mmul P Q =
     Matrix (ncols Q) (map (\<lambda>row. map (\<lambda>j. dot row (column Q j)) [0..<ncols Q]) (rowsOf P))"

definition cols :: "matrix_t \<Rightarrow> int" where
  "cols M = int (ncols M)"

subsection \<open>Performance index and settings\<close>

text \<open>
  Modelled from the spec: the struct \<^verbatim>\<open>PerformanceIndex\<close>, its default value and its
  \<^verbatim>\<open>operator+=\<close> are declared in \<^verbatim>\<open>ocs2_core\<close>, outside the sources at hand. The spec
  lists the fields and says that indices are reduced by summation (taken field by field
  here) and that the order of the reduction is fixed because floating-point addition is
  not associative; the default index is the zero of that summation. Every field of a sum
  is the exact sum rounded by \<open>rnd\<close>, the rounding of the machine.
\<close>

record PerformanceIndex =
  merit :: scalar_t
  totalCost :: scalar_t
  stateEqConstraintISE :: scalar_t
  stateInputEqConstraintISE :: scalar_t
  inequalityConstraintISE :: scalar_t
  inequalityConstraintPenalty :: scalar_t

definition PerformanceIndex0 :: PerformanceIndex where
  "PerformanceIndex0 =
     \<lparr>merit = 0, totalCost = 0, stateEqConstraintISE = 0, stateInputEqConstraintISE = 0,
      inequalityConstraintISE = 0, inequalityConstraintPenalty = 0\<rparr>"

definition plusPerformance ::
  "(scalar_t \<Rightarrow> scalar_t) \<Rightarrow> PerformanceIndex \<Rightarrow> PerformanceIndex \<Rightarrow> PerformanceIndex" where
  "plusPerformance rnd p q =
     \<lparr>merit = rnd (merit p + merit q),
      totalCost = rnd (totalCost p + totalCost q),
      stateEqConstraintISE = rnd (stateEqConstraintISE p + stateEqConstraintISE q),
      stateInputEqConstraintISE =
        rnd (stateInputEqConstraintISE p + stateInputEqConstraintISE q),
      inequalityConstraintISE = rnd (inequalityConstraintISE p + inequalityConstraintISE q),
      inequalityConstraintPenalty =
        rnd (inequalityConstraintPenalty p + inequalityConstraintPenalty q)\<rparr>"

text \<open>The fields of \<^verbatim>\<open>Settings\<close> that the solver reads (the print flags only write to
  the error stream and are left out).\<close>

record Settings =
  sqpIteration :: int
  deltaTol :: scalar_t
  costTol :: scalar_t
  alpha_decay :: scalar_t
  alpha_min :: scalar_t
  gamma_c :: scalar_t
  g_max :: scalar_t
  g_min :: scalar_t
  dt :: scalar_t
  projectStateInputEqualityConstraints :: bool
  controllerFeedback :: bool
  n_state :: int
  n_input :: int
  nThreads :: int

subsection \<open>The acceptance test of the filter line-search\<close>

text \<open>
  \<^verbatim>\<open>std::sqrt\<close> of a negative number is NaN; NaN times a number and a number minus NaN are
  NaN; a comparison with NaN is false. A scalar that may be NaN is a \<open>scalar_t option\<close>, with
  \<open>None\<close> for NaN.
\<close>

definition sqrtNaN :: "scalar_t \<Rightarrow> scalar_t option" where
  "sqrtNaN a = (if a < 0 then None else Some (sqrt a))"

definition timesNaN :: "scalar_t \<Rightarrow> scalar_t option \<Rightarrow> scalar_t option" where
  "timesNaN k a = (case a of None \<Rightarrow> None | Some b \<Rightarrow> Some (k * b))"

definition minusNaN :: "scalar_t \<Rightarrow> scalar_t option \<Rightarrow> scalar_t option" where
  "minusNaN m a = (case a of None \<Rightarrow> None | Some b \<Rightarrow> Some (m - b))"

definition lessNaN :: "scalar_t option \<Rightarrow> scalar_t option \<Rightarrow> bool" where
  "lessNaN a b =
     (case a of None \<Rightarrow> False | Some c \<Rightarrow> (case b of None \<Rightarrow> False | Some d \<Rightarrow> c < d))"

text \<open>\<^verbatim>\<open>std::sqrt(p.stateEqConstraintISE + p.stateInputEqConstraintISE + p.inequalityConstraintISE)\<close>,
  computed for the baseline and for every candidate in \<^verbatim>\<open>takeStep\<close>.\<close>

definition constraintViolation :: "PerformanceIndex \<Rightarrow> scalar_t option" where
  "constraintViolation p =
     sqrtNaN (stateEqConstraintISE p + stateInputEqConstraintISE p + inequalityConstraintISE p)"

text \<open>The lambda \<^verbatim>\<open>stepAccepted\<close> of \<^verbatim>\<open>takeStep\<close>, with the three branches in the order of
  the source.\<close>

definition stepAccepted :: "Settings \<Rightarrow> PerformanceIndex \<Rightarrow> PerformanceIndex \<Rightarrow> bool" where
  "stepAccepted st baseline performanceNew =
     (let baselineConstraintViolation = constraintViolation baseline;
          newConstraintViolation = constraintViolation performanceNew
      in if lessNaN (Some (g_max st)) newConstraintViolation then False
         else if lessNaN newConstraintViolation (Some (g_min st))
         then merit performanceNew < merit baseline
         else lessNaN (Some (merit performanceNew))
                (minusNaN (merit baseline) (timesNaN (gamma_c st) baselineConstraintViolation))
              \<or> lessNaN newConstraintViolation
                   (timesNaN (1 - gamma_c st) baselineConstraintViolation))"

subsection \<open>Errors and checked accesses\<close>

text \<open>\<open>QPSolveFailure\<close> is the \<^verbatim>\<open>std::runtime_error\<close> of \<^verbatim>\<open>getOCPSolution\<close>;
  \<open>LengthError\<close> is the \<^verbatim>\<open>std::length_error\<close> of a \<^verbatim>\<open>std::vector\<close> that is constructed,
  resized or reserved with a negative \<^verbatim>\<open>int\<close> (converted to a huge \<^verbatim>\<open>size_t\<close>);
  \<open>Undefined\<close> is an operation without defined behaviour.\<close>

datatype error = QPSolveFailure | LengthError | Undefined

definition bindE :: "error + 'a \<Rightarrow> ('a \<Rightarrow> error + 'b) \<Rightarrow> error + 'b" where
  "bindE m k = (case m of Inl e \<Rightarrow> Inl e | Inr a \<Rightarrow> k a)"

definition atIdx :: "'a list \<Rightarrow> int \<Rightarrow> error + 'a" where
  "atIdx xs i = (if 0 \<le> i \<and> i < int (length xs) then Inr (xs ! nat i) else Inl Undefined)"

definition frontOf :: "'a list \<Rightarrow> error + 'a" where
  "frontOf xs = (case xs of [] \<Rightarrow> Inl Undefined | a # _ \<Rightarrow> Inr a)"

definition backOf :: "'a list \<Rightarrow> error + 'a" where
  "backOf xs = (if xs = [] then Inl Undefined else Inr (last xs))"

fun mapE :: "('a \<Rightarrow> error + 'b) \<Rightarrow> 'a list \<Rightarrow> error + 'b list" where
  "mapE g [] = Inr []"
| "mapE g (a # as) =
     (case g a of Inl e \<Rightarrow> Inl e
      | Inr b \<Rightarrow> (case mapE g as of Inl e \<Rightarrow> Inl e | Inr bs \<Rightarrow> Inr (b # bs)))"

subsection \<open>Blocks, collaborators and the solver state\<close>

text \<open>The stored constraint block of a node, with the three fields that the solver reads:
  \<^verbatim>\<open>constraints_[i].f\<close>, \<^verbatim>\<open>.dfdx\<close>, \<^verbatim>\<open>.dfdu\<close>. With projection it holds the affine map from
  the reduced input to the input.\<close>

record ConstraintBlock =
  f :: vector_t
  dfdx :: matrix_t
  dfdu :: matrix_t

text \<open>What \<^verbatim>\<open>multiple_shooting::setupIntermediateNode\<close> and \<^verbatim>\<open>setupTerminalNode\<close> return
  (the fields of the terminal result carry a \<open>T\<close>). The dynamics and cost blocks are only
  moved around by the solver: their types are the parameters \<open>'d\<close> and \<open>'c\<close>.\<close>

record ('d, 'c) Transcription =
  performance :: PerformanceIndex
  dynamics :: 'd
  cost :: 'c
  constraints :: ConstraintBlock

record 'c TerminalTranscription =
  performanceT :: PerformanceIndex
  costT :: 'c
  constraintsT :: ConstraintBlock

text \<open>The status of the back end; the solver only asks whether it is \<^verbatim>\<open>SUCCESS\<close>.\<close>

datatype hpipm_status = SUCCESS | NON_SUCCESS

text \<open>
  Modelled from the spec: \<^verbatim>\<open>HpipmInterface::OcpSize\<close> is declared outside the sources at
  hand; the spec gives it per-node sizes, constant when constructed from
  \<open>(N, n_state, n_input)\<close>.
\<close>

record OcpSize =
  numStages :: int
  numStates :: "int list"
  numInputs :: "int list"
  numIneqConstraints :: "int list"

definition OcpSize_init :: "int \<Rightarrow> int \<Rightarrow> int \<Rightarrow> OcpSize" where
  "OcpSize_init N nx nu =
     \<lparr>numStages = N, numStates = replicate (nat (N + 1)) nx, numInputs = replicate (nat N) nu,
      numIneqConstraints = replicate (nat (N + 1)) 0\<rparr>"

text \<open>
  The collaborators. The evaluator objects (dynamics, cost, constraint, penalty,
  discretizers) are fixed at construction and cloned per worker, so a node function
  takes the worker whose clone evaluates it and the arguments that vary per call.
  \<open>hpipmSolve\<close> takes and returns the state \<open>'h\<close> of the HPIPM interface; its fifth argument
  is \<open>None\<close> for the \<^verbatim>\<open>nullptr\<close> constraint argument. \<open>getSystemOperatingTrajectories\<close>
  returns the \<^verbatim>\<open>inputArray\<close> it fills. \<open>schedule iter r i\<close> is the worker that claims time
  index \<open>i\<close> from the atomic counter in parallel region \<open>r\<close> of SQP iteration \<open>iter\<close>
  (region \<open>0\<close> is the transcription, region \<open>k + 1\<close> the \<open>k\<close>-th line-search candidate).
  \<open>roundScalar\<close> is the rounding of a sum of two scalars by the machine (the identity in
  exact arithmetic); \<^verbatim>\<open>scalar_t\<close> is declared outside the sources at hand.
\<close>

record ('d, 'c, 'h) Env =
  timeDiscretizationWithEvents ::
    "scalar_t \<Rightarrow> scalar_t \<Rightarrow> scalar_t \<Rightarrow> scalar_array_t \<Rightarrow> scalar_array_t"
  setupIntermediateNode ::
    "nat \<Rightarrow> bool \<Rightarrow> scalar_t \<Rightarrow> scalar_t \<Rightarrow> vector_t \<Rightarrow> vector_t \<Rightarrow> vector_t \<Rightarrow>
     ('d, 'c) Transcription"
  setupTerminalNode :: "nat \<Rightarrow> scalar_t \<Rightarrow> vector_t \<Rightarrow> 'c TerminalTranscription"
  computeIntermediatePerformance ::
    "nat \<Rightarrow> scalar_t \<Rightarrow> scalar_t \<Rightarrow> vector_t \<Rightarrow> vector_t \<Rightarrow> vector_t \<Rightarrow> PerformanceIndex"
  computeTerminalPerformance :: "nat \<Rightarrow> scalar_t \<Rightarrow> vector_t \<Rightarrow> PerformanceIndex"
  hpipmResize :: "OcpSize \<Rightarrow> 'h \<Rightarrow> 'h"
  hpipmSolve ::
    "'h \<Rightarrow> vector_t \<Rightarrow> 'd list \<Rightarrow> 'c list \<Rightarrow> ConstraintBlock list option \<Rightarrow>
     hpipm_status \<times> vector_array_t \<times> vector_array_t \<times> 'h"
  getRiccatiFeedback :: "'h \<Rightarrow> 'd \<Rightarrow> 'c \<Rightarrow> matrix_array_t"
  interpolate :: "scalar_t \<Rightarrow> scalar_array_t \<Rightarrow> vector_array_t \<Rightarrow> vector_t"
  getSystemOperatingTrajectories :: "vector_t \<Rightarrow> scalar_t \<Rightarrow> scalar_t \<Rightarrow> vector_array_t"
  schedule :: "nat \<Rightarrow> nat \<Rightarrow> nat \<Rightarrow> nat"
  roundScalar :: "scalar_t \<Rightarrow> scalar_t"

datatype Controller =
  LinearController scalar_array_t vector_array_t matrix_array_t
| FeedforwardController scalar_array_t vector_array_t

record PrimalSolution =
  timeTrajectory :: scalar_array_t
  stateTrajectory :: vector_array_t
  inputTrajectory :: vector_array_t
  modeSchedule :: scalar_array_t
  controllerPtr :: "Controller option"

text \<open>The members of the solver. \<open>constraintPtr\<close> holds, per worker, whether the clone is
  non-null; \<open>eventTimes\<close> is \<^verbatim>\<open>getModeSchedule().eventTimes\<close> of the base class.\<close>

record ('d, 'c, 'h) Solver =
  settings :: Settings
  constraintPtr :: "bool list"
  terminalCostFunctionPtr :: bool
  operatingTrajectoriesPtr :: bool
  eventTimes :: scalar_array_t
  primalSolution :: PrimalSolution
  performanceIndeces :: "PerformanceIndex list"
  totalNumIterations :: nat
  dynamicsQP :: "'d list"
  costQP :: "'c list"
  constraintsQP :: "ConstraintBlock list"
  hpipmInterface :: 'h

subsection \<open>Trajectory initialization\<close>

text \<open>\<^verbatim>\<open>initializeStateTrajectory\<close>. Both branches allocate \<open>N + 1\<close> elements.\<close>

definition initializeStateTrajectory ::
  "('d, 'c, 'h) Env \<Rightarrow> ('d, 'c, 'h) Solver \<Rightarrow> vector_t \<Rightarrow> scalar_array_t \<Rightarrow> int \<Rightarrow>
   error + vector_array_t" where
  "initializeStateTrajectory env s initState timeDiscretization N =
     (if N + 1 < 0 then Inl LengthError
      else if totalNumIterations s = 0 then Inr (replicate (nat (N + 1)) initState)
      else bindE
        (mapE (\<lambda>i. bindE (atIdx timeDiscretization i) (\<lambda>ti.
                 Inr (interpolate env ti (timeTrajectory (primalSolution s))
                        (stateTrajectory (primalSolution s)))))
           (map int [1..<nat (N + 1)]))
        (\<lambda>rest. Inr (initState # rest)))"

text \<open>\<^verbatim>\<open>initializeInputTrajectory\<close>: \<^verbatim>\<open>interpolateTill\<close> reads \<^verbatim>\<open>back()\<close> or \<^verbatim>\<open>front()\<close>
  before \<^verbatim>\<open>u.reserve(N)\<close>.\<close>

definition initializeInputTrajectory ::
  "('d, 'c, 'h) Env \<Rightarrow> ('d, 'c, 'h) Solver \<Rightarrow> scalar_array_t \<Rightarrow> vector_array_t \<Rightarrow> int \<Rightarrow>
   error + vector_array_t" where
  "initializeInputTrajectory env s timeDiscretization xTrajectory N =
     bindE (if totalNumIterations s > 0 then backOf (timeTrajectory (primalSolution s))
            else frontOf timeDiscretization)
       (\<lambda>interpolateTill.
          if N < 0 then Inl LengthError
          else mapE (\<lambda>i. bindE (atIdx timeDiscretization i) (\<lambda>ti.
                  if ti < interpolateTill
                  then Inr (interpolate env ti (timeTrajectory (primalSolution s))
                              (inputTrajectory (primalSolution s)))
                  else if operatingTrajectoriesPtr s
                  then bindE (atIdx timeDiscretization (i + 1)) (\<lambda>tNext.
                       bindE (atIdx xTrajectory i) (\<lambda>xi.
                         frontOf (getSystemOperatingTrajectories env xi ti tNext)))
                  else Inr (replicate (nat (n_input (settings s))) 0)))
                 (map int [0..<nat N]))"

subsection \<open>The parallel regions\<close>

text \<open>
  In a parallel region every worker repeatedly claims the next time index from an atomic
  counter, so each index \<open>0..N\<close> is handled by exactly one worker, and a worker handles
  its indices in increasing order. \<open>sched i\<close> is the worker that claims index \<open>i\<close>. A worker
  starts from the default index and adds the index of every node it handles;
  \<open>nodes ! i\<close> is \<open>None\<close> when the node at \<open>i\<close> adds nothing.
\<close>

definition workerPerformance ::
  "(scalar_t \<Rightarrow> scalar_t) \<Rightarrow> (nat \<Rightarrow> nat) \<Rightarrow> PerformanceIndex option list \<Rightarrow> nat \<Rightarrow>
   PerformanceIndex" where
  "workerPerformance rnd sched nodes w =
     foldl (plusPerformance rnd) PerformanceIndex0
       (List.map_filter (\<lambda>i. if sched i = w then nodes ! i else None) [0..<length nodes])"

text \<open>The body of the \<^verbatim>\<open>while (i < N)\<close> loop of \<^verbatim>\<open>setupQuadraticSubproblem\<close> at index \<open>i\<close>,
  and the terminal node at index \<open>N\<close>.\<close>

definition intermediateNode ::
  "('d, 'c, 'h) Env \<Rightarrow> bool \<Rightarrow> (nat \<Rightarrow> nat) \<Rightarrow> scalar_array_t \<Rightarrow> vector_array_t \<Rightarrow>
   vector_array_t \<Rightarrow> int \<Rightarrow> error + ('d, 'c) Transcription" where
  "intermediateNode env project sched time x u i =
     bindE (atIdx time i) (\<lambda>ti. bindE (atIdx time (i + 1)) (\<lambda>tNext.
     bindE (atIdx x i) (\<lambda>xi. bindE (atIdx x (i + 1)) (\<lambda>xNext. bindE (atIdx u i) (\<lambda>ui.
       Inr (setupIntermediateNode env (sched (nat i)) project ti (tNext - ti) xi xNext ui))))))"

definition terminalNode ::
  "('d, 'c, 'h) Env \<Rightarrow> (nat \<Rightarrow> nat) \<Rightarrow> scalar_array_t \<Rightarrow> vector_array_t \<Rightarrow> int \<Rightarrow>
   error + 'c TerminalTranscription" where
  "terminalNode env sched time x N =
     bindE (atIdx time N) (\<lambda>tN. bindE (atIdx x N) (\<lambda>xN.
       Inr (setupTerminalNode env (sched (nat N)) tN xN)))"

text \<open>The vector \<^verbatim>\<open>performance\<close> of \<^verbatim>\<open>setupQuadraticSubproblem\<close> when \<^verbatim>\<open>runParallel\<close> has
  returned (before the initial-state residual is added), given the node results.\<close>

definition setupWorkerPerformance ::
  "(scalar_t \<Rightarrow> scalar_t) \<Rightarrow> Settings \<Rightarrow> (nat \<Rightarrow> nat) \<Rightarrow> ('d, 'c) Transcription list \<Rightarrow>
   'c TerminalTranscription \<Rightarrow> PerformanceIndex list" where
  "setupWorkerPerformance rnd st sched stages fin =
     map (workerPerformance rnd sched
            (map (Some \<circ> performance) stages @ [Some (performanceT fin)]))
       [0..<nat (nThreads st)]"

text \<open>\<^verbatim>\<open>performance.front().stateEqConstraintISE += (initState - x.front()).squaredNorm()\<close>.\<close>

definition addInitResidual ::
  "(scalar_t \<Rightarrow> scalar_t) \<Rightarrow> PerformanceIndex list \<Rightarrow> scalar_t \<Rightarrow> PerformanceIndex list" where
  "addInitResidual rnd perf r =
     perf[0 := (perf ! 0)\<lparr>stateEqConstraintISE := rnd (stateEqConstraintISE (perf ! 0) + r)\<rparr>]"

text \<open>\<^verbatim>\<open>std::accumulate(std::next(performance.begin()), performance.end(), performance.front())\<close>
  followed by the assignment of \<^verbatim>\<open>merit\<close>.\<close>

definition sumPerformance ::
  "(scalar_t \<Rightarrow> scalar_t) \<Rightarrow> PerformanceIndex list \<Rightarrow> PerformanceIndex" where
  "sumPerformance rnd perf =
     (let totalPerformance = foldl (plusPerformance rnd) (hd perf) (tl perf)
      in totalPerformance\<lparr>merit := rnd (totalCost totalPerformance
                                        + inequalityConstraintPenalty totalPerformance)\<rparr>)"

text \<open>The loop ``determine sizes''.\<close>

definition determineSizes ::
  "bool \<Rightarrow> bool \<Rightarrow> ConstraintBlock list \<Rightarrow> int \<Rightarrow> OcpSize \<Rightarrow> OcpSize" where
  "determineSizes hasConstraint project cs N ocpSize =
     foldl (\<lambda>oc i.
              if hasConstraint then
                if project then oc\<lparr>numInputs := (numInputs oc)[i := cols (dfdu (cs ! i))]\<rparr>
                else oc\<lparr>numIneqConstraints :=
                          (numIneqConstraints oc)[i := int (length (f (cs ! i)))]\<rparr>
              else oc)
       ocpSize [0..<nat N]"

text \<open>\<^verbatim>\<open>setupQuadraticSubproblem\<close>: returns the aggregated index and the solver with the
  blocks of all nodes stored and the HPIPM interface resized. With no worker, the calling
  thread still runs the task as worker \<open>0\<close> and indexes the empty vectors of clones. The
  sizes loop reads \<^verbatim>\<open>constraintPtr_.front()\<close> only when it runs at least once.\<close>

definition setupQuadraticSubproblem ::
  "('d, 'c, 'h) Env \<Rightarrow> ('d, 'c, 'h) Solver \<Rightarrow> (nat \<Rightarrow> nat) \<Rightarrow> scalar_array_t \<Rightarrow> vector_t \<Rightarrow>
   vector_array_t \<Rightarrow> vector_array_t \<Rightarrow> error + (PerformanceIndex \<times> ('d, 'c, 'h) Solver)" where
  "setupQuadraticSubproblem env s sched time initState x u =
     (let N = int (length time) - 1;
          st = settings s;
          project = projectStateInputEqualityConstraints st
      in if nThreads st < 0 then Inl LengthError
         else if N < 0 then Inl LengthError
         else if nThreads st = 0 then Inl Undefined
         else
           bindE (mapE (intermediateNode env project sched time x u) (map int [0..<nat N]))
             (\<lambda>stages.
           bindE (terminalNode env sched time x N) (\<lambda>fin.
           bindE (frontOf x) (\<lambda>x0.
           bindE (if 0 < N then frontOf (constraintPtr s) else Inr False) (\<lambda>hasConstraint.
             let performance = addInitResidual (roundScalar env)
                                 (setupWorkerPerformance (roundScalar env) st sched stages fin)
                                 (squaredNorm (vsub initState x0));
                 cs = map constraints stages @ [constraintsT fin];
                 ocpSize = determineSizes hasConstraint project cs N
                             (OcpSize_init N (n_state st) (n_input st))
             in Inr (sumPerformance (roundScalar env) performance,
                     s\<lparr>dynamicsQP := map dynamics stages,
                       costQP := map cost stages @ [costT fin],
                       constraintsQP := cs,
                       hpipmInterface := hpipmResize env ocpSize (hpipmInterface s)\<rparr>))))))"

text \<open>The nodes of \<^verbatim>\<open>computePerformance\<close>: the terminal node adds an index only when there
  is a terminal cost.\<close>

definition intermediatePerformance ::
  "('d, 'c, 'h) Env \<Rightarrow> (nat \<Rightarrow> nat) \<Rightarrow> scalar_array_t \<Rightarrow> vector_array_t \<Rightarrow> vector_array_t \<Rightarrow>
   int \<Rightarrow> error + PerformanceIndex option" where
  "intermediatePerformance env sched time x u i =
     bindE (atIdx time i) (\<lambda>ti. bindE (atIdx time (i + 1)) (\<lambda>tNext.
     bindE (atIdx x i) (\<lambda>xi. bindE (atIdx x (i + 1)) (\<lambda>xNext. bindE (atIdx u i) (\<lambda>ui.
       Inr (Some (computeIntermediatePerformance env (sched (nat i)) ti (tNext - ti)
                    xi xNext ui)))))))"

definition terminalPerformance ::
  "('d, 'c, 'h) Env \<Rightarrow> ('d, 'c, 'h) Solver \<Rightarrow> (nat \<Rightarrow> nat) \<Rightarrow> scalar_array_t \<Rightarrow>
   vector_array_t \<Rightarrow> int \<Rightarrow> error + PerformanceIndex option list" where
  "terminalPerformance env s sched time x N =
     (if N < 0 then Inr []
      else if terminalCostFunctionPtr s
      then bindE (atIdx time N) (\<lambda>tN. bindE (atIdx x N) (\<lambda>xN.
             Inr [Some (computeTerminalPerformance env (sched (nat N)) tN xN)]))
      else Inr [None])"

definition computePerformance ::
  "('d, 'c, 'h) Env \<Rightarrow> ('d, 'c, 'h) Solver \<Rightarrow> (nat \<Rightarrow> nat) \<Rightarrow> scalar_array_t \<Rightarrow> vector_t \<Rightarrow>
   vector_array_t \<Rightarrow> vector_array_t \<Rightarrow> error + PerformanceIndex" where
  "computePerformance env s sched time initState x u =
     (let N = int (length time) - 1;
          st = settings s
      in if nThreads st < 0 then Inl LengthError
         else if nThreads st = 0 then Inl Undefined
         else
           bindE (mapE (intermediatePerformance env sched time x u) (map int [0..<nat N]))
             (\<lambda>stages.
           bindE (terminalPerformance env s sched time x N) (\<lambda>fin.
           bindE (frontOf x) (\<lambda>x0.
             let performance = map (workerPerformance (roundScalar env) sched (stages @ fin))
                                 [0..<nat (nThreads st)]
             in Inr (sumPerformance (roundScalar env)
                       (addInitResidual (roundScalar env) performance
                          (squaredNorm (vsub initState x0))))))))"

subsection \<open>Solving the QP\<close>

text \<open>\<^verbatim>\<open>getOCPSolution\<close>: the pair of the result (or the error) and the solver, whose HPIPM
  interface has been used.\<close>

definition remapInput ::
  "ConstraintBlock list \<Rightarrow> vector_array_t \<Rightarrow> vector_array_t \<Rightarrow> int \<Rightarrow>
   error + vector_t" where
  "remapInput cs deltaXSol deltaUSol i =
     bindE (atIdx cs i) (\<lambda>c. bindE (atIdx deltaUSol i) (\<lambda>du. bindE (atIdx deltaXSol i) (\<lambda>dx.
       Inr (vadd (vadd (matvec (dfdu c) du) (matvec (dfdx c) dx)) (f c)))))"

definition getOCPSolution ::
  "('d, 'c, 'h) Env \<Rightarrow> ('d, 'c, 'h) Solver \<Rightarrow> vector_t \<Rightarrow>
   (error + vector_array_t \<times> vector_array_t) \<times> ('d, 'c, 'h) Solver" where
  "getOCPSolution env s delta_x0 =
     (case frontOf (constraintPtr s) of
        Inl e \<Rightarrow> (Inl e, s)
      | Inr hasConstraint \<Rightarrow>
          (let project = projectStateInputEqualityConstraints (settings s);
               (status, deltaXSol, deltaUSol, h) =
                  hpipmSolve env (hpipmInterface s) delta_x0 (dynamicsQP s) (costQP s)
                    (if hasConstraint \<and> \<not> project then Some (constraintsQP s) else None);
               s' = s\<lparr>hpipmInterface := h\<rparr>
           in if status \<noteq> SUCCESS then (Inl QPSolveFailure, s')
              else if hasConstraint \<and> project
              then (case mapE (remapInput (constraintsQP s) deltaXSol deltaUSol)
                           (map int [0..<length deltaUSol]) of
                      Inl e \<Rightarrow> (Inl e, s')
                    | Inr deltaU \<Rightarrow> (Inr (deltaXSol, deltaU), s'))
              else (Inr (deltaXSol, deltaUSol), s')))"

subsection \<open>The filter line-search\<close>

definition trajectoryNorm :: "vector_array_t \<Rightarrow> scalar_t" where
  "trajectoryNorm v = sqrt (foldl (\<lambda>norm vi. norm + squaredNorm vi) 0 v)"

text \<open>The two loops ``compute step'': \<^verbatim>\<open>vNew[i] = v[i] + alpha * dv[i]\<close> for \<open>i < n\<close>, in a
  buffer \<^verbatim>\<open>vNew\<close> of \<open>length v\<close> default (empty) vectors.\<close>

definition stepTrajectory ::
  "int \<Rightarrow> scalar_t \<Rightarrow> vector_array_t \<Rightarrow> vector_array_t \<Rightarrow> error + vector_array_t" where
  "stepTrajectory n alpha v dv =
     bindE (mapE (\<lambda>i. bindE (atIdx v i) (\<lambda>vi. bindE (atIdx dv i) (\<lambda>dvi.
                    Inr (vadd vi (smul alpha dvi)))))
              (map int [0..<nat n]))
       (\<lambda>new. Inr (new @ replicate (length v - nat n) []))"

text \<open>The candidate of step size \<open>alpha\<close>: \<^verbatim>\<open>xNew\<close>, \<^verbatim>\<open>uNew\<close> and \<^verbatim>\<open>performanceNew\<close>.\<close>

definition candidate ::
  "('d, 'c, 'h) Env \<Rightarrow> ('d, 'c, 'h) Solver \<Rightarrow> (nat \<Rightarrow> nat) \<Rightarrow> scalar_array_t \<Rightarrow> vector_t \<Rightarrow>
   vector_array_t \<Rightarrow> vector_array_t \<Rightarrow> vector_array_t \<Rightarrow> vector_array_t \<Rightarrow> scalar_t \<Rightarrow>
   error + vector_array_t \<times> vector_array_t \<times> PerformanceIndex" where
  "candidate env s sched time initState dx du x u alpha =
     (let N = int (length time) - 1
      in bindE (stepTrajectory N alpha u du) (\<lambda>uNew.
         bindE (stepTrajectory (N + 1) alpha x dx) (\<lambda>xNew.
         bindE (computePerformance env s sched time initState xNew uNew) (\<lambda>performanceNew.
           Inr (xNew, uNew, performanceNew)))))"

text \<open>The exit conditions \<^verbatim>\<open>stepSizeBelowTol\<close> and \<^verbatim>\<open>improvementBelowTol\<close>.\<close>

definition stepSizeBelowTol ::
  "Settings \<Rightarrow> vector_array_t \<Rightarrow> vector_array_t \<Rightarrow> scalar_t \<Rightarrow> bool" where
  "stepSizeBelowTol st dx du alpha =
     (let deltaUnorm = trajectoryNorm du;
          deltaXnorm = trajectoryNorm dx
      in alpha * deltaUnorm < deltaTol st \<and> alpha * deltaXnorm < deltaTol st)"

definition improvementBelowTol :: "Settings \<Rightarrow> PerformanceIndex \<Rightarrow> PerformanceIndex \<Rightarrow> bool" where
  "improvementBelowTol st baseline performanceNew =
     (\<bar>merit baseline - merit performanceNew\<bar> < costTol st
      \<and> lessNaN (constraintViolation performanceNew) (Some (g_min st)))"

text \<open>One pass through the body of \<^verbatim>\<open>while (alpha > alpha_min)\<close>: \<open>Some (converged, x, u)\<close>
  when the body returns, with the iterate that \<^verbatim>\<open>x\<close> and \<^verbatim>\<open>u\<close> then hold, and \<open>None\<close> when
  it goes on to \<^verbatim>\<open>alpha *= alpha_decay\<close>.\<close>

definition lineSearchStep ::
  "('d, 'c, 'h) Env \<Rightarrow> ('d, 'c, 'h) Solver \<Rightarrow> (nat \<Rightarrow> nat) \<Rightarrow> PerformanceIndex \<Rightarrow>
   scalar_array_t \<Rightarrow> vector_t \<Rightarrow> vector_array_t \<Rightarrow> vector_array_t \<Rightarrow> vector_array_t \<Rightarrow>
   vector_array_t \<Rightarrow> scalar_t \<Rightarrow> error + (bool \<times> vector_array_t \<times> vector_array_t) option" where
  "lineSearchStep env s sched baseline time initState dx du x u alpha =
     bindE (candidate env s sched time initState dx du x u alpha)
       (\<lambda>(xNew, uNew, performanceNew).
          if stepAccepted (settings s) baseline performanceNew
          then Inr (Some (stepSizeBelowTol (settings s) dx du alpha
                          \<or> improvementBelowTol (settings s) baseline performanceNew,
                          xNew, uNew))
          else if stepSizeBelowTol (settings s) dx du alpha then Inr (Some (True, x, u))
          else Inr None)"

text \<open>The \<^verbatim>\<open>while\<close> loop of \<^verbatim>\<open>takeStep\<close> from step size \<open>alpha\<close>, the \<open>k\<close>-th candidate being
  the next one; \<open>None\<close> is a loop that does not end.\<close>

partial_function (option) takeStepLoop ::
  "('d, 'c, 'h) Env \<Rightarrow> ('d, 'c, 'h) Solver \<Rightarrow> (nat \<Rightarrow> nat \<Rightarrow> nat) \<Rightarrow> PerformanceIndex \<Rightarrow>
   scalar_array_t \<Rightarrow> vector_t \<Rightarrow> vector_array_t \<Rightarrow> vector_array_t \<Rightarrow> vector_array_t \<Rightarrow>
   vector_array_t \<Rightarrow> scalar_t \<Rightarrow> nat \<Rightarrow>
   (error + bool \<times> vector_array_t \<times> vector_array_t) option" where
  "takeStepLoop env s scheds baseline time initState dx du x u alpha k =
     (if alpha > alpha_min (settings s) then
        (case lineSearchStep env s (scheds k) baseline time initState dx du x u alpha of
           Inl e \<Rightarrow> Some (Inl e)
         | Inr (Some r) \<Rightarrow> Some (Inr r)
         | Inr None \<Rightarrow>
             takeStepLoop env s scheds baseline time initState dx du x u
               (alpha * alpha_decay (settings s)) (Suc k))
      else Some (Inr (True, x, u)))"

definition takeStep ::
  "('d, 'c, 'h) Env \<Rightarrow> ('d, 'c, 'h) Solver \<Rightarrow> (nat \<Rightarrow> nat \<Rightarrow> nat) \<Rightarrow> PerformanceIndex \<Rightarrow>
   scalar_array_t \<Rightarrow> vector_t \<Rightarrow> vector_array_t \<Rightarrow> vector_array_t \<Rightarrow> vector_array_t \<Rightarrow>
   vector_array_t \<Rightarrow> (error + bool \<times> vector_array_t \<times> vector_array_t) option" where
  "takeStep env s scheds baseline time initState dx du x u =
     takeStepLoop env s scheds baseline time initState dx du x u 1 0"

subsection \<open>The SQP driver\<close>

text \<open>
  One pass through the body of the loop \<^verbatim>\<open>for (iter = 0; iter < sqpIteration; iter++)\<close>
  of \<^verbatim>\<open>runImpl\<close>. The result is \<open>None\<close> when the line-search does not end; otherwise it
  holds \<open>Inl e\<close> when the pass is left by the error \<open>e\<close> and \<open>Inr converged\<close> when it reaches
  the test of \<^verbatim>\<open>converged\<close>, with the solver and the iterate \<open>(x, u)\<close> at that moment (after
  an \<open>Undefined\<close> operation they carry no meaning). \<^verbatim>\<open>performanceIndeces_.back()\<close> is the
  index pushed in the same pass.
\<close>

definition sqpStep ::
  "('d, 'c, 'h) Env \<Rightarrow> scalar_array_t \<Rightarrow> vector_t \<Rightarrow> nat \<Rightarrow>
   ('d, 'c, 'h) Solver \<Rightarrow> vector_array_t \<Rightarrow> vector_array_t \<Rightarrow>
   ((error + bool) \<times> ('d, 'c, 'h) Solver \<times> vector_array_t \<times> vector_array_t) option" where
  "sqpStep env time initState iter s x u =
     (case setupQuadraticSubproblem env s (schedule env iter 0) time initState x u of
        Inl e \<Rightarrow> Some (Inl e, s, x, u)
      | Inr (perf, s1) \<Rightarrow>
          (let s2 = s1\<lparr>performanceIndeces := performanceIndeces s1 @ [perf]\<rparr>
           in case atIdx x 0 of
                Inl e \<Rightarrow> Some (Inl e, s2, x, u)
              | Inr x0 \<Rightarrow>
                  (case getOCPSolution env s2 (vsub initState x0) of
                     (Inl e, s3) \<Rightarrow> Some (Inl e, s3, x, u)
                   | (Inr (delta_x, delta_u), s3) \<Rightarrow>
                       (case takeStep env s3 (\<lambda>k. schedule env iter (Suc k)) perf time
                               initState delta_x delta_u x u of
                          None \<Rightarrow> None
                        | Some (Inl e) \<Rightarrow> Some (Inl e, s3, x, u)
                        | Some (Inr (converged, x', u')) \<Rightarrow>
                            Some (Inr converged,
                                  s3\<lparr>totalNumIterations := Suc (totalNumIterations s3)\<rparr>,
                                  x', u')))))"

text \<open>
  The loop, with \<open>n\<close> passes left, \<open>iter\<close> being the next one. The result is \<open>None\<close> when a
  line-search does not end; otherwise it holds the error that leaves the loop, if any,
  and the solver and the iterate at that moment.
\<close>

fun sqpLoop ::
  "('d, 'c, 'h) Env \<Rightarrow> scalar_array_t \<Rightarrow> vector_t \<Rightarrow> nat \<Rightarrow> nat \<Rightarrow>
   ('d, 'c, 'h) Solver \<Rightarrow> vector_array_t \<Rightarrow> vector_array_t \<Rightarrow>
   (error option \<times> ('d, 'c, 'h) Solver \<times> vector_array_t \<times> vector_array_t) option" where
  "sqpLoop env time initState 0 iter s x u = Some (None, s, x, u)"
| "sqpLoop env time initState (Suc n) iter s x u =
     (case sqpStep env time initState iter s x u of
        None \<Rightarrow> None
      | Some (Inl e, s', x', u') \<Rightarrow> Some (Some e, s', x', u')
      | Some (Inr converged, s', x', u') \<Rightarrow>
          if converged then Some (None, s', x', u')
          else sqpLoop env time initState n (Suc iter) s' x' u')"

text \<open>
  The solver and the iterate with which pass \<open>iter + j\<close> starts: \<open>Some\<close> when the \<open>j\<close> passes
  from \<open>iter\<close> on have all reached the test of \<^verbatim>\<open>converged\<close> and found it false.
\<close>

fun sqpAfter ::
  "('d, 'c, 'h) Env \<Rightarrow> scalar_array_t \<Rightarrow> vector_t \<Rightarrow> nat \<Rightarrow> nat \<Rightarrow>
   ('d, 'c, 'h) Solver \<Rightarrow> vector_array_t \<Rightarrow> vector_array_t \<Rightarrow>
   (('d, 'c, 'h) Solver \<times> vector_array_t \<times> vector_array_t) option" where
  "sqpAfter env time initState 0 iter s x u = Some (s, x, u)"
| "sqpAfter env time initState (Suc j) iter s x u =
     (case sqpStep env time initState iter s x u of
        None \<Rightarrow> None
      | Some (r, s', x', u') \<Rightarrow>
          if r = Inr False then sqpAfter env time initState j (Suc iter) s' x' u' else None)"

text \<open>``Store result in PrimalSolution'': the three trajectories are moved in, the last
  input is repeated, the mode schedule is copied.\<close>

definition storePrimalSolution ::
  "('d, 'c, 'h) Solver \<Rightarrow> scalar_array_t \<Rightarrow> vector_array_t \<Rightarrow> vector_array_t \<Rightarrow>
   error + ('d, 'c, 'h) Solver" where
  "storePrimalSolution s timeDiscretization x u =
     bindE (backOf u) (\<lambda>uLast.
       Inr (s\<lparr>primalSolution := (primalSolution s)
                 \<lparr>timeTrajectory := timeDiscretization,
                  stateTrajectory := x,
                  inputTrajectory := u @ [uLast],
                  modeSchedule := eventTimes s\<rparr>\<rparr>))"

text \<open>The bodies of the two controller loops at node \<open>i\<close>: the feedforward sample and the
  gain that are pushed.\<close>

definition projectedFeedbackNode ::
  "ConstraintBlock list \<Rightarrow> matrix_array_t \<Rightarrow> vector_array_t \<Rightarrow>
   vector_array_t \<Rightarrow> int \<Rightarrow> error + vector_t \<times> matrix_t" where
  "projectedFeedbackNode cs KMatrices inputs states i =
     bindE (atIdx cs i) (\<lambda>c. bindE (atIdx KMatrices i) (\<lambda>K.
     bindE (atIdx inputs i) (\<lambda>ui. bindE (atIdx states i) (\<lambda>xi.
       let gain = madd (dfdx c) (mmul (dfdu c) K)
       in Inr (vsub ui (matvec gain xi), gain)))))"

definition plainFeedbackNode ::
  "matrix_array_t \<Rightarrow> vector_array_t \<Rightarrow> vector_array_t \<Rightarrow> int \<Rightarrow> error + vector_t \<times> matrix_t" where
  "plainFeedbackNode KMatrices inputs states i =
     bindE (atIdx inputs i) (\<lambda>ui. bindE (atIdx KMatrices i) (\<lambda>K.
     bindE (atIdx states i) (\<lambda>xi.
       Inr (vsub ui (matvec K xi), K))))"

text \<open>\<^verbatim>\<open>v.push_back(v.back())\<close>.\<close>

definition duplicateLast :: "'a list \<Rightarrow> error + 'a list" where
  "duplicateLast v = bindE (backOf v) (\<lambda>l. Inr (v @ [l]))"

text \<open>The projected loop moves \<^verbatim>\<open>constraints_[i].dfdx\<close> out of the stored block for
  \<open>i < N\<close>; an Eigen matrix that has been moved from is empty.\<close>

definition movedFrom ::
  "int \<Rightarrow> ConstraintBlock list \<Rightarrow> ConstraintBlock list" where
  "movedFrom N cs =
     map (\<lambda>(i, c). if int i < N then c\<lparr>dfdx := Matrix 0 []\<rparr> else c) (enumerate 0 cs)"

text \<open>``Compute controller'', on the solver that holds the stored primal solution.\<close>

definition computeController ::
  "('d, 'c, 'h) Env \<Rightarrow> ('d, 'c, 'h) Solver \<Rightarrow> int \<Rightarrow> error + ('d, 'c, 'h) Solver" where
  "computeController env s N =
     bindE (frontOf (constraintPtr s)) (\<lambda>hasConstraint.
       let st = settings s;
           ps = primalSolution s;
           feedforward = FeedforwardController (timeTrajectory ps) (inputTrajectory ps)
       in if hasConstraint \<and> projectStateInputEqualityConstraints st then
            if controllerFeedback st then
              bindE (atIdx (dynamicsQP s) 0) (\<lambda>d0. bindE (atIdx (costQP s) 0) (\<lambda>c0.
              bindE (mapE (projectedFeedbackNode (constraintsQP s)
                             (getRiccatiFeedback env (hpipmInterface s) d0 c0)
                             (inputTrajectory ps) (stateTrajectory ps))
                       (map int [0..<nat N])) (\<lambda>nodes.
              bindE (duplicateLast (map fst nodes)) (\<lambda>uff.
              bindE (duplicateLast (map snd nodes)) (\<lambda>controllerGain.
                Inr (s\<lparr>constraintsQP := movedFrom N (constraintsQP s),
                       primalSolution :=
                         ps\<lparr>controllerPtr :=
                              Some (LinearController (timeTrajectory ps) uff controllerGain)\<rparr>\<rparr>))))))
            else Inr (s\<lparr>primalSolution := ps\<lparr>controllerPtr := Some feedforward\<rparr>\<rparr>)
          else
            if controllerFeedback st then
              bindE (atIdx (dynamicsQP s) 0) (\<lambda>d0. bindE (atIdx (costQP s) 0) (\<lambda>c0.
              bindE (mapE (plainFeedbackNode (getRiccatiFeedback env (hpipmInterface s) d0 c0)
                             (inputTrajectory ps) (stateTrajectory ps))
                       (map int [0..<nat N])) (\<lambda>nodes.
              bindE (duplicateLast (map fst nodes)) (\<lambda>uff.
              bindE (duplicateLast (map snd nodes)) (\<lambda>controllerGain.
                Inr (s\<lparr>primalSolution :=
                         ps\<lparr>controllerPtr :=
                              Some (LinearController (timeTrajectory ps) uff controllerGain)\<rparr>\<rparr>))))))
            else Inr (s\<lparr>primalSolution := ps\<lparr>controllerPtr := Some feedforward\<rparr>\<rparr>))"

text \<open>
  \<^verbatim>\<open>runImpl\<close> (its parameter \<^verbatim>\<open>partitioningTimes\<close> is not used). The result is \<open>None\<close> when
  a line-search does not end, \<open>Some (None, s')\<close> when the call returns with the solver
  \<open>s'\<close>, and \<open>Some (Some e, s')\<close> when it is left by the error \<open>e\<close> with the solver \<open>s'\<close>.
\<close>

definition runImpl ::
  "('d, 'c, 'h) Env \<Rightarrow> ('d, 'c, 'h) Solver \<Rightarrow> scalar_t \<Rightarrow> vector_t \<Rightarrow> scalar_t \<Rightarrow>
   (error option \<times> ('d, 'c, 'h) Solver) option" where
  "runImpl env s initTime initState finalTime =
     (let timeDiscretization =
            timeDiscretizationWithEvents env initTime finalTime (dt (settings s)) (eventTimes s);
          N = int (length timeDiscretization) - 1
      in case initializeStateTrajectory env s initState timeDiscretization N of
           Inl e \<Rightarrow> Some (Some e, s)
         | Inr x \<Rightarrow>
             (case initializeInputTrajectory env s timeDiscretization x N of
                Inl e \<Rightarrow> Some (Some e, s)
              | Inr u \<Rightarrow>
                  (case sqpLoop env timeDiscretization initState
                          (nat (sqpIteration (settings s))) 0
                          (s\<lparr>performanceIndeces := []\<rparr>) x u of
                     None \<Rightarrow> None
                   | Some (Some e, s1, x', u') \<Rightarrow> Some (Some e, s1)
                   | Some (None, s1, x', u') \<Rightarrow>
                       (case storePrimalSolution s1 timeDiscretization x' u' of
                          Inl e \<Rightarrow> Some (Some e, s1)
                        | Inr s2 \<Rightarrow>
                            (case computeController env s2 N of
                               Inl e \<Rightarrow> Some (Some e, s2)
                             | Inr s3 \<Rightarrow> Some (None, s3))))))"

subsection \<open>The time grid\<close>

text \<open>
  Modelled from the spec: \<^verbatim>\<open>multiple_shooting::timeDiscretizationWithEvents\<close> is not among
  the sources at hand. The spec (sections 3, 4.1 and 8) gives its output for the times
  \<open>t0\<close> and \<open>tf\<close> as a grid \<open>t\<^sub>0 .. t\<^sub>N\<close> with \<open>t\<^sub>0 = t0\<close> and \<open>t\<^sub>N = tf\<close> that is strictly
  increasing (an event time \<open>e\<close> appears twice, as \<open>t\<^sub>k = e\<close> and \<open>t\<^sub>k\<^sub>+\<^sub>1 = e + \<epsilon>\<close> with the
  tolerance \<open>\<epsilon> > 0\<close>). \<open>timeGridContract t0 tf grid\<close> says that \<open>grid\<close> is such an output.
\<close>

definition timeGridContract :: "scalar_t \<Rightarrow> scalar_t \<Rightarrow> scalar_array_t \<Rightarrow> bool" where
  "timeGridContract t0 tf grid \<longleftrightarrow>
     grid \<noteq> [] \<and> hd grid = t0 \<and> last grid = tf \<and> sorted_wrt (<) grid"

subsection \<open>Rounding to a double\<close>







subsection \<open>A concrete instance\<close>

text \<open>
  A one-interval problem with scalar state and input, used to run the definitions, on
  two workers that claim the time indices in turn, in exact arithmetic. The stage index
  measures the defect of \<open>x + u\<close> against the next state, the terminal index the squared
  terminal state (with a merit of its own, \<open>7\<close>, that the aggregation must discard). With
  a constraint the stored block of the intermediate node is \<open>f = [3]\<close>, \<open>dfdx = [[2]]\<close>,
  \<open>dfdu = [[1]]\<close>; without one the blocks are empty. The state of the QP back end counts
  the solves: the back end always proposes the step \<open>\<Delta>x = [[0], [-1]]\<close>, \<open>\<Delta>u = [[-1]]\<close>, with
  success for the first \<open>okSolves\<close> solves and failure afterwards, and the Riccati gain is
  \<open>[[5]]\<close>.
\<close>

definition exSettings :: "bool \<Rightarrow> bool \<Rightarrow> int \<Rightarrow> Settings" where
  "exSettings project feedback threads =
     \<lparr>sqpIteration = 1, deltaTol = 1 / 10, costTol = 1 / 10, alpha_decay = 1 / 2,
      alpha_min = 1 / 4, gamma_c = 1 / 10, g_max = 10, g_min = 1 / 10, dt = 1,
      projectStateInputEqualityConstraints = project, controllerFeedback = feedback,
      n_state = 1, n_input = 1, nThreads = threads\<rparr>"

definition exStage :: "vector_t \<Rightarrow> vector_t \<Rightarrow> vector_t \<Rightarrow> PerformanceIndex" where
  "exStage x xNext u =
     PerformanceIndex0\<lparr>stateEqConstraintISE := squaredNorm (vsub (vadd x u) xNext)\<rparr>"

definition exTerminal :: "vector_t \<Rightarrow> PerformanceIndex" where
  "exTerminal x = PerformanceIndex0\<lparr>merit := 7, totalCost := squaredNorm x\<rparr>"

definition exBlock :: "bool \<Rightarrow> ConstraintBlock" where
  "exBlock hasConstraint =
     (if hasConstraint then \<lparr>f = [3], dfdx = Matrix 1 [[2]], dfdu = Matrix 1 [[1]]\<rparr>
      else \<lparr>f = [], dfdx = Matrix 0 [], dfdu = Matrix 0 []\<rparr>)"

definition exEnv :: "bool \<Rightarrow> int \<Rightarrow> (unit, unit, nat) Env" where
  "exEnv hasConstraint okSolves =
     \<lparr>timeDiscretizationWithEvents = (\<lambda>t0 tf h ev. if t0 < tf then [t0, tf] else [t0]),
      setupIntermediateNode = (\<lambda>w project t h x xNext u.
         \<lparr>performance = exStage x xNext u, dynamics = (), cost = (),
          constraints = exBlock hasConstraint\<rparr>),
      setupTerminalNode = (\<lambda>w t x.
         \<lparr>performanceT = exTerminal x, costT = (), constraintsT = exBlock False\<rparr>),
      computeIntermediatePerformance = (\<lambda>w t h x xNext u. exStage x xNext u),
      computeTerminalPerformance = (\<lambda>w t x. exTerminal x),
      hpipmResize = (\<lambda>sz h. h),
      hpipmSolve = (\<lambda>h dx0 ds cs0 cs.
         (if int h < okSolves then SUCCESS else NON_SUCCESS, [[0], [- 1]], [[- 1]], Suc h)),
      getRiccatiFeedback = (\<lambda>h d c. [Matrix 1 [[5]]]),
      interpolate = (\<lambda>t ts vs. [0]),
      getSystemOperatingTrajectories = (\<lambda>x t tNext. [[0]]),
      schedule = (\<lambda>iter r i. i mod 2),
      roundScalar = (\<lambda>a. a)\<rparr>"

definition exSolver :: "bool \<Rightarrow> bool \<Rightarrow> bool \<Rightarrow> int \<Rightarrow> (unit, unit, nat) Solver" where
  "exSolver hasConstraint project feedback threads =
     \<lparr>settings = exSettings project feedback threads,
      constraintPtr = replicate (nat threads) hasConstraint,
      terminalCostFunctionPtr = True,
      operatingTrajectoriesPtr = False,
      eventTimes = [],
      primalSolution = \<lparr>timeTrajectory = [], stateTrajectory = [], inputTrajectory = [],
                         modeSchedule = [], controllerPtr = None\<rparr>,
      performanceIndeces = [],
      totalNumIterations = 0,
      dynamicsQP = [], costQP = [], constraintsQP = [],
      hpipmInterface = 0\<rparr>"

text \<open>A baseline index of merit \<open>m\<close> and no violation.\<close>

definition exBaseline :: "scalar_t \<Rightarrow> PerformanceIndex" where
  "exBaseline m = PerformanceIndex0\<lparr>merit := m, totalCost := m\<rparr>"

text \<open>The solver of the instance after the assembly of the first pass, after the QP solve
  of the first pass, the solver that a one-pass solve returns, and a solver that makes
  no pass.\<close>

definition exQP :: "bool \<Rightarrow> bool \<Rightarrow> bool \<Rightarrow> (unit, unit, nat) Solver" where
  "exQP hasConstraint project feedback =
     (exSolver hasConstraint project feedback 2)
       \<lparr>performanceIndeces := [exBaseline 1], dynamicsQP := [()], costQP := [(), ()],
        constraintsQP := [exBlock hasConstraint, exBlock False]\<rparr>"

definition exSolved :: "bool \<Rightarrow> bool \<Rightarrow> bool \<Rightarrow> (unit, unit, nat) Solver" where
  "exSolved hasConstraint project feedback =
     (exQP hasConstraint project feedback)\<lparr>hpipmInterface := Suc 0\<rparr>"

definition exReturned ::
  "bool \<Rightarrow> bool \<Rightarrow> bool \<Rightarrow> vector_array_t \<Rightarrow> vector_array_t \<Rightarrow> Controller \<Rightarrow>
   (unit, unit, nat) Solver" where
  "exReturned hasConstraint project feedback x u controller =
     (exSolved hasConstraint project feedback)
       \<lparr>totalNumIterations := Suc 0,
        constraintsQP := (if hasConstraint \<and> project \<and> feedback
                          then [(exBlock True)\<lparr>dfdx := Matrix 0 []\<rparr>, exBlock False]
                          else [exBlock hasConstraint, exBlock False]),
        primalSolution := \<lparr>timeTrajectory = [0, 1], stateTrajectory = x,
                            inputTrajectory = u, modeSchedule = [],
                            controllerPtr = Some controller\<rparr>\<rparr>"

definition exNoIteration :: "(unit, unit, nat) Solver" where
  "exNoIteration =
     (exSolver False False False 2)\<lparr>settings := (exSettings False False 2)\<lparr>sqpIteration := 0\<rparr>\<rparr>"

text \<open>A solver that makes up to two passes, and that solver during its passes: with the
  stored blocks, the indices pushed so far, \<open>iters\<close> passes counted and \<open>solves\<close> QP solves
  made.\<close>

definition exTwoPasses :: "(unit, unit, nat) Solver" where
  "exTwoPasses =
     (exSolver False False False 2)\<lparr>settings := (exSettings False False 2)\<lparr>sqpIteration := 2\<rparr>\<rparr>"

definition exPass :: "PerformanceIndex list \<Rightarrow> nat \<Rightarrow> nat \<Rightarrow> (unit, unit, nat) Solver" where
  "exPass indices iters solves =
     exTwoPasses
       \<lparr>performanceIndeces := indices, totalNumIterations := iters,
        dynamicsQP := [()], costQP := [(), ()],
        constraintsQP := [exBlock False, exBlock False], hpipmInterface := solves\<rparr>"



section \<open>Properties\<close>

subsection \<open>Auxiliary facts\<close>

subsubsection \<open>Errors and checked accesses\<close>

text \<open>Results of the error type, the checked accesses and the loops over an index range.\<close>

lemma bindE_Inr_iff: "bindE m k = Inr b \<longleftrightarrow> (\<exists>a. m = Inr a \<and> k a = Inr b)"
  by (cases m) (simp_all add: bindE_def)

lemma bindE_Inl_iff: "bindE m k = Inl e \<longleftrightarrow> m = Inl e \<or> (\<exists>a. m = Inr a \<and> k a = Inl e)"
  by (cases m) (simp_all add: bindE_def)

lemma bindE_Inr [simp]: "bindE (Inr a) k = k a"
  by (simp add: bindE_def)

lemma bindE_Inl [simp]: "bindE (Inl e) k = Inl e"
  by (simp add: bindE_def)

lemma atIdx_int [simp]: "i < length xs \<Longrightarrow> atIdx xs (int i) = Inr (xs ! i)"
  by (simp add: atIdx_def)

lemma atIdx_Inr_iff: "atIdx xs i = Inr a \<longleftrightarrow> 0 \<le> i \<and> i < int (length xs) \<and> a = xs ! nat i"
  by (auto simp add: atIdx_def)

lemma atIdx_Inl: "atIdx xs i = Inl e \<Longrightarrow> e = Undefined"
  by (simp add: atIdx_def split: if_splits)

lemma frontOf_Inl: "frontOf xs = Inl e \<Longrightarrow> e = Undefined"
  by (cases xs) (simp_all add: frontOf_def)

lemma backOf_Inl: "backOf xs = Inl e \<Longrightarrow> e = Undefined"
  by (simp add: backOf_def split: if_splits)

lemma backOf_Inr_iff: "backOf xs = Inr a \<longleftrightarrow> xs \<noteq> [] \<and> a = last xs"
  by (auto simp add: backOf_def)

lemma mapE_Inr_map:
  "(\<forall>a \<in> set xs. g a = Inr (h a)) \<Longrightarrow> mapE g xs = Inr (map h xs)"
  by (induction xs) simp_all

lemma mapE_length: "mapE g xs = Inr ys \<Longrightarrow> length ys = length xs"
  by (induction xs arbitrary: ys) (auto split: sum.splits)

lemma mapE_nth:
  "mapE g xs = Inr ys \<Longrightarrow> i < length xs \<Longrightarrow> g (xs ! i) = Inr (ys ! i)"
proof (induction xs arbitrary: ys i)
  case Nil
  then show ?case by simp
next
  case (Cons a as)
  then show ?case by (cases i) (auto split: sum.splits)
qed

lemma mapE_Inl: "mapE g xs = Inl e \<Longrightarrow> \<exists>a \<in> set xs. g a = Inl e"
  by (induction xs) (auto split: sum.splits)

lemma mapE_upt:
  "(\<forall>i<n. g (int i) = Inr (h i)) \<Longrightarrow> mapE g (map int [0..<n]) = Inr (map h [0..<n])"
  using mapE_Inr_map [of "map int [0..<n]" g "\<lambda>i. h (nat i)"] by (simp add: comp_def)

lemma mapE_upt_length:
  assumes "mapE (\<lambda>i. bindE (atIdx v i) (k i)) (map int [0..<n]) = Inr w"
  shows "n \<le> length v"
proof (rule ccontr)
  assume "\<not> n \<le> length v"
  then have "length v < length (map int [0..<n])" by simp
  from mapE_nth [OF assms this] show False
    using \<open>\<not> n \<le> length v\<close> by (simp add: atIdx_def)
qed

subsubsection \<open>Aggregation of the performance indices\<close>

text \<open>The sum over the workers, field by field, and the norm of a trajectory.\<close>

lemma merit_sumPerformance:
  "merit (sumPerformance rnd perf) =
     rnd (totalCost (sumPerformance rnd perf)
          + inequalityConstraintPenalty (sumPerformance rnd perf))"
  by (simp add: sumPerformance_def Let_def)





lemma foldl_squaredNorm:
  "foldl (\<lambda>norm vi. norm + squaredNorm vi) a v = a + sum_list (map (\<lambda>c. c\<^sup>2) (concat v))"
proof (induction v arbitrary: a)
  case Nil
  then show ?case by simp
next
  case (Cons w v)
  have "squaredNorm w = sum_list (map (\<lambda>c. c\<^sup>2) w)"
    by (induction w) (simp_all add: squaredNorm_def dot_def power2_eq_square)
  with Cons show ?case by simp
qed

lemma trajectoryNorm_concat:
  "trajectoryNorm v = sqrt (sum_list (map (\<lambda>c. c\<^sup>2) (concat v)))"
  by (simp add: trajectoryNorm_def foldl_squaredNorm)

subsubsection \<open>The line-search loop\<close>

text \<open>The outcome of one pass, the loop as a whole (what it returns when it returns, and that
  it returns when the step size reaches \<open>alpha_min\<close>), and the lengths of the candidates.\<close>

lemma lineSearchStep_Inl_iff:
  "lineSearchStep env s sched baseline time initState dx du x u alpha = Inl e
   \<longleftrightarrow> candidate env s sched time initState dx du x u alpha = Inl e"
  by (cases "candidate env s sched time initState dx du x u alpha")
     (auto simp add: lineSearchStep_def split: prod.splits)

lemma lineSearchStep_None_iff:
  "lineSearchStep env s sched baseline time initState dx du x u alpha = Inr None
   \<longleftrightarrow> (\<exists>xNew uNew p. candidate env s sched time initState dx du x u alpha = Inr (xNew, uNew, p)
          \<and> \<not> stepAccepted (settings s) baseline p
          \<and> \<not> stepSizeBelowTol (settings s) dx du alpha)"
  by (cases "candidate env s sched time initState dx du x u alpha")
     (auto simp add: lineSearchStep_def split: prod.splits)

lemma lineSearchStep_Some_iff:
  "lineSearchStep env s sched baseline time initState dx du x u alpha = Inr (Some r)
   \<longleftrightarrow> (\<exists>xNew uNew p. candidate env s sched time initState dx du x u alpha = Inr (xNew, uNew, p)
          \<and> (if stepAccepted (settings s) baseline p
             then r = (stepSizeBelowTol (settings s) dx du alpha
                       \<or> improvementBelowTol (settings s) baseline p, xNew, uNew)
             else stepSizeBelowTol (settings s) dx du alpha \<and> r = (True, x, u)))"
  by (cases "candidate env s sched time initState dx du x u alpha")
     (auto simp add: lineSearchStep_def split: prod.splits)

lemma takeStepLoop_partial:
  assumes "takeStepLoop env s scheds baseline time initState dx du x u alpha k = Some res"
  shows "\<exists>n. (\<forall>j<n. alpha_min (settings s) < alpha * alpha_decay (settings s) ^ j
                 \<and> lineSearchStep env s (scheds (k + j)) baseline time initState dx du x u
                      (alpha * alpha_decay (settings s) ^ j) = Inr None)
           \<and> ((\<not> alpha_min (settings s) < alpha * alpha_decay (settings s) ^ n
               \<and> res = Inr (True, x, u))
              \<or> (alpha_min (settings s) < alpha * alpha_decay (settings s) ^ n
                  \<and> (\<exists>e. lineSearchStep env s (scheds (k + n)) baseline time initState dx du x u
                             (alpha * alpha_decay (settings s) ^ n) = Inl e \<and> res = Inl e))
              \<or> (alpha_min (settings s) < alpha * alpha_decay (settings s) ^ n
                  \<and> (\<exists>r. lineSearchStep env s (scheds (k + n)) baseline time initState dx du x u
                             (alpha * alpha_decay (settings s) ^ n) = Inr (Some r) \<and> res = Inr r)))"
proof -
  let ?Q = "\<lambda>env s scheds baseline time initState dx du x u alpha k res.
     \<exists>n. (\<forall>j<n. alpha_min (settings s) < alpha * alpha_decay (settings s) ^ j
                 \<and> lineSearchStep env s (scheds (k + j)) baseline time initState dx du x u
                      (alpha * alpha_decay (settings s) ^ j) = Inr None)
           \<and> ((\<not> alpha_min (settings s) < alpha * alpha_decay (settings s) ^ n
               \<and> res = Inr (True, x, u))
              \<or> (alpha_min (settings s) < alpha * alpha_decay (settings s) ^ n
                  \<and> (\<exists>e. lineSearchStep env s (scheds (k + n)) baseline time initState dx du x u
                             (alpha * alpha_decay (settings s) ^ n) = Inl e \<and> res = Inl e))
              \<or> (alpha_min (settings s) < alpha * alpha_decay (settings s) ^ n
                  \<and> (\<exists>r. lineSearchStep env s (scheds (k + n)) baseline time initState dx du x u
                             (alpha * alpha_decay (settings s) ^ n) = Inr (Some r) \<and> res = Inr r)))"
  have "?Q env s scheds baseline time initState dx du x u alpha k res"
  proof (rule takeStepLoop.raw_induct
      [where P = ?Q
         and xa = "(((((((((((env, s), scheds), baseline), time), initState), dx), du), x), u), alpha), k)"
         and y = res, simplified prod.case])
    show "takeStepLoop env s scheds baseline time initState dx du x u alpha k = Some res"
      by (rule assms)
  next
    fix loop env s scheds baseline time initState dx du x u alpha k res
    assume IH: "\<And>env s scheds baseline time initState dx du x u alpha k res.
        loop env s scheds baseline time initState dx du x u alpha k = Some res \<Longrightarrow>
        ?Q env s scheds baseline time initState dx du x u alpha k res"
    assume body: "(if alpha_min (settings s) < alpha
      then case lineSearchStep env s (scheds k) baseline time initState dx du x u alpha of
           Inl e \<Rightarrow> Some (Inl e)
           | Inr None \<Rightarrow>
               loop env s scheds baseline time initState dx du x u
                (alpha * alpha_decay (settings s)) (Suc k)
           | Inr (Some r) \<Rightarrow> Some (Inr r)
      else Some (Inr (True, x, u))) = Some res"
    show "?Q env s scheds baseline time initState dx du x u alpha k res"
    proof (cases "alpha_min (settings s) < alpha")
      case False
      with body show ?thesis by (intro exI [of _ 0]) simp
    next
      case True
      show ?thesis
      proof (cases "lineSearchStep env s (scheds k) baseline time initState dx du x u alpha")
        case (Inl e)
        with True body show ?thesis by (intro exI [of _ 0]) auto
      next
        case (Inr r)
        show ?thesis
        proof (cases r)
          case (Some r')
          with Inr True body show ?thesis by (intro exI [of _ 0]) auto
        next
          case None
          with Inr True body have
            "loop env s scheds baseline time initState dx du x u
                (alpha * alpha_decay (settings s)) (Suc k) = Some res" by simp
          from IH [OF this] obtain n where
            n1: "\<forall>j<n. alpha_min (settings s) < alpha * alpha_decay (settings s) * alpha_decay (settings s) ^ j
                 \<and> lineSearchStep env s (scheds (Suc k + j)) baseline time initState dx du x u
                      (alpha * alpha_decay (settings s) * alpha_decay (settings s) ^ j) = Inr None"
            and n2: "((\<not> alpha_min (settings s) < alpha * alpha_decay (settings s) * alpha_decay (settings s) ^ n
               \<and> res = Inr (True, x, u))
              \<or> (alpha_min (settings s) < alpha * alpha_decay (settings s) * alpha_decay (settings s) ^ n
                  \<and> (\<exists>e. lineSearchStep env s (scheds (Suc k + n)) baseline time initState dx du x u
                             (alpha * alpha_decay (settings s) * alpha_decay (settings s) ^ n) = Inl e \<and> res = Inl e))
              \<or> (alpha_min (settings s) < alpha * alpha_decay (settings s) * alpha_decay (settings s) ^ n
                  \<and> (\<exists>r. lineSearchStep env s (scheds (Suc k + n)) baseline time initState dx du x u
                             (alpha * alpha_decay (settings s) * alpha_decay (settings s) ^ n) = Inr (Some r) \<and> res = Inr r)))"
            by blast
          have "\<forall>j<Suc n. alpha_min (settings s) < alpha * alpha_decay (settings s) ^ j
                 \<and> lineSearchStep env s (scheds (k + j)) baseline time initState dx du x u
                      (alpha * alpha_decay (settings s) ^ j) = Inr None"
          proof (intro allI impI)
            fix j assume "j < Suc n"
            show "alpha_min (settings s) < alpha * alpha_decay (settings s) ^ j
                 \<and> lineSearchStep env s (scheds (k + j)) baseline time initState dx du x u
                      (alpha * alpha_decay (settings s) ^ j) = Inr None"
            proof (cases j)
              case 0
              with True Inr None show ?thesis by simp
            next
              case (Suc j')
              with \<open>j < Suc n\<close> have "j' < n" by simp
              with n1 Suc show ?thesis by (simp add: mult.assoc)
            qed
          qed
          moreover
          have e1: "alpha * alpha_decay (settings s) * alpha_decay (settings s) ^ n
                    = alpha * alpha_decay (settings s) ^ Suc n" by simp
          have e2: "Suc k + n = k + Suc n" by simp
          from n2 have "((\<not> alpha_min (settings s) < alpha * alpha_decay (settings s) ^ Suc n
               \<and> res = Inr (True, x, u))
              \<or> (alpha_min (settings s) < alpha * alpha_decay (settings s) ^ Suc n
                  \<and> (\<exists>e. lineSearchStep env s (scheds (k + Suc n)) baseline time initState dx du x u
                             (alpha * alpha_decay (settings s) ^ Suc n) = Inl e \<and> res = Inl e))
              \<or> (alpha_min (settings s) < alpha * alpha_decay (settings s) ^ Suc n
                  \<and> (\<exists>r. lineSearchStep env s (scheds (k + Suc n)) baseline time initState dx du x u
                             (alpha * alpha_decay (settings s) ^ Suc n) = Inr (Some r) \<and> res = Inr r)))"
            unfolding e1 e2 .
          ultimately show ?thesis by blast
        qed
      qed
    qed
  qed
  then show ?thesis .
qed

lemma takeStepLoop_terminates:
  "alpha * alpha_decay (settings s) ^ n \<le> alpha_min (settings s) \<Longrightarrow>
   \<exists>res. takeStepLoop env s scheds baseline time initState dx du x u alpha k = Some res"
proof (induction n arbitrary: alpha k)
  case 0
  then show ?case by (subst takeStepLoop.simps) simp
next
  case (Suc n)
  show ?case
  proof (cases "alpha_min (settings s) < alpha")
    case False
    then show ?thesis by (subst takeStepLoop.simps) simp
  next
    case True
    from Suc.prems have
      "alpha * alpha_decay (settings s) * alpha_decay (settings s) ^ n \<le> alpha_min (settings s)"
      by (simp add: mult.assoc)
    from Suc.IH [OF this] obtain res where
      "takeStepLoop env s scheds baseline time initState dx du x u
         (alpha * alpha_decay (settings s)) (Suc k) = Some res"
      by blast
    with True show ?thesis
      by (subst takeStepLoop.simps) (simp split: sum.splits option.splits)
  qed
qed

lemma takeStep_terminates:
  assumes "alpha_decay (settings s) < 1" and "0 < alpha_min (settings s)"
  shows "\<exists>res. takeStep env s scheds baseline time initState dx du x u = Some res"
proof -
  from real_arch_pow_inv [OF assms(2) assms(1)] obtain n where
    "alpha_decay (settings s) ^ n < alpha_min (settings s)" by blast
  then have "1 * alpha_decay (settings s) ^ n \<le> alpha_min (settings s)" by simp
  from takeStepLoop_terminates [OF this] show ?thesis
    by (simp add: takeStep_def)
qed

lemma takeStep_outcome:
  assumes "takeStep env s scheds baseline time initState dx du x u = Some (Inr (converged, x', u'))"
  shows "\<exists>k. (\<forall>j<k. alpha_min (settings s) < alpha_decay (settings s) ^ j
                 \<and> (\<exists>xNew uNew p.
                       candidate env s (scheds j) time initState dx du x u
                         (alpha_decay (settings s) ^ j) = Inr (xNew, uNew, p)
                     \<and> \<not> stepAccepted (settings s) baseline p
                     \<and> \<not> stepSizeBelowTol (settings s) dx du (alpha_decay (settings s) ^ j)))
           \<and> (if alpha_min (settings s) < alpha_decay (settings s) ^ k
              then \<exists>xNew uNew p.
                     candidate env s (scheds k) time initState dx du x u
                       (alpha_decay (settings s) ^ k) = Inr (xNew, uNew, p)
                   \<and> (if stepAccepted (settings s) baseline p
                      then converged = (stepSizeBelowTol (settings s) dx du (alpha_decay (settings s) ^ k)
                                        \<or> improvementBelowTol (settings s) baseline p)
                           \<and> x' = xNew \<and> u' = uNew
                      else stepSizeBelowTol (settings s) dx du (alpha_decay (settings s) ^ k)
                           \<and> converged \<and> x' = x \<and> u' = u)
              else converged \<and> x' = x \<and> u' = u)"
proof -
  from assms have
    "takeStepLoop env s scheds baseline time initState dx du x u 1 0 = Some (Inr (converged, x', u'))"
    by (simp add: takeStep_def)
  from takeStepLoop_partial [OF this] obtain n where
    rej: "\<forall>j<n. alpha_min (settings s) < alpha_decay (settings s) ^ j
                 \<and> lineSearchStep env s (scheds j) baseline time initState dx du x u
                      (alpha_decay (settings s) ^ j) = Inr None"
    and stop: "(\<not> alpha_min (settings s) < alpha_decay (settings s) ^ n
                \<and> converged \<and> x' = x \<and> u' = u)
               \<or> (alpha_min (settings s) < alpha_decay (settings s) ^ n
                   \<and> lineSearchStep env s (scheds n) baseline time initState dx du x u
                             (alpha_decay (settings s) ^ n) = Inr (Some (converged, x', u')))"
    by auto
  show ?thesis
  proof (intro exI [of _ n] conjI)
    from rej show "\<forall>j<n. alpha_min (settings s) < alpha_decay (settings s) ^ j
                 \<and> (\<exists>xNew uNew p.
                       candidate env s (scheds j) time initState dx du x u
                         (alpha_decay (settings s) ^ j) = Inr (xNew, uNew, p)
                     \<and> \<not> stepAccepted (settings s) baseline p
                     \<and> \<not> stepSizeBelowTol (settings s) dx du (alpha_decay (settings s) ^ j))"
      by (simp add: lineSearchStep_None_iff)
  next
    show "if alpha_min (settings s) < alpha_decay (settings s) ^ n
              then \<exists>xNew uNew p.
                     candidate env s (scheds n) time initState dx du x u
                       (alpha_decay (settings s) ^ n) = Inr (xNew, uNew, p)
                   \<and> (if stepAccepted (settings s) baseline p
                      then converged = (stepSizeBelowTol (settings s) dx du (alpha_decay (settings s) ^ n)
                                        \<or> improvementBelowTol (settings s) baseline p)
                           \<and> x' = xNew \<and> u' = uNew
                      else stepSizeBelowTol (settings s) dx du (alpha_decay (settings s) ^ n)
                           \<and> converged \<and> x' = x \<and> u' = u)
              else converged \<and> x' = x \<and> u' = u"
    proof (cases "alpha_min (settings s) < alpha_decay (settings s) ^ n")
      case False
      with stop show ?thesis by simp
    next
      case True
      with stop have
        "lineSearchStep env s (scheds n) baseline time initState dx du x u
           (alpha_decay (settings s) ^ n) = Inr (Some (converged, x', u'))"
        by blast
      then show ?thesis using True
        by (auto simp add: lineSearchStep_Some_iff split: if_splits)
    qed
  qed
qed

lemma stepTrajectory_length:
  assumes "stepTrajectory n alpha v dv = Inr w"
  shows "length w = length v"
proof -
  from assms obtain new where
    m: "mapE (\<lambda>i. bindE (atIdx v i) (\<lambda>vi. bindE (atIdx dv i) (\<lambda>dvi.
                    Inr (vadd vi (smul alpha dvi))))) (map int [0..<nat n]) = Inr new"
    and w: "w = new @ replicate (length v - nat n) []"
    by (auto simp add: stepTrajectory_def bindE_Inr_iff)
  from mapE_upt_length [OF m] have "nat n \<le> length v" .
  moreover from mapE_length [OF m] have "length new = nat n" by simp
  ultimately show ?thesis using w by simp
qed

lemma candidate_length:
  "candidate env s sched time initState dx du x u alpha = Inr (xNew, uNew, p) \<Longrightarrow>
   length xNew = length x \<and> length uNew = length u"
  by (auto simp add: candidate_def Let_def bindE_Inr_iff dest: stepTrajectory_length)

lemma takeStep_length:
  assumes "takeStep env s scheds baseline time initState dx du x u = Some (Inr (converged, x', u'))"
  shows "length x' = length x \<and> length u' = length u"
proof -
  from takeStep_outcome [OF assms] obtain k where
    "if alpha_min (settings s) < alpha_decay (settings s) ^ k
              then \<exists>xNew uNew p.
                     candidate env s (scheds k) time initState dx du x u
                       (alpha_decay (settings s) ^ k) = Inr (xNew, uNew, p)
                   \<and> (if stepAccepted (settings s) baseline p
                      then converged = (stepSizeBelowTol (settings s) dx du (alpha_decay (settings s) ^ k)
                                        \<or> improvementBelowTol (settings s) baseline p)
                           \<and> x' = xNew \<and> u' = uNew
                      else stepSizeBelowTol (settings s) dx du (alpha_decay (settings s) ^ k)
                           \<and> converged \<and> x' = x \<and> u' = u)
              else converged \<and> x' = x \<and> u' = u"
    by blast
  then show ?thesis
    by (auto split: if_splits dest: candidate_length)
qed

subsubsection \<open>The driver\<close>

text \<open>What the steps of \<^verbatim>\<open>runImpl\<close> preserve, and how \<^verbatim>\<open>runImpl\<close> returns or is left.\<close>

lemma setupQuadraticSubproblem_primal:
  "setupQuadraticSubproblem env s sched time initState x u = Inr (p, s1) \<Longrightarrow>
   primalSolution s1 = primalSolution s"
  by (auto simp add: setupQuadraticSubproblem_def Let_def bindE_Inr_iff split: if_splits)

lemma getOCPSolution_primal:
  "getOCPSolution env s delta_x0 = (r, s1) \<Longrightarrow> primalSolution s1 = primalSolution s"
  by (auto simp add: getOCPSolution_def Let_def split: sum.splits prod.splits if_splits)

lemma getOCPSolution_failure:
  assumes "frontOf (constraintPtr s) = Inr hasConstraint
    \<and> fst (hpipmSolve env (hpipmInterface s) deltaX (dynamicsQP s) (costQP s)
             (if hasConstraint \<and> \<not> projectStateInputEqualityConstraints (settings s)
              then Some (constraintsQP s) else None)) \<noteq> SUCCESS"
  shows "fst (getOCPSolution env s deltaX) = Inl QPSolveFailure"
proof -
  from assms have c: "frontOf (constraintPtr s) = Inr hasConstraint"
    and ns: "fst (hpipmSolve env (hpipmInterface s) deltaX (dynamicsQP s) (costQP s)
             (if hasConstraint \<and> \<not> projectStateInputEqualityConstraints (settings s)
              then Some (constraintsQP s) else None)) \<noteq> SUCCESS"
    by simp_all
  obtain status deltaXSol deltaUSol h where
    hp: "hpipmSolve env (hpipmInterface s) deltaX (dynamicsQP s) (costQP s)
             (if hasConstraint \<and> \<not> projectStateInputEqualityConstraints (settings s)
              then Some (constraintsQP s) else None) = (status, deltaXSol, deltaUSol, h)"
    by (cases "hpipmSolve env (hpipmInterface s) deltaX (dynamicsQP s) (costQP s)
             (if hasConstraint \<and> \<not> projectStateInputEqualityConstraints (settings s)
              then Some (constraintsQP s) else None)") auto
  with ns have "status \<noteq> SUCCESS" by simp
  with c hp show ?thesis
    by (simp add: getOCPSolution_def)
qed



lemma setupQuadraticSubproblem_settings:
  "setupQuadraticSubproblem env s sched time initState x u = Inr (p, s1) \<Longrightarrow>
   settings s1 = settings s \<and> constraintPtr s1 = constraintPtr s"
  by (auto simp add: setupQuadraticSubproblem_def Let_def bindE_Inr_iff split: if_splits)

lemma getOCPSolution_settings:
  "getOCPSolution env s delta_x0 = (r, s1) \<Longrightarrow>
   settings s1 = settings s \<and> constraintPtr s1 = constraintPtr s"
  by (auto simp add: getOCPSolution_def Let_def split: sum.splits prod.splits if_splits)

lemma sqpStep_frame:
  assumes "sqpStep env time initState iter s x u = Some (r, s', x', u')"
  shows "primalSolution s' = primalSolution s \<and> settings s' = settings s
         \<and> constraintPtr s' = constraintPtr s
         \<and> length x' = length x \<and> length u' = length u"
proof (cases "setupQuadraticSubproblem env s (schedule env iter 0) time initState x u")
  case (Inl e)
  with assms show ?thesis by (simp add: sqpStep_def)
next
  case (Inr ps)
  obtain perf s1 where ps: "ps = (perf, s1)" by (cases ps)
  let ?s2 = "s1\<lparr>performanceIndeces := performanceIndeces s1 @ [perf]\<rparr>"
  from Inr ps have p1: "primalSolution ?s2 = primalSolution s" "settings ?s2 = settings s"
    "constraintPtr ?s2 = constraintPtr s"
    by (simp_all add: setupQuadraticSubproblem_primal setupQuadraticSubproblem_settings)
  show ?thesis
  proof (cases "atIdx x 0")
    case (Inl e)
    with assms Inr ps p1 show ?thesis by (auto simp add: sqpStep_def Let_def)
  next
    case x0: (Inr x0)
    obtain q s3 where g: "getOCPSolution env ?s2 (vsub initState x0) = (q, s3)"
      by (cases "getOCPSolution env ?s2 (vsub initState x0)")
    from getOCPSolution_primal [OF g] getOCPSolution_settings [OF g] p1
    have p3: "primalSolution s3 = primalSolution s" "settings s3 = settings s"
      "constraintPtr s3 = constraintPtr s"
      by simp_all
    show ?thesis
    proof (cases q)
      case (Inl e)
      with assms Inr ps x0 g p3 show ?thesis by (auto simp add: sqpStep_def Let_def)
    next
      case q: (Inr dd)
      obtain delta_x delta_u where dd: "dd = (delta_x, delta_u)" by (cases dd)
      show ?thesis
      proof (cases "takeStep env s3 (\<lambda>k. schedule env iter (Suc k)) perf time
                             initState delta_x delta_u x u")
        case None
        with assms Inr ps x0 g q dd show ?thesis by (simp add: sqpStep_def Let_def)
      next
        case (Some res)
        show ?thesis
        proof (cases res)
          case (Inl e)
          with assms Inr ps x0 g q dd Some p3 show ?thesis
            by (auto simp add: sqpStep_def Let_def)
        next
          case res: (Inr cxu)
          obtain converged x1 u1 where cxu: "cxu = (converged, x1, u1)" by (cases cxu)
          from Some res cxu have
            "takeStep env s3 (\<lambda>k. schedule env iter (Suc k)) perf time
               initState delta_x delta_u x u = Some (Inr (converged, x1, u1))" by simp
          from takeStep_length [OF this] have
            len: "length x1 = length x \<and> length u1 = length u" .
          with assms Inr ps x0 g q dd Some res cxu p3 show ?thesis
            by (auto simp add: sqpStep_def Let_def)
        qed
      qed
    qed
  qed
qed

lemma sqpLoop_invariant:
  "sqpLoop env time initState n iter s x u = Some (r, s', x', u') \<Longrightarrow>
   primalSolution s' = primalSolution s
   \<and> (r = None \<longrightarrow> length x' = length x \<and> length u' = length u)"
proof (induction n arbitrary: iter s x u)
  case 0
  then show ?case by simp
next
  case (Suc n)
  from Suc.prems obtain q s1 x1 u1 where
    st: "sqpStep env time initState iter s x u = Some (q, s1, x1, u1)"
    by (auto split: option.splits)
  note fr = sqpStep_frame [OF st]
  show ?case
  proof (cases q)
    case (Inl e)
    with Suc.prems st fr show ?thesis by simp
  next
    case (Inr converged)
    show ?thesis
    proof (cases converged)
      case True
      with Suc.prems st Inr fr show ?thesis by simp
    next
      case False
      with Suc.prems st Inr have
        "sqpLoop env time initState n (Suc iter) s1 x1 u1 = Some (r, s', x', u')"
        by simp
      from Suc.IH [OF this] fr show ?thesis by simp
    qed
  qed
qed

lemma sqpAfter_frame:
  "sqpAfter env time initState j iter s x u = Some (s', x', u') \<Longrightarrow>
   primalSolution s' = primalSolution s \<and> settings s' = settings s
   \<and> constraintPtr s' = constraintPtr s"
proof (induction j arbitrary: iter s x u)
  case 0
  then show ?case by simp
next
  case (Suc j)
  from Suc.prems obtain s1 x1 u1 where
    st: "sqpStep env time initState iter s x u = Some (Inr False, s1, x1, u1)"
    and rest: "sqpAfter env time initState j (Suc iter) s1 x1 u1 = Some (s', x', u')"
    by (auto split: option.splits if_splits)
  from Suc.IH [OF rest] sqpStep_frame [OF st] show ?case by simp
qed

lemma sqpLoop_after:
  "sqpAfter env time initState j iter s x u = Some (sj, xj, uj) \<Longrightarrow>
   sqpLoop env time initState (j + m) iter s x u
     = sqpLoop env time initState m (iter + j) sj xj uj"
proof (induction j arbitrary: iter s x u)
  case 0
  then show ?case by simp
next
  case (Suc j)
  from Suc.prems obtain s1 x1 u1 where
    st: "sqpStep env time initState iter s x u = Some (Inr False, s1, x1, u1)"
    and rest: "sqpAfter env time initState j (Suc iter) s1 x1 u1 = Some (sj, xj, uj)"
    by (auto split: option.splits if_splits)
  from Suc.IH [OF rest] st show ?case by simp
qed

lemma sqpLoop_last:
  "sqpLoop env time initState n iter s x u = Some (None, sLast, xLast, uLast) \<Longrightarrow>
   (n = 0 \<and> sLast = s \<and> xLast = x \<and> uLast = u)
   \<or> (\<exists>j sj xj uj converged.
         j < n \<and> sqpAfter env time initState j iter s x u = Some (sj, xj, uj)
       \<and> sqpStep env time initState (iter + j) sj xj uj
           = Some (Inr converged, sLast, xLast, uLast)
       \<and> (converged \<or> Suc j = n))"
proof (induction n arbitrary: iter s x u)
  case 0
  then show ?case by simp
next
  case (Suc n)
  from Suc.prems obtain q s1 x1 u1 where
    st: "sqpStep env time initState iter s x u = Some (q, s1, x1, u1)"
    by (auto split: option.splits)
  from Suc.prems st obtain converged where q: "q = Inr converged"
    by (cases q) auto
  show ?case
  proof (cases converged)
    case True
    with Suc.prems st q have "sLast = s1 \<and> xLast = x1 \<and> uLast = u1" by simp
    with st q True have
      "0 < Suc n \<and> sqpAfter env time initState 0 iter s x u = Some (s, x, u)
       \<and> sqpStep env time initState (iter + 0) s x u
           = Some (Inr converged, sLast, xLast, uLast)
       \<and> (converged \<or> Suc 0 = Suc n)"
      by simp
    then show ?thesis by blast
  next
    case False
    with Suc.prems st q have
      loop: "sqpLoop env time initState n (Suc iter) s1 x1 u1 = Some (None, sLast, xLast, uLast)"
      by simp
    from Suc.IH [OF loop] show ?thesis
    proof
      assume "n = 0 \<and> sLast = s1 \<and> xLast = x1 \<and> uLast = u1"
      with st q False have
        "0 < Suc n \<and> sqpAfter env time initState 0 iter s x u = Some (s, x, u)
         \<and> sqpStep env time initState (iter + 0) s x u
             = Some (Inr converged, sLast, xLast, uLast)
         \<and> (converged \<or> Suc 0 = Suc n)"
        by simp
      then show ?thesis by blast
    next
      assume "\<exists>j sj xj uj converged.
         j < n \<and> sqpAfter env time initState j (Suc iter) s1 x1 u1 = Some (sj, xj, uj)
       \<and> sqpStep env time initState (Suc iter + j) sj xj uj
           = Some (Inr converged, sLast, xLast, uLast)
       \<and> (converged \<or> Suc j = n)"
      then obtain j sj xj uj c where
        j: "j < n" and aft: "sqpAfter env time initState j (Suc iter) s1 x1 u1 = Some (sj, xj, uj)"
        and stp: "sqpStep env time initState (Suc iter + j) sj xj uj
                    = Some (Inr c, sLast, xLast, uLast)"
        and fin: "c \<or> Suc j = n"
        by blast
      from st q False aft have
        "sqpAfter env time initState (Suc j) iter s x u = Some (sj, xj, uj)" by simp
      moreover from stp have
        "sqpStep env time initState (iter + Suc j) sj xj uj = Some (Inr c, sLast, xLast, uLast)"
        by simp
      moreover from j have "Suc j < Suc n" by simp
      moreover from fin have "c \<or> Suc (Suc j) = Suc n" by simp
      ultimately show ?thesis by blast
    qed
  qed
qed

lemma sqpStep_lastQP:
  assumes "sqpStep env time initState iter s x u = Some (Inr converged, s', x', u')"
  shows "\<exists>perf sQP xFront hasConstraint deltaXSol deltaUSol h.
           setupQuadraticSubproblem env s (schedule env iter 0) time initState x u
             = Inr (perf, sQP)
         \<and> atIdx x 0 = Inr xFront
         \<and> frontOf (constraintPtr sQP) = Inr hasConstraint
         \<and> hpipmSolve env (hpipmInterface sQP) (vsub initState xFront) (dynamicsQP sQP)
             (costQP sQP)
             (if hasConstraint \<and> \<not> projectStateInputEqualityConstraints (settings sQP)
              then Some (constraintsQP sQP) else None)
             = (SUCCESS, deltaXSol, deltaUSol, h)
         \<and> hpipmInterface s' = h \<and> dynamicsQP s' = dynamicsQP sQP
         \<and> costQP s' = costQP sQP \<and> constraintsQP s' = constraintsQP sQP"
proof (cases "setupQuadraticSubproblem env s (schedule env iter 0) time initState x u")
  case (Inl e)
  with assms show ?thesis by (simp add: sqpStep_def)
next
  case (Inr ps)
  obtain perf sQP where ps: "ps = (perf, sQP)" by (cases ps)
  let ?s2 = "sQP\<lparr>performanceIndeces := performanceIndeces sQP @ [perf]\<rparr>"
  show ?thesis
  proof (cases "atIdx x 0")
    case (Inl e)
    with assms Inr ps show ?thesis by (simp add: sqpStep_def Let_def)
  next
    case x0: (Inr xFront)
    obtain q s3 where g: "getOCPSolution env ?s2 (vsub initState xFront) = (q, s3)"
      by (cases "getOCPSolution env ?s2 (vsub initState xFront)")
    from assms Inr ps x0 g obtain dd where q: "q = Inr dd"
      by (cases q) (auto simp add: sqpStep_def Let_def)
    from assms Inr ps x0 g q have s': "s' = s3\<lparr>totalNumIterations := Suc (totalNumIterations s3)\<rparr>"
      by (auto simp add: sqpStep_def Let_def split: prod.splits option.splits sum.splits)
    from g q obtain hasConstraint where hc: "frontOf (constraintPtr sQP) = Inr hasConstraint"
      by (cases "frontOf (constraintPtr sQP)") (auto simp add: getOCPSolution_def)
    obtain status deltaXSol deltaUSol h where
      hp: "hpipmSolve env (hpipmInterface sQP) (vsub initState xFront) (dynamicsQP sQP)
             (costQP sQP)
             (if hasConstraint \<and> \<not> projectStateInputEqualityConstraints (settings sQP)
              then Some (constraintsQP sQP) else None)
             = (status, deltaXSol, deltaUSol, h)"
      by (cases "hpipmSolve env (hpipmInterface sQP) (vsub initState xFront) (dynamicsQP sQP)
             (costQP sQP)
             (if hasConstraint \<and> \<not> projectStateInputEqualityConstraints (settings sQP)
              then Some (constraintsQP sQP) else None)") auto
    from g q hc hp have "status = SUCCESS \<and> s3 = ?s2\<lparr>hpipmInterface := h\<rparr>"
      by (auto simp add: getOCPSolution_def Let_def split: if_splits sum.splits)
    with Inr ps x0 hc hp s' show ?thesis by auto
  qed
qed

lemma initializeStateTrajectory_length:
  "initializeStateTrajectory env s initState td N = Inr x \<Longrightarrow> 0 \<le> N \<Longrightarrow>
   length x = nat (N + 1)"
  by (auto simp add: initializeStateTrajectory_def bindE_Inr_iff split: if_splits
        dest!: mapE_length)

lemma initializeInputTrajectory_length:
  "initializeInputTrajectory env s td x N = Inr u \<Longrightarrow> 0 \<le> N \<and> length u = nat N"
  by (auto simp add: initializeInputTrajectory_def bindE_Inr_iff split: if_splits
        dest!: mapE_length)

lemma storePrimalSolution_Inr:
  "storePrimalSolution s td x u = Inr s2 \<Longrightarrow>
   u \<noteq> [] \<and> timeTrajectory (primalSolution s2) = td \<and> stateTrajectory (primalSolution s2) = x
   \<and> inputTrajectory (primalSolution s2) = u @ [last u]"
  by (auto simp add: storePrimalSolution_def bindE_Inr_iff backOf_Inr_iff)

lemma storePrimalSolution_Inl: "storePrimalSolution s td x u = Inl e \<Longrightarrow> e = Undefined \<and> u = []"
  by (auto simp add: storePrimalSolution_def bindE_Inl_iff backOf_def split: if_splits)

lemma duplicateLast_Inl: "duplicateLast v = Inl e \<Longrightarrow> e = Undefined"
  by (auto simp add: duplicateLast_def bindE_Inl_iff dest: backOf_Inl)

lemma duplicateLast_Inr: "duplicateLast v = Inr w \<Longrightarrow> v \<noteq> [] \<and> w = v @ [last v]"
  by (auto simp add: duplicateLast_def bindE_Inr_iff backOf_Inr_iff)

lemma projectedFeedbackNode_Inl: "projectedFeedbackNode cs K us xs i = Inl e \<Longrightarrow> e = Undefined"
  by (auto simp add: projectedFeedbackNode_def bindE_Inl_iff Let_def dest: atIdx_Inl)

lemma plainFeedbackNode_Inl: "plainFeedbackNode K us xs i = Inl e \<Longrightarrow> e = Undefined"
  by (auto simp add: plainFeedbackNode_def bindE_Inl_iff dest: atIdx_Inl)

lemma projectedFeedbackNode_Inr:
  "projectedFeedbackNode cs K us xs (int i) = Inr (a, G) \<Longrightarrow>
   G = madd (dfdx (cs ! i)) (mmul (dfdu (cs ! i)) (K ! i)) \<and> a = vsub (us ! i) (matvec G (xs ! i))"
  by (auto simp add: projectedFeedbackNode_def bindE_Inr_iff atIdx_Inr_iff Let_def)

lemma plainFeedbackNode_Inr:
  "plainFeedbackNode K us xs (int i) = Inr (a, G) \<Longrightarrow>
   G = K ! i \<and> a = vsub (us ! i) (matvec G (xs ! i))"
  by (auto simp add: plainFeedbackNode_def bindE_Inr_iff atIdx_Inr_iff)

lemma computeController_Inl: "computeController env s N = Inl e \<Longrightarrow> e = Undefined"
  by (auto simp add: computeController_def bindE_Inl_iff Let_def split: if_splits
        dest: atIdx_Inl frontOf_Inl duplicateLast_Inl
        dest!: mapE_Inl projectedFeedbackNode_Inl plainFeedbackNode_Inl)

lemma computeController_trajectories:
  "computeController env s N = Inr s' \<Longrightarrow>
   timeTrajectory (primalSolution s') = timeTrajectory (primalSolution s)
   \<and> stateTrajectory (primalSolution s') = stateTrajectory (primalSolution s)
   \<and> inputTrajectory (primalSolution s') = inputTrajectory (primalSolution s)"
  by (auto simp add: computeController_def bindE_Inr_iff Let_def split: if_splits)

lemma feedback_lists:
  assumes m: "mapE node (map int [0..<n]) = Inr nodes"
    and du: "duplicateLast (map fst nodes) = Inr uff"
    and dg: "duplicateLast (map snd nodes) = Inr gain"
    and P: "\<And>i a G. node (int i) = Inr (a, G) \<Longrightarrow> P i a G"
  shows "0 < n \<and> length uff = n + 1 \<and> length gain = n + 1
         \<and> (\<forall>i<n. P i (uff ! i) (gain ! i))
         \<and> uff ! n = uff ! (n - 1) \<and> gain ! n = gain ! (n - 1)"
proof -
  from mapE_length [OF m] have len: "length nodes = n" by simp
  from duplicateLast_Inr [OF du] have ne: "nodes \<noteq> []"
    and uff: "uff = map fst nodes @ [last (map fst nodes)]" by simp_all
  from duplicateLast_Inr [OF dg] have gain: "gain = map snd nodes @ [last (map snd nodes)]"
    by simp
  from ne len have n: "0 < n" by auto
  have "P i (uff ! i) (gain ! i)" if "i < n" for i
  proof -
    from mapE_nth [OF m, of i] that have "node (int i) = Inr (nodes ! i)" by simp
    then have "P i (fst (nodes ! i)) (snd (nodes ! i))" by (simp add: P)
    with that len show ?thesis by (simp add: uff gain nth_append)
  qed
  moreover from len n ne have "uff ! n = uff ! (n - 1)" "gain ! n = gain ! (n - 1)"
    by (simp_all add: uff gain nth_append last_conv_nth)
  ultimately show ?thesis using n len by (simp add: uff gain)
qed

lemma sqpLoop_settings:
  "sqpLoop env time initState n iter s x u = Some (r, s', x', u') \<Longrightarrow>
   settings s' = settings s \<and> constraintPtr s' = constraintPtr s"
proof (induction n arbitrary: iter s x u)
  case 0
  then show ?case by simp
next
  case (Suc n)
  from Suc.prems obtain q s1 x1 u1 where
    st: "sqpStep env time initState iter s x u = Some (q, s1, x1, u1)"
    by (auto split: option.splits)
  note fr = sqpStep_frame [OF st]
  show ?case
  proof (cases q)
    case (Inl e)
    with Suc.prems st fr show ?thesis by simp
  next
    case (Inr converged)
    show ?thesis
    proof (cases converged)
      case True
      with Suc.prems st Inr fr show ?thesis by simp
    next
      case False
      with Suc.prems st Inr have
        "sqpLoop env time initState n (Suc iter) s1 x1 u1 = Some (r, s', x', u')"
        by simp
      from Suc.IH [OF this] fr show ?thesis by simp
    qed
  qed
qed

lemma storePrimalSolution_settings:
  "storePrimalSolution s td x u = Inr s2 \<Longrightarrow>
   settings s2 = settings s \<and> constraintPtr s2 = constraintPtr s"
  by (auto simp add: storePrimalSolution_def bindE_Inr_iff)

lemma computeController_feedback:
  assumes "computeController env s N = Inr s'" and "controllerFeedback (settings s)"
  shows "\<exists>hasConstraint d0 c0 uff gain.
           frontOf (constraintPtr s) = Inr hasConstraint
         \<and> atIdx (dynamicsQP s) 0 = Inr d0 \<and> atIdx (costQP s) 0 = Inr c0
         \<and> controllerPtr (primalSolution s')
             = Some (LinearController (timeTrajectory (primalSolution s)) uff gain)
         \<and> 0 < nat N \<and> length uff = nat N + 1 \<and> length gain = nat N + 1
         \<and> (\<forall>i<nat N.
               gain ! i =
                 (if hasConstraint \<and> projectStateInputEqualityConstraints (settings s)
                  then madd (dfdx (constraintsQP s ! i))
                         (mmul (dfdu (constraintsQP s ! i))
                            (getRiccatiFeedback env (hpipmInterface s) d0 c0 ! i))
                  else getRiccatiFeedback env (hpipmInterface s) d0 c0 ! i)
             \<and> uff ! i = vsub (inputTrajectory (primalSolution s) ! i)
                            (matvec (gain ! i) (stateTrajectory (primalSolution s) ! i)))
         \<and> uff ! nat N = uff ! (nat N - 1) \<and> gain ! nat N = gain ! (nat N - 1)"
proof -
  from assms obtain hasConstraint where hc: "frontOf (constraintPtr s) = Inr hasConstraint"
    by (auto simp add: computeController_def bindE_Inr_iff)
  let ?ps = "primalSolution s"
  show ?thesis
  proof (cases "hasConstraint \<and> projectStateInputEqualityConstraints (settings s)")
    case True
    with assms hc obtain d0 c0 nodes uff gain where
      d0: "atIdx (dynamicsQP s) 0 = Inr d0" and c0: "atIdx (costQP s) 0 = Inr c0"
      and m: "mapE (projectedFeedbackNode (constraintsQP s)
                      (getRiccatiFeedback env (hpipmInterface s) d0 c0)
                      (inputTrajectory ?ps) (stateTrajectory ?ps)) (map int [0..<nat N])
              = Inr nodes"
      and du: "duplicateLast (map fst nodes) = Inr uff"
      and dg: "duplicateLast (map snd nodes) = Inr gain"
      and s': "controllerPtr (primalSolution s')
                 = Some (LinearController (timeTrajectory ?ps) uff gain)"
      by (auto simp add: computeController_def bindE_Inr_iff Let_def)
    from feedback_lists [OF m du dg, where P = "\<lambda>i a G.
         G = madd (dfdx (constraintsQP s ! i))
               (mmul (dfdu (constraintsQP s ! i))
                  (getRiccatiFeedback env (hpipmInterface s) d0 c0 ! i))
         \<and> a = vsub (inputTrajectory ?ps ! i) (matvec G (stateTrajectory ?ps ! i))"]
      projectedFeedbackNode_Inr
    have "0 < nat N \<and> length uff = nat N + 1 \<and> length gain = nat N + 1
         \<and> (\<forall>i<nat N.
               gain ! i = madd (dfdx (constraintsQP s ! i))
                            (mmul (dfdu (constraintsQP s ! i))
                               (getRiccatiFeedback env (hpipmInterface s) d0 c0 ! i))
             \<and> uff ! i = vsub (inputTrajectory ?ps ! i)
                            (matvec (gain ! i) (stateTrajectory ?ps ! i)))
         \<and> uff ! nat N = uff ! (nat N - 1) \<and> gain ! nat N = gain ! (nat N - 1)"
      by blast
    with True hc d0 c0 s' show ?thesis by auto
  next
    case False
    with assms hc obtain d0 c0 nodes uff gain where
      d0: "atIdx (dynamicsQP s) 0 = Inr d0" and c0: "atIdx (costQP s) 0 = Inr c0"
      and m: "mapE (plainFeedbackNode (getRiccatiFeedback env (hpipmInterface s) d0 c0)
                      (inputTrajectory ?ps) (stateTrajectory ?ps)) (map int [0..<nat N])
              = Inr nodes"
      and du: "duplicateLast (map fst nodes) = Inr uff"
      and dg: "duplicateLast (map snd nodes) = Inr gain"
      and s': "controllerPtr (primalSolution s')
                 = Some (LinearController (timeTrajectory ?ps) uff gain)"
      by (auto simp add: computeController_def bindE_Inr_iff Let_def)
    from feedback_lists [OF m du dg, where P = "\<lambda>i a G.
         G = getRiccatiFeedback env (hpipmInterface s) d0 c0 ! i
         \<and> a = vsub (inputTrajectory ?ps ! i) (matvec G (stateTrajectory ?ps ! i))"]
      plainFeedbackNode_Inr
    have "0 < nat N \<and> length uff = nat N + 1 \<and> length gain = nat N + 1
         \<and> (\<forall>i<nat N.
               gain ! i = getRiccatiFeedback env (hpipmInterface s) d0 c0 ! i
             \<and> uff ! i = vsub (inputTrajectory ?ps ! i)
                            (matvec (gain ! i) (stateTrajectory ?ps ! i)))
         \<and> uff ! nat N = uff ! (nat N - 1) \<and> gain ! nat N = gain ! (nat N - 1)"
      by blast
    with False hc d0 c0 s' show ?thesis by auto
  qed
qed


lemma runImpl_returns:
  assumes "runImpl env s initTime initState finalTime = Some (None, s')"
  shows "\<exists>x u s1 x' u' s2.
           initializeStateTrajectory env s initState
             (timeDiscretizationWithEvents env initTime finalTime (dt (settings s)) (eventTimes s))
             (int (length (timeDiscretizationWithEvents env initTime finalTime (dt (settings s))
                             (eventTimes s))) - 1) = Inr x
         \<and> initializeInputTrajectory env s
             (timeDiscretizationWithEvents env initTime finalTime (dt (settings s)) (eventTimes s))
             x (int (length (timeDiscretizationWithEvents env initTime finalTime (dt (settings s))
                               (eventTimes s))) - 1) = Inr u
         \<and> sqpLoop env
             (timeDiscretizationWithEvents env initTime finalTime (dt (settings s)) (eventTimes s))
             initState (nat (sqpIteration (settings s))) 0 (s\<lparr>performanceIndeces := []\<rparr>) x u
             = Some (None, s1, x', u')
         \<and> storePrimalSolution s1
             (timeDiscretizationWithEvents env initTime finalTime (dt (settings s)) (eventTimes s))
             x' u' = Inr s2
         \<and> computeController env s2
             (int (length (timeDiscretizationWithEvents env initTime finalTime (dt (settings s))
                             (eventTimes s))) - 1) = Inr s'"
  using assms
  by (auto simp add: runImpl_def Let_def split: sum.splits option.splits prod.splits)

lemma runImpl_raises:
  assumes "runImpl env s initTime initState finalTime = Some (Some e, s')"
  shows "primalSolution s' = primalSolution s \<or> e = Undefined"
proof -
  let ?td = "timeDiscretizationWithEvents env initTime finalTime (dt (settings s)) (eventTimes s)"
  let ?N = "int (length ?td) - 1"
  show ?thesis
  proof (cases "initializeStateTrajectory env s initState ?td ?N")
    case (Inl e1)
    with assms show ?thesis by (simp add: runImpl_def Let_def)
  next
    case x: (Inr x)
    show ?thesis
    proof (cases "initializeInputTrajectory env s ?td x ?N")
      case (Inl e1)
      with assms x show ?thesis by (simp add: runImpl_def Let_def)
    next
      case u: (Inr u)
      show ?thesis
      proof (cases "sqpLoop env ?td initState (nat (sqpIteration (settings s))) 0
                      (s\<lparr>performanceIndeces := []\<rparr>) x u")
        case None
        with assms x u show ?thesis by (simp add: runImpl_def Let_def)
      next
        case (Some res)
        obtain r s1 x' u' where res: "res = (r, s1, x', u')" by (cases res)
        from sqpLoop_invariant [of env ?td initState _ 0 "s\<lparr>performanceIndeces := []\<rparr>" x u
            r s1 x' u'] Some res
        have p1: "primalSolution s1 = primalSolution s" by simp
        show ?thesis
        proof (cases r)
          case (Some e1)
          with assms x u \<open>sqpLoop env ?td initState (nat (sqpIteration (settings s))) 0
                      (s\<lparr>performanceIndeces := []\<rparr>) x u = Some res\<close> res p1
          show ?thesis by (simp add: runImpl_def Let_def)
        next
          case None
          show ?thesis
          proof (cases "storePrimalSolution s1 ?td x' u'")
            case (Inl e1)
            with assms x u \<open>sqpLoop env ?td initState (nat (sqpIteration (settings s))) 0
                      (s\<lparr>performanceIndeces := []\<rparr>) x u = Some res\<close> res None p1
            show ?thesis by (simp add: runImpl_def Let_def)
          next
            case (Inr s2)
            with assms x u \<open>sqpLoop env ?td initState (nat (sqpIteration (settings s))) 0
                      (s\<lparr>performanceIndeces := []\<rparr>) x u = Some res\<close> res None
            have "computeController env s2 ?N = Inl e"
              by (simp add: runImpl_def Let_def split: sum.splits)
            then show ?thesis by (simp add: computeController_Inl)
          qed
        qed
      qed
    qed
  qed
qed

subsubsection \<open>Runs of the concrete instance\<close>

text \<open>The steps of one solve of the instance, evaluated, for three configurations: without
  a constraint, with a projected constraint, and with a failing QP back end; a
  line-search that rejects its first candidate; a solve whose second pass fails.\<close>

lemma ex_setup_runs:
  "case setupQuadraticSubproblem (exEnv False 1) (exSolver False False False 2)
          (\<lambda>i. i mod 2) [0, 1] [1] [[1], [1]] [[0]] of
     Inl e \<Rightarrow> False
   | Inr (p, s') \<Rightarrow> totalCost p = 1 \<and> stateEqConstraintISE p = 0"
  by code_simp

lemma ex_baseline_performance:
  "computePerformance (exEnv False 1) (exSolver False False False 2) (\<lambda>i. i mod 2)
     [0, 1] [1] [[1], [1]] [[0]] =
   Inr \<lparr>merit = 1, totalCost = 1, stateEqConstraintISE = 0,
        stateInputEqConstraintISE = 0, inequalityConstraintISE = 0,
        inequalityConstraintPenalty = 0\<rparr>"
  by code_simp

lemma ex_candidate_1:
  "candidate (exEnv False 1) (exSolver False False False 2) (\<lambda>i. i mod 2) [0, 1] [1]
     [[0], [- 1]] [[- 1]] [[1], [1]] [[0]] 1 =
   Inr ([[1], [0]], [[- 1]], exBaseline 0)"
  by code_simp

lemma ex_candidate_2:
  "candidate (exEnv False 1) (exSolver False False False 2) (\<lambda>i. i mod 2) [0, 1] [1]
     [[0], [- 1]] [[- 1]] [[1], [1]] [[0]] (1 / 2) =
   Inr ([[1], [1 / 2]], [[- 1 / 2]], exBaseline (1 / 4))"
  by code_simp

lemma ex_violation [simp]: "constraintViolation (exBaseline m) = Some 0"
  by (simp add: constraintViolation_def sqrtNaN_def exBaseline_def PerformanceIndex0_def)

lemma ex_merit [simp]: "merit (exBaseline m) = m"
  by (simp add: exBaseline_def PerformanceIndex0_def)

lemma ex_norms [simp]: "trajectoryNorm [[0], [- 1]] = 1" "trajectoryNorm [[- 1]] = 1"
  by (simp_all add: trajectoryNorm_def squaredNorm_def dot_def)

lemma ex_settings [simp]:
  "alpha_min (settings (exSolver c p fb n)) = 1 / 4"
  "alpha_decay (settings (exSolver c p fb n)) = 1 / 2"
  "deltaTol (settings (exSolver c p fb n)) = 1 / 10"
  "costTol (settings (exSolver c p fb n)) = 1 / 10"
  "g_min (settings (exSolver c p fb n)) = 1 / 10"
  "g_max (settings (exSolver c p fb n)) = 10"
  "gamma_c (settings (exSolver c p fb n)) = 1 / 10"
  by (simp_all add: exSolver_def exSettings_def)

lemmas ex_filter_defs =
  lineSearchStep_def stepAccepted_def stepSizeBelowTol_def improvementBelowTol_def
  lessNaN_def minusNaN_def timesNaN_def

lemma ex_takeStep_accept:
  "takeStep (exEnv False 1) (exSolver False False False 2) (\<lambda>k i. i mod 2) (exBaseline 1)
     [0, 1] [1] [[0], [- 1]] [[- 1]] [[1], [1]] [[0]] =
   Some (Inr (False, [[1], [0]], [[- 1]]))"
  unfolding takeStep_def
  apply (subst takeStepLoop.simps)
  apply (simp add: ex_filter_defs ex_candidate_1)
  done

lemma ex_takeStep_reject:
  "takeStep (exEnv False 1) (exSolver False False False 2) (\<lambda>k i. i mod 2) (exBaseline (- 1))
     [0, 1] [1] [[0], [- 1]] [[- 1]] [[1], [1]] [[0]] =
   Some (Inr (True, [[1], [1]], [[0]]))"
  unfolding takeStep_def
  apply (subst takeStepLoop.simps)
  apply (simp add: ex_filter_defs ex_candidate_1)
  apply (subst takeStepLoop.simps)
  apply (simp add: ex_filter_defs ex_candidate_2)
  apply (subst takeStepLoop.simps)
  apply simp
  done

text \<open>A step \<open>\<Delta>u = [[15]]\<close> whose full length violates the dynamics by \<open>16 > g_max\<close>: the
  first candidate is rejected, the second (\<open>\<alpha> = 1/2\<close>, violation \<open>8\<close>) is accepted.\<close>

lemma ex_candidate_far_1:
  "candidate (exEnv False 1) (exSolver False False False 2) (\<lambda>i. i mod 2) [0, 1] [1]
     [[0], [- 1]] [[15]] [[1], [1]] [[0]] 1 =
   Inr ([[1], [0]], [[15]], PerformanceIndex0\<lparr>stateEqConstraintISE := 256\<rparr>)"
  by code_simp

lemma ex_candidate_far_2:
  "candidate (exEnv False 1) (exSolver False False False 2) (\<lambda>i. i mod 2) [0, 1] [1]
     [[0], [- 1]] [[15]] [[1], [1]] [[0]] (1 / 2) =
   Inr ([[1], [1 / 2]], [[15 / 2]],
        PerformanceIndex0\<lparr>merit := 1 / 4, totalCost := 1 / 4, stateEqConstraintISE := 64\<rparr>)"
  by code_simp

lemma ex_violation_256 [simp]:
  "constraintViolation (PerformanceIndex0\<lparr>stateEqConstraintISE := 256\<rparr>) = Some 16"
  using real_sqrt_abs [of 16]
  by (simp add: constraintViolation_def sqrtNaN_def PerformanceIndex0_def)

lemma ex_violation_64 [simp]:
  "constraintViolation
     (PerformanceIndex0\<lparr>merit := 1 / 4, totalCost := 1 / 4, stateEqConstraintISE := 64\<rparr>)
   = Some 8"
  using real_sqrt_abs [of 8]
  by (simp add: constraintViolation_def sqrtNaN_def PerformanceIndex0_def)

lemma ex_norm_15 [simp]: "trajectoryNorm [[15]] = 15"
  using real_sqrt_abs [of 15] by (simp add: trajectoryNorm_def squaredNorm_def dot_def)

lemma ex_takeStep_decay:
  "takeStep (exEnv False 1) (exSolver False False False 2) (\<lambda>k i. i mod 2) (exBaseline 1)
     [0, 1] [1] [[0], [- 1]] [[15]] [[1], [1]] [[0]] =
   Some (Inr (False, [[1], [1 / 2]], [[15 / 2]]))"
  unfolding takeStep_def
  apply (subst takeStepLoop.simps)
  apply (simp add: ex_filter_defs ex_candidate_far_1)
  apply (subst takeStepLoop.simps)
  apply (simp add: ex_filter_defs ex_candidate_far_2)
  done

lemma ex_init_x:
  "initializeStateTrajectory (exEnv c st) (exSolver c p fb 2) [1] [0, 1] 1 = Inr [[1], [1]]"
  by (simp add: initializeStateTrajectory_def exSolver_def numeral_2_eq_2)

lemma ex_init_u:
  "initializeInputTrajectory (exEnv c st) (exSolver c p fb 2) [0, 1] [[1], [1]] 1 = Inr [[0]]"
  by (simp add: initializeInputTrajectory_def exSolver_def exSettings_def frontOf_def atIdx_def)

lemma ex_setup_projected:
  "setupQuadraticSubproblem (exEnv True 1) ((exSolver True True True 2)\<lparr>performanceIndeces := []\<rparr>)
     (\<lambda>i. i mod 2) [0, 1] [1] [[1], [1]] [[0]] =
   Inr (exBaseline 1, (exQP True True True)\<lparr>performanceIndeces := []\<rparr>)"
  by code_simp

lemma ex_solve_projected:
  "getOCPSolution (exEnv True 1) (exQP True True True) [0] =
     (Inr ([[0], [- 1]], [[2]]), exSolved True True True)"
  by code_simp

lemma ex_candidate_projected:
  "candidate (exEnv True 1) (exSolved True True True) (\<lambda>i. i mod 2) [0, 1] [1]
     [[0], [- 1]] [[2]] [[1], [1]] [[0]] 1 =
   Inr ([[1], [0]], [[2]], PerformanceIndex0\<lparr>stateEqConstraintISE := 9\<rparr>)"
  by code_simp

lemma ex_violation_9 [simp]:
  "constraintViolation (PerformanceIndex0\<lparr>stateEqConstraintISE := 9\<rparr>) = Some 3"
  using real_sqrt_abs [of 3]
  by (simp add: constraintViolation_def sqrtNaN_def PerformanceIndex0_def)

lemma ex_norm_2 [simp]: "trajectoryNorm [[2]] = 2"
  by (simp add: trajectoryNorm_def squaredNorm_def dot_def)

lemma ex_settings_exQP [simp]:
  "settings (exQP c p fb) = exSettings p fb 2"
  "settings (exSolved c p fb) = exSettings p fb 2"
  by (simp_all add: exSolved_def exQP_def exSolver_def)

lemma ex_settings_fields [simp]:
  "alpha_min (exSettings p fb n) = 1 / 4"
  "alpha_decay (exSettings p fb n) = 1 / 2"
  "deltaTol (exSettings p fb n) = 1 / 10"
  "costTol (exSettings p fb n) = 1 / 10"
  "g_min (exSettings p fb n) = 1 / 10"
  "g_max (exSettings p fb n) = 10"
  "gamma_c (exSettings p fb n) = 1 / 10"
  "sqpIteration (exSettings p fb n) = 1"
  "dt (exSettings p fb n) = 1"
  by (simp_all add: exSettings_def)

lemma ex_takeStep_projected:
  "takeStep (exEnv True 1) (exSolved True True True) (\<lambda>k i. i mod 2) (exBaseline 1)
     [0, 1] [1] [[0], [- 1]] [[2]] [[1], [1]] [[0]] =
   Some (Inr (False, [[1], [0]], [[2]]))"
  unfolding takeStep_def
  apply (subst takeStepLoop.simps)
  apply (simp add: ex_filter_defs ex_candidate_projected)
  apply (simp add: PerformanceIndex0_def)
  done

lemma ex_store_projected:
  "storePrimalSolution ((exSolved True True True)\<lparr>totalNumIterations := Suc 0\<rparr>) [0, 1] [[1], [0]] [[2]] =
   Inr ((exSolved True True True)
          \<lparr>totalNumIterations := Suc 0,
           primalSolution := \<lparr>timeTrajectory = [0, 1], stateTrajectory = [[1], [0]],
                               inputTrajectory = [[2], [2]], modeSchedule = [],
                               controllerPtr = None\<rparr>\<rparr>)"
  by code_simp

lemma ex_controller_projected:
  "computeController (exEnv True 1)
     ((exSolved True True True)
          \<lparr>totalNumIterations := Suc 0,
           primalSolution := \<lparr>timeTrajectory = [0, 1], stateTrajectory = [[1], [0]],
                               inputTrajectory = [[2], [2]], modeSchedule = [],
                               controllerPtr = None\<rparr>\<rparr>) 1 =
   Inr (exReturned True True True [[1], [0]] [[2], [2]]
          (LinearController [0, 1] [[- 5], [- 5]] [Matrix 1 [[7]], Matrix 1 [[7]]]))"
  by code_simp

lemma ex_loop_projected:
  "sqpLoop (exEnv True 1) [0, 1] [1] (Suc 0) 0
     ((exSolver True True True 2)\<lparr>performanceIndeces := []\<rparr>) [[1], [1]] [[0]]
   = Some (None, (exSolved True True True)\<lparr>totalNumIterations := Suc 0\<rparr>, [[1], [0]], [[2]])"
proof -
  have sch: "schedule (exEnv True 1) iter r = (\<lambda>i. i mod 2)" for iter r
    by (simp add: exEnv_def)
  have upd: "(exQP True True True)\<lparr>performanceIndeces := [exBaseline 1]\<rparr>
             = exQP True True True"
    by (simp add: exQP_def)
  have tn: "totalNumIterations (exSolved True True True) = 0"
    by (simp add: exSolved_def exQP_def exSolver_def)
  show ?thesis
    by (simp add: sqpStep_def sch ex_setup_projected upd atIdx_def vsub_def ex_solve_projected
          ex_takeStep_projected tn)
qed

lemma ex_run_projected:
  "runImpl (exEnv True 1) (exSolver True True True 2) 0 [1] 1 =
   Some (None, exReturned True True True [[1], [0]] [[2], [2]]
                 (LinearController [0, 1] [[- 5], [- 5]] [Matrix 1 [[7]], Matrix 1 [[7]]]))"
proof -
  have td: "timeDiscretizationWithEvents (exEnv True 1) 0 1
              (dt (settings (exSolver True True True 2))) (eventTimes (exSolver True True True 2))
            = [0, 1]"
    by (simp add: exEnv_def)
  have it: "nat (sqpIteration (settings (exSolver True True True 2))) = Suc 0"
    by (simp add: exSolver_def)
  show ?thesis
    by (simp add: runImpl_def Let_def td ex_init_x ex_init_u it ex_loop_projected
          ex_store_projected ex_controller_projected del: sqpLoop.simps)
qed

lemma ex_setup_plain:
  "setupQuadraticSubproblem (exEnv False 1) ((exSolver False True True 2)\<lparr>performanceIndeces := []\<rparr>)
     (\<lambda>i. i mod 2) [0, 1] [1] [[1], [1]] [[0]] =
   Inr (exBaseline 1, (exQP False True True)\<lparr>performanceIndeces := []\<rparr>)"
  by code_simp

lemma ex_solve_plain:
  "getOCPSolution (exEnv False 1) (exQP False True True) [0] =
     (Inr ([[0], [- 1]], [[- 1]]), exSolved False True True)"
  by code_simp

lemma ex_candidate_plain:
  "candidate (exEnv False 1) (exSolved False True True) (\<lambda>i. i mod 2) [0, 1] [1]
     [[0], [- 1]] [[- 1]] [[1], [1]] [[0]] 1 =
   Inr ([[1], [0]], [[- 1]], exBaseline 0)"
  by code_simp

lemma ex_takeStep_plain:
  "takeStep (exEnv False 1) (exSolved False True True) (\<lambda>k i. i mod 2) (exBaseline 1)
     [0, 1] [1] [[0], [- 1]] [[- 1]] [[1], [1]] [[0]] =
   Some (Inr (False, [[1], [0]], [[- 1]]))"
  unfolding takeStep_def
  apply (subst takeStepLoop.simps)
  apply (simp add: ex_filter_defs ex_candidate_plain)
  done

lemma ex_store_plain:
  "storePrimalSolution ((exSolved False True True)\<lparr>totalNumIterations := Suc 0\<rparr>) [0, 1]
     [[1], [0]] [[- 1]] =
   Inr ((exSolved False True True)
          \<lparr>totalNumIterations := Suc 0,
           primalSolution := \<lparr>timeTrajectory = [0, 1], stateTrajectory = [[1], [0]],
                               inputTrajectory = [[- 1], [- 1]], modeSchedule = [],
                               controllerPtr = None\<rparr>\<rparr>)"
  by code_simp

lemma ex_controller_plain:
  "computeController (exEnv False 1)
     ((exSolved False True True)
          \<lparr>totalNumIterations := Suc 0,
           primalSolution := \<lparr>timeTrajectory = [0, 1], stateTrajectory = [[1], [0]],
                               inputTrajectory = [[- 1], [- 1]], modeSchedule = [],
                               controllerPtr = None\<rparr>\<rparr>) 1 =
   Inr (exReturned False True True [[1], [0]] [[- 1], [- 1]]
          (LinearController [0, 1] [[- 6], [- 6]] [Matrix 1 [[5]], Matrix 1 [[5]]]))"
  by code_simp

lemma ex_loop_plain:
  "sqpLoop (exEnv False 1) [0, 1] [1] (Suc 0) 0
     ((exSolver False True True 2)\<lparr>performanceIndeces := []\<rparr>) [[1], [1]] [[0]]
   = Some (None, (exSolved False True True)\<lparr>totalNumIterations := Suc 0\<rparr>,
           [[1], [0]], [[- 1]])"
proof -
  have sch: "schedule (exEnv False 1) iter r = (\<lambda>i. i mod 2)" for iter r
    by (simp add: exEnv_def)
  have upd: "(exQP False True True)\<lparr>performanceIndeces := [exBaseline 1]\<rparr>
             = exQP False True True"
    by (simp add: exQP_def)
  have tn: "totalNumIterations (exSolved False True True) = 0"
    by (simp add: exSolved_def exQP_def exSolver_def)
  show ?thesis
    by (simp add: sqpStep_def sch ex_setup_plain upd atIdx_def vsub_def ex_solve_plain
          ex_takeStep_plain tn)
qed

lemma ex_run_plain:
  "runImpl (exEnv False 1) (exSolver False True True 2) 0 [1] 1 =
   Some (None, exReturned False True True [[1], [0]] [[- 1], [- 1]]
                 (LinearController [0, 1] [[- 6], [- 6]] [Matrix 1 [[5]], Matrix 1 [[5]]]))"
proof -
  have td: "timeDiscretizationWithEvents (exEnv False 1) 0 1
              (dt (settings (exSolver False True True 2))) (eventTimes (exSolver False True True 2))
            = [0, 1]"
    by (simp add: exEnv_def)
  have it: "nat (sqpIteration (settings (exSolver False True True 2))) = Suc 0"
    by (simp add: exSolver_def)
  show ?thesis
    by (simp add: runImpl_def Let_def td ex_init_x ex_init_u it ex_loop_plain ex_store_plain
          ex_controller_plain del: sqpLoop.simps)
qed

lemma ex_setup_fail:
  "setupQuadraticSubproblem (exEnv False 0)
     ((exSolver False False False 2)\<lparr>performanceIndeces := []\<rparr>)
     (\<lambda>i. i mod 2) [0, 1] [1] [[1], [1]] [[0]] =
   Inr (exBaseline 1, (exQP False False False)\<lparr>performanceIndeces := []\<rparr>)"
  by code_simp

lemma ex_solve_fail:
  "getOCPSolution (exEnv False 0) (exQP False False False) [0] =
     (Inl QPSolveFailure, exSolved False False False)"
  by code_simp

lemma ex_run_fail:
  "runImpl (exEnv False 0) (exSolver False False False 2) 0 [1] 1 =
   Some (Some QPSolveFailure, exSolved False False False)"
proof -
  have td: "timeDiscretizationWithEvents (exEnv False 0) 0 1
              (dt (settings (exSolver False False False 2)))
              (eventTimes (exSolver False False False 2))
            = [0, 1]"
    by (simp add: exEnv_def)
  have sch: "schedule (exEnv False 0) iter r = (\<lambda>i. i mod 2)" for iter r
    by (simp add: exEnv_def)
  have it: "nat (sqpIteration (settings (exSolver False False False 2))) = Suc 0"
    by (simp add: exSolver_def)
  have upd: "(exQP False False False)\<lparr>performanceIndeces := [exBaseline 1]\<rparr>
             = exQP False False False"
    by (simp add: exQP_def)
  have loop: "sqpLoop (exEnv False 0) [0, 1] [1] (Suc 0) 0
                ((exSolver False False False 2)\<lparr>performanceIndeces := []\<rparr>) [[1], [1]] [[0]]
              = Some (Some QPSolveFailure, exSolved False False False, [[1], [1]], [[0]])"
    by (simp add: sqpStep_def sch ex_setup_fail upd atIdx_def vsub_def ex_solve_fail)
  show ?thesis
    by (simp add: runImpl_def Let_def td ex_init_x ex_init_u it loop del: sqpLoop.simps)
qed

lemma ex_run_single_point:
  "runImpl (exEnv False 1) exNoIteration 0 [1] 0 =
   Some (Some Undefined, exNoIteration)"
proof -
  have td: "timeDiscretizationWithEvents (exEnv False 1) 0 0
              (dt (settings exNoIteration)) (eventTimes exNoIteration) = [0]"
    by (simp add: exEnv_def)
  have x: "initializeStateTrajectory (exEnv False 1) exNoIteration [1] [0] 0 = Inr [[1]]"
    by (simp add: initializeStateTrajectory_def exNoIteration_def exSolver_def)
  have u: "initializeInputTrajectory (exEnv False 1) exNoIteration [0] [[1]] 0 = Inr []"
    by (simp add: initializeInputTrajectory_def exNoIteration_def exSolver_def frontOf_def)
  have it: "nat (sqpIteration (settings exNoIteration)) = 0"
    by (simp add: exNoIteration_def)
  have st: "storePrimalSolution exNoIteration [0] [[1]] [] = Inl Undefined"
    by (simp add: storePrimalSolution_def backOf_def)
  have e: "exNoIteration\<lparr>performanceIndeces := []\<rparr> = exNoIteration"
    by (simp add: exNoIteration_def exSolver_def)
  show ?thesis
    by (simp add: runImpl_def Let_def td x u it st e)
qed

text \<open>A solve of two passes whose first QP solve succeeds and whose second fails.\<close>

lemma ex_two_init:
  "initializeStateTrajectory (exEnv False 1) exTwoPasses [1] [0, 1] 1 = Inr [[1], [1]]"
  "initializeInputTrajectory (exEnv False 1) exTwoPasses [0, 1] [[1], [1]] 1 = Inr [[0]]"
  by (simp_all add: initializeStateTrajectory_def initializeInputTrajectory_def exTwoPasses_def
        exSolver_def exSettings_def frontOf_def atIdx_def numeral_2_eq_2)

lemma ex_two_setup_first:
  "setupQuadraticSubproblem (exEnv False 1) (exTwoPasses\<lparr>performanceIndeces := []\<rparr>)
     (\<lambda>i. i mod 2) [0, 1] [1] [[1], [1]] [[0]] = Inr (exBaseline 1, exPass [] 0 0)"
  by code_simp

lemma ex_two_solve_first:
  "getOCPSolution (exEnv False 1) (exPass [exBaseline 1] 0 0) [0] =
     (Inr ([[0], [- 1]], [[- 1]]), exPass [exBaseline 1] 0 (Suc 0))"
  by code_simp

lemma ex_two_candidate:
  "candidate (exEnv False 1) (exPass [exBaseline 1] 0 (Suc 0)) (\<lambda>i. i mod 2) [0, 1] [1]
     [[0], [- 1]] [[- 1]] [[1], [1]] [[0]] 1 =
   Inr ([[1], [0]], [[- 1]], exBaseline 0)"
  by code_simp

lemma ex_two_settings [simp]:
  "settings (exPass ps i h) = (exSettings False False 2)\<lparr>sqpIteration := 2\<rparr>"
  by (simp add: exPass_def exTwoPasses_def)

lemma ex_two_takeStep:
  "takeStep (exEnv False 1) (exPass [exBaseline 1] 0 (Suc 0)) (\<lambda>k i. i mod 2) (exBaseline 1)
     [0, 1] [1] [[0], [- 1]] [[- 1]] [[1], [1]] [[0]] =
   Some (Inr (False, [[1], [0]], [[- 1]]))"
  unfolding takeStep_def
  apply (subst takeStepLoop.simps)
  apply (simp add: ex_filter_defs ex_two_candidate)
  done

lemma ex_two_first_pass:
  "sqpAfter (exEnv False 1) [0, 1] [1] (Suc 0) 0 (exTwoPasses\<lparr>performanceIndeces := []\<rparr>)
     [[1], [1]] [[0]] = Some (exPass [exBaseline 1] (Suc 0) (Suc 0), [[1], [0]], [[- 1]])"
proof -
  have sch: "schedule (exEnv False 1) iter r = (\<lambda>i. i mod 2)" for iter r
    by (simp add: exEnv_def)
  have upd: "(exPass [] 0 0)\<lparr>performanceIndeces := [exBaseline 1]\<rparr> = exPass [exBaseline 1] 0 0"
    "(exPass [exBaseline 1] 0 (Suc 0))\<lparr>totalNumIterations := Suc 0\<rparr> = exPass [exBaseline 1] (Suc 0) (Suc 0)"
    "totalNumIterations (exPass [exBaseline 1] 0 (Suc 0)) = 0"
    "performanceIndeces (exPass [] 0 0) = []"
    by (simp_all add: exPass_def)
  show ?thesis
    by (simp add: sqpStep_def sch ex_two_setup_first upd atIdx_def vsub_def ex_two_solve_first
          ex_two_takeStep)
qed

lemma ex_two_setup_second:
  "setupQuadraticSubproblem (exEnv False 1) (exPass [exBaseline 1] (Suc 0) (Suc 0))
     (\<lambda>i. i mod 2) [0, 1] [1] [[1], [0]] [[- 1]] = Inr (exBaseline 0, exPass [exBaseline 1] (Suc 0) (Suc 0))"
  by code_simp

lemma ex_two_solve_second:
  "getOCPSolution (exEnv False 1) (exPass [exBaseline 1, exBaseline 0] (Suc 0) (Suc 0)) [0] =
     (Inl QPSolveFailure, exPass [exBaseline 1, exBaseline 0] (Suc 0) (Suc (Suc 0)))"
  by code_simp

lemma ex_run_second_fail:
  "runImpl (exEnv False 1) exTwoPasses 0 [1] 1 =
   Some (Some QPSolveFailure, exPass [exBaseline 1, exBaseline 0] (Suc 0) (Suc (Suc 0)))"
proof -
  have td: "timeDiscretizationWithEvents (exEnv False 1) 0 1 (dt (settings exTwoPasses))
              (eventTimes exTwoPasses) = [0, 1]"
    by (simp add: exEnv_def)
  have sch: "schedule (exEnv False 1) iter r = (\<lambda>i. i mod 2)" for iter r
    by (simp add: exEnv_def)
  have it: "nat (sqpIteration (settings exTwoPasses)) = Suc (Suc 0)"
    by (simp add: exTwoPasses_def)
  have upd: "(exPass [exBaseline 1] (Suc 0) (Suc 0))
               \<lparr>performanceIndeces := [exBaseline 1, exBaseline 0]\<rparr>
             = exPass [exBaseline 1, exBaseline 0] (Suc 0) (Suc 0)"
    "performanceIndeces (exPass [exBaseline 1] (Suc 0) (Suc 0)) = [exBaseline 1]"
    by (simp_all add: exPass_def)
  have "sqpLoop (exEnv False 1) [0, 1] [1] (Suc 0) (0 + Suc 0)
          (exPass [exBaseline 1] (Suc 0) (Suc 0)) [[1], [0]] [[- 1]]
        = Some (Some QPSolveFailure, exPass [exBaseline 1, exBaseline 0] (Suc 0) (Suc (Suc 0)),
                [[1], [0]], [[- 1]])"
    by (simp add: sqpStep_def sch ex_two_setup_second upd atIdx_def vsub_def ex_two_solve_second)
  with sqpLoop_after [OF ex_two_first_pass, of "Suc 0"]
  have loop: "sqpLoop (exEnv False 1) [0, 1] [1] (Suc (Suc 0)) 0
                (exTwoPasses\<lparr>performanceIndeces := []\<rparr>) [[1], [1]] [[0]]
              = Some (Some QPSolveFailure,
                      exPass [exBaseline 1, exBaseline 0] (Suc 0) (Suc (Suc 0)),
                      [[1], [0]], [[- 1]])"
    by simp
  show ?thesis
    by (simp add: runImpl_def Let_def td ex_two_init it loop del: sqpLoop.simps)
qed






subsection \<open>The claims\<close>




text \<open>
  C2. \<^verbatim>\<open>takeStep\<close> starts at \<open>\<alpha> = 1\<close> and multiplies \<open>\<alpha>\<close> by \<open>alpha_decay\<close> on each
  rejection, so the \<open>k\<close>-th candidate has step size \<open>alpha_decay ^ k\<close>. When it returns, there
  is the index \<open>k\<close> at which it stops: every candidate before \<open>k\<close> was tried with
  \<open>\<alpha> > alpha_min\<close>, rejected, and not below the step tolerance; at \<open>k\<close> either
  \<open>\<alpha> \<le> alpha_min\<close>, and it returns true (d), or the candidate \<open>k\<close> is accepted or below the
  step tolerance, and it returns true exactly when (a) the candidate is accepted and
  \<open>\<alpha> \<parallel>\<Delta>u\<parallel> < deltaTol\<close> and \<open>\<alpha> \<parallel>\<Delta>x\<parallel> < deltaTol\<close>, or (b) the candidate is accepted and
  \<open>\<bar>baseline merit - candidate merit\<bar> < costTol\<close> and \<open>v < g_min\<close>, with \<open>v\<close> the violation
  norm of the candidate (the square root of the sum of its three squared errors), or
  (c) the candidate is rejected with the step size below the tolerance. It does return
  when \<open>alpha_decay < 1\<close> and \<open>0 < alpha_min\<close>. The norms are the Euclidean norms of the
  concatenated sequences.
\<close>

theorem C2_takeStep_convergence:
  "(takeStep env s scheds baseline time initState dx du x u = Some (Inr (converged, x', u')) \<longrightarrow>
      (\<exists>k. (\<forall>j<k. alpha_min (settings s) < alpha_decay (settings s) ^ j
                 \<and> (\<exists>xNew uNew p.
                       candidate env s (scheds j) time initState dx du x u
                         (alpha_decay (settings s) ^ j) = Inr (xNew, uNew, p)
                     \<and> \<not> stepAccepted (settings s) baseline p
                     \<and> \<not> stepSizeBelowTol (settings s) dx du (alpha_decay (settings s) ^ j)))
          \<and> (if alpha_min (settings s) < alpha_decay (settings s) ^ k
              then \<exists>xNew uNew p.
                     candidate env s (scheds k) time initState dx du x u
                       (alpha_decay (settings s) ^ k) = Inr (xNew, uNew, p)
                   \<and> (stepAccepted (settings s) baseline p
                      \<or> stepSizeBelowTol (settings s) dx du (alpha_decay (settings s) ^ k))
                   \<and> (converged \<longleftrightarrow>
                        (stepAccepted (settings s) baseline p
                         \<and> stepSizeBelowTol (settings s) dx du (alpha_decay (settings s) ^ k))
                      \<or> (stepAccepted (settings s) baseline p
                         \<and> \<bar>merit baseline - merit p\<bar> < costTol (settings s)
                         \<and> 0 \<le> stateEqConstraintISE p + stateInputEqConstraintISE p
                                  + inequalityConstraintISE p
                         \<and> sqrt (stateEqConstraintISE p + stateInputEqConstraintISE p
                                  + inequalityConstraintISE p) < g_min (settings s))
                      \<or> (\<not> stepAccepted (settings s) baseline p
                         \<and> stepSizeBelowTol (settings s) dx du (alpha_decay (settings s) ^ k)))
              else converged)))
   \<and> (alpha_decay (settings s) < 1 \<and> 0 < alpha_min (settings s) \<longrightarrow>
        (\<exists>res. takeStep env s scheds baseline time initState dx du x u = Some res))
   \<and> (stepSizeBelowTol (settings s) dx du alpha \<longleftrightarrow>
        alpha * sqrt (sum_list (map (\<lambda>c. c\<^sup>2) (concat du))) < deltaTol (settings s)
        \<and> alpha * sqrt (sum_list (map (\<lambda>c. c\<^sup>2) (concat dx))) < deltaTol (settings s))"
proof (intro conjI impI)
  assume "takeStep env s scheds baseline time initState dx du x u = Some (Inr (converged, x', u'))"
  from takeStep_outcome [OF this] obtain k where
    rej: "\<forall>j<k. alpha_min (settings s) < alpha_decay (settings s) ^ j
                 \<and> (\<exists>xNew uNew p.
                       candidate env s (scheds j) time initState dx du x u
                         (alpha_decay (settings s) ^ j) = Inr (xNew, uNew, p)
                     \<and> \<not> stepAccepted (settings s) baseline p
                     \<and> \<not> stepSizeBelowTol (settings s) dx du (alpha_decay (settings s) ^ j))"
    and stop: "if alpha_min (settings s) < alpha_decay (settings s) ^ k
              then \<exists>xNew uNew p.
                     candidate env s (scheds k) time initState dx du x u
                       (alpha_decay (settings s) ^ k) = Inr (xNew, uNew, p)
                   \<and> (if stepAccepted (settings s) baseline p
                      then converged = (stepSizeBelowTol (settings s) dx du (alpha_decay (settings s) ^ k)
                                        \<or> improvementBelowTol (settings s) baseline p)
                           \<and> x' = xNew \<and> u' = uNew
                      else stepSizeBelowTol (settings s) dx du (alpha_decay (settings s) ^ k)
                           \<and> converged \<and> x' = x \<and> u' = u)
              else converged \<and> x' = x \<and> u' = u"
    by blast
  have imp: "improvementBelowTol (settings s) baseline p \<longleftrightarrow>
               \<bar>merit baseline - merit p\<bar> < costTol (settings s)
               \<and> 0 \<le> stateEqConstraintISE p + stateInputEqConstraintISE p
                        + inequalityConstraintISE p
               \<and> sqrt (stateEqConstraintISE p + stateInputEqConstraintISE p
                        + inequalityConstraintISE p) < g_min (settings s)" for p
    by (auto simp add: improvementBelowTol_def constraintViolation_def sqrtNaN_def lessNaN_def)
  have "if alpha_min (settings s) < alpha_decay (settings s) ^ k
              then \<exists>xNew uNew p.
                     candidate env s (scheds k) time initState dx du x u
                       (alpha_decay (settings s) ^ k) = Inr (xNew, uNew, p)
                   \<and> (stepAccepted (settings s) baseline p
                      \<or> stepSizeBelowTol (settings s) dx du (alpha_decay (settings s) ^ k))
                   \<and> (converged \<longleftrightarrow>
                        (stepAccepted (settings s) baseline p
                         \<and> stepSizeBelowTol (settings s) dx du (alpha_decay (settings s) ^ k))
                      \<or> (stepAccepted (settings s) baseline p
                         \<and> \<bar>merit baseline - merit p\<bar> < costTol (settings s)
                         \<and> 0 \<le> stateEqConstraintISE p + stateInputEqConstraintISE p
                                  + inequalityConstraintISE p
                         \<and> sqrt (stateEqConstraintISE p + stateInputEqConstraintISE p
                                  + inequalityConstraintISE p) < g_min (settings s))
                      \<or> (\<not> stepAccepted (settings s) baseline p
                         \<and> stepSizeBelowTol (settings s) dx du (alpha_decay (settings s) ^ k)))
              else converged"
  proof (cases "alpha_min (settings s) < alpha_decay (settings s) ^ k")
    case False
    with stop show ?thesis by simp
  next
    case True
    with stop obtain xNew uNew p where
      c: "candidate env s (scheds k) time initState dx du x u
            (alpha_decay (settings s) ^ k) = Inr (xNew, uNew, p)"
      and r: "if stepAccepted (settings s) baseline p
              then converged = (stepSizeBelowTol (settings s) dx du (alpha_decay (settings s) ^ k)
                                \<or> improvementBelowTol (settings s) baseline p)
                   \<and> x' = xNew \<and> u' = uNew
              else stepSizeBelowTol (settings s) dx du (alpha_decay (settings s) ^ k)
                   \<and> converged \<and> x' = x \<and> u' = u"
      by auto
    from r have "(stepAccepted (settings s) baseline p
                      \<or> stepSizeBelowTol (settings s) dx du (alpha_decay (settings s) ^ k))
                   \<and> (converged \<longleftrightarrow>
                        (stepAccepted (settings s) baseline p
                         \<and> stepSizeBelowTol (settings s) dx du (alpha_decay (settings s) ^ k))
                      \<or> (stepAccepted (settings s) baseline p
                         \<and> \<bar>merit baseline - merit p\<bar> < costTol (settings s)
                         \<and> 0 \<le> stateEqConstraintISE p + stateInputEqConstraintISE p
                                  + inequalityConstraintISE p
                         \<and> sqrt (stateEqConstraintISE p + stateInputEqConstraintISE p
                                  + inequalityConstraintISE p) < g_min (settings s))
                      \<or> (\<not> stepAccepted (settings s) baseline p
                         \<and> stepSizeBelowTol (settings s) dx du (alpha_decay (settings s) ^ k)))"
      unfolding imp [symmetric] by (auto split: if_splits)
    with c True show ?thesis by auto
  qed
  with rej show "\<exists>k. (\<forall>j<k. alpha_min (settings s) < alpha_decay (settings s) ^ j
                 \<and> (\<exists>xNew uNew p.
                       candidate env s (scheds j) time initState dx du x u
                         (alpha_decay (settings s) ^ j) = Inr (xNew, uNew, p)
                     \<and> \<not> stepAccepted (settings s) baseline p
                     \<and> \<not> stepSizeBelowTol (settings s) dx du (alpha_decay (settings s) ^ j)))
          \<and> (if alpha_min (settings s) < alpha_decay (settings s) ^ k
              then \<exists>xNew uNew p.
                     candidate env s (scheds k) time initState dx du x u
                       (alpha_decay (settings s) ^ k) = Inr (xNew, uNew, p)
                   \<and> (stepAccepted (settings s) baseline p
                      \<or> stepSizeBelowTol (settings s) dx du (alpha_decay (settings s) ^ k))
                   \<and> (converged \<longleftrightarrow>
                        (stepAccepted (settings s) baseline p
                         \<and> stepSizeBelowTol (settings s) dx du (alpha_decay (settings s) ^ k))
                      \<or> (stepAccepted (settings s) baseline p
                         \<and> \<bar>merit baseline - merit p\<bar> < costTol (settings s)
                         \<and> 0 \<le> stateEqConstraintISE p + stateInputEqConstraintISE p
                                  + inequalityConstraintISE p
                         \<and> sqrt (stateEqConstraintISE p + stateInputEqConstraintISE p
                                  + inequalityConstraintISE p) < g_min (settings s))
                      \<or> (\<not> stepAccepted (settings s) baseline p
                         \<and> stepSizeBelowTol (settings s) dx du (alpha_decay (settings s) ^ k)))
              else converged)"
    by blast
next
  assume "alpha_decay (settings s) < 1 \<and> 0 < alpha_min (settings s)"
  then show "\<exists>res. takeStep env s scheds baseline time initState dx du x u = Some res"
    by (simp add: takeStep_terminates)
next
  show "stepSizeBelowTol (settings s) dx du alpha \<longleftrightarrow>
        alpha * sqrt (sum_list (map (\<lambda>c. c\<^sup>2) (concat du))) < deltaTol (settings s)
        \<and> alpha * sqrt (sum_list (map (\<lambda>c. c\<^sup>2) (concat dx))) < deltaTol (settings s)"
    by (simp add: stepSizeBelowTol_def Let_def trajectoryNorm_concat)
qed

theorem C2_takeStep_convergence_witness:
  "alpha_decay (settings (exSolver False False False 2)) < 1
   \<and> 0 < alpha_min (settings (exSolver False False False 2))
   \<and> takeStep (exEnv False 1) (exSolver False False False 2) (\<lambda>k i. i mod 2) (exBaseline 1)
       [0, 1] [1] [[0], [- 1]] [[15]] [[1], [1]] [[0]]
       = Some (Inr (False, [[1], [1 / 2]], [[15 / 2]]))
   \<and> (\<exists>res. takeStep (exEnv False 1) (exSolver False False False 2) (\<lambda>k i. i mod 2)
               (exBaseline 1) [0, 1] [1] [[0], [- 1]] [[15]] [[1], [1]] [[0]] = Some res)
   \<and> (\<exists>xNew uNew p.
          candidate (exEnv False 1) (exSolver False False False 2) (\<lambda>i. i mod 2)
            [0, 1] [1] [[0], [- 1]] [[15]] [[1], [1]] [[0]]
            (alpha_decay (settings (exSolver False False False 2)) ^ 0) = Inr (xNew, uNew, p)
        \<and> \<not> stepAccepted (settings (exSolver False False False 2)) (exBaseline 1) p
        \<and> \<not> stepSizeBelowTol (settings (exSolver False False False 2)) [[0], [- 1]] [[15]]
              (alpha_decay (settings (exSolver False False False 2)) ^ 0))
   \<and> (\<exists>xNew uNew p.
          candidate (exEnv False 1) (exSolver False False False 2) (\<lambda>i. i mod 2)
            [0, 1] [1] [[0], [- 1]] [[15]] [[1], [1]] [[0]]
            (alpha_decay (settings (exSolver False False False 2)) ^ 1) = Inr (xNew, uNew, p)
        \<and> stepAccepted (settings (exSolver False False False 2)) (exBaseline 1) p
        \<and> \<not> stepSizeBelowTol (settings (exSolver False False False 2)) [[0], [- 1]] [[15]]
              (alpha_decay (settings (exSolver False False False 2)) ^ 1)
        \<and> \<not> (\<bar>merit (exBaseline 1) - merit p\<bar> < costTol (settings (exSolver False False False 2))
              \<and> 0 \<le> stateEqConstraintISE p + stateInputEqConstraintISE p
                       + inequalityConstraintISE p
              \<and> sqrt (stateEqConstraintISE p + stateInputEqConstraintISE p
                       + inequalityConstraintISE p)
                  < g_min (settings (exSolver False False False 2))))"
proof -
  let ?E = "exEnv False 1"
  let ?S = "exSolver False False False 2"
  let ?st = "settings (exSolver False False False 2)"
  have cfg: "alpha_decay ?st < 1 \<and> 0 < alpha_min ?st"
    by simp
  note inst = C2_takeStep_convergence
    [of ?E ?S "\<lambda>k i. i mod 2" "exBaseline 1"
        "[0, 1]" "[1]" "[[0], [- 1]]" "[[15]]" "[[1], [1]]" "[[0]]" False "[[1], [1 / 2]]"
        "[[15 / 2]]"]
  from inst cfg have ret:
    "\<exists>res. takeStep ?E ?S (\<lambda>k i. i mod 2) (exBaseline 1) [0, 1] [1] [[0], [- 1]] [[15]]
             [[1], [1]] [[0]] = Some res"
    by blast
  from inst ex_takeStep_decay obtain k where
    rej: "\<forall>j<k. alpha_min ?st < alpha_decay ?st ^ j
                 \<and> (\<exists>xNew uNew p.
                       candidate ?E ?S (\<lambda>i. i mod 2) [0, 1] [1] [[0], [- 1]] [[15]]
                         [[1], [1]] [[0]] (alpha_decay ?st ^ j) = Inr (xNew, uNew, p)
                     \<and> \<not> stepAccepted ?st (exBaseline 1) p
                     \<and> \<not> stepSizeBelowTol ?st [[0], [- 1]] [[15]] (alpha_decay ?st ^ j))"
    and stop: "if alpha_min ?st < alpha_decay ?st ^ k
              then \<exists>xNew uNew p.
                     candidate ?E ?S (\<lambda>i. i mod 2) [0, 1] [1] [[0], [- 1]] [[15]]
                       [[1], [1]] [[0]] (alpha_decay ?st ^ k) = Inr (xNew, uNew, p)
                   \<and> (stepAccepted ?st (exBaseline 1) p
                      \<or> stepSizeBelowTol ?st [[0], [- 1]] [[15]] (alpha_decay ?st ^ k))
                   \<and> (False \<longleftrightarrow>
                        (stepAccepted ?st (exBaseline 1) p
                         \<and> stepSizeBelowTol ?st [[0], [- 1]] [[15]] (alpha_decay ?st ^ k))
                      \<or> (stepAccepted ?st (exBaseline 1) p
                         \<and> \<bar>merit (exBaseline 1) - merit p\<bar> < costTol ?st
                         \<and> 0 \<le> stateEqConstraintISE p + stateInputEqConstraintISE p
                                  + inequalityConstraintISE p
                         \<and> sqrt (stateEqConstraintISE p + stateInputEqConstraintISE p
                                  + inequalityConstraintISE p) < g_min ?st)
                      \<or> (\<not> stepAccepted ?st (exBaseline 1) p
                         \<and> stepSizeBelowTol ?st [[0], [- 1]] [[15]] (alpha_decay ?st ^ k)))
              else False"
    by blast
  have acc: "stepAccepted ?st (exBaseline 1)
               (PerformanceIndex0\<lparr>merit := 1 / 4, totalCost := 1 / 4,
                  stateEqConstraintISE := 64\<rparr>)"
    "\<not> stepAccepted ?st (exBaseline 1) (PerformanceIndex0\<lparr>stateEqConstraintISE := 256\<rparr>)"
    by (simp_all add: stepAccepted_def lessNaN_def minusNaN_def timesNaN_def)
  have small: "\<not> stepSizeBelowTol ?st [[0], [- 1]] [[15]] 1"
    "\<not> stepSizeBelowTol ?st [[0], [- 1]] [[15]] (1 / 2)"
    by (simp_all add: stepSizeBelowTol_def)
  have "k = 1"
  proof (rule ccontr)
    assume "k \<noteq> 1"
    then consider "k = 0" | "1 < k" by linarith
    then show False
    proof cases
      case 1
      with stop acc small show False
        by (simp add: ex_candidate_far_1)
    next
      case 2
      with rej have "\<exists>xNew uNew p.
                       candidate ?E ?S (\<lambda>i. i mod 2) [0, 1] [1] [[0], [- 1]] [[15]]
                         [[1], [1]] [[0]] (alpha_decay ?st ^ 1) = Inr (xNew, uNew, p)
                     \<and> \<not> stepAccepted ?st (exBaseline 1) p"
        by blast
      with acc show False
        by (simp add: ex_candidate_far_2)
    qed
  qed
  with rej have first: "\<exists>xNew uNew p.
          candidate ?E ?S (\<lambda>i. i mod 2) [0, 1] [1] [[0], [- 1]] [[15]] [[1], [1]] [[0]]
            (alpha_decay ?st ^ 0) = Inr (xNew, uNew, p)
        \<and> \<not> stepAccepted ?st (exBaseline 1) p
        \<and> \<not> stepSizeBelowTol ?st [[0], [- 1]] [[15]] (alpha_decay ?st ^ 0)"
    by blast
  from stop \<open>k = 1\<close> have "\<exists>xNew uNew p.
          candidate ?E ?S (\<lambda>i. i mod 2) [0, 1] [1] [[0], [- 1]] [[15]] [[1], [1]] [[0]]
            (alpha_decay ?st ^ 1) = Inr (xNew, uNew, p)
        \<and> (stepAccepted ?st (exBaseline 1) p
           \<or> stepSizeBelowTol ?st [[0], [- 1]] [[15]] (alpha_decay ?st ^ 1))
        \<and> (False \<longleftrightarrow>
                        (stepAccepted ?st (exBaseline 1) p
                         \<and> stepSizeBelowTol ?st [[0], [- 1]] [[15]] (alpha_decay ?st ^ 1))
                      \<or> (stepAccepted ?st (exBaseline 1) p
                         \<and> \<bar>merit (exBaseline 1) - merit p\<bar> < costTol ?st
                         \<and> 0 \<le> stateEqConstraintISE p + stateInputEqConstraintISE p
                                  + inequalityConstraintISE p
                         \<and> sqrt (stateEqConstraintISE p + stateInputEqConstraintISE p
                                  + inequalityConstraintISE p) < g_min ?st)
                      \<or> (\<not> stepAccepted ?st (exBaseline 1) p
                         \<and> stepSizeBelowTol ?st [[0], [- 1]] [[15]] (alpha_decay ?st ^ 1)))"
    by (simp split: if_splits)
  then have second: "\<exists>xNew uNew p.
          candidate ?E ?S (\<lambda>i. i mod 2) [0, 1] [1] [[0], [- 1]] [[15]] [[1], [1]] [[0]]
            (alpha_decay ?st ^ 1) = Inr (xNew, uNew, p)
        \<and> stepAccepted ?st (exBaseline 1) p
        \<and> \<not> stepSizeBelowTol ?st [[0], [- 1]] [[15]] (alpha_decay ?st ^ 1)
        \<and> \<not> (\<bar>merit (exBaseline 1) - merit p\<bar> < costTol ?st
              \<and> 0 \<le> stateEqConstraintISE p + stateInputEqConstraintISE p
                       + inequalityConstraintISE p
              \<and> sqrt (stateEqConstraintISE p + stateInputEqConstraintISE p
                       + inequalityConstraintISE p) < g_min ?st)"
    by blast
  from cfg ex_takeStep_decay ret first second show ?thesis by blast
qed

text \<open>
  C3. If the QP back end returns a status other than success, \<^verbatim>\<open>getOCPSolution\<close> throws.
  Whenever that happens in a pass of \<^verbatim>\<open>runImpl\<close> (the first or a later one: the \<open>j\<close> passes
  before it have gone on to the next pass, pass \<open>j\<close> is within \<^verbatim>\<open>sqpIteration\<close>, it has
  assembled its subproblem, and its QP solve returns a status other than success),
  \<^verbatim>\<open>runImpl\<close> is left by this error, and the stored primal solution (time, state and
  input trajectories, mode schedule and controller) is what it was before \<^verbatim>\<open>runImpl\<close>
  started. In general, whenever \<^verbatim>\<open>runImpl\<close> is left by this error the stored primal
  solution is unchanged.
\<close>

theorem C3_qp_failure:
  "(frontOf (constraintPtr s) = Inr hasConstraint
    \<and> fst (hpipmSolve env (hpipmInterface s) deltaX (dynamicsQP s) (costQP s)
             (if hasConstraint \<and> \<not> projectStateInputEqualityConstraints (settings s)
              then Some (constraintsQP s) else None)) \<noteq> SUCCESS
    \<longrightarrow> fst (getOCPSolution env s deltaX) = Inl QPSolveFailure)
   \<and> (initializeStateTrajectory env s initState
         (timeDiscretizationWithEvents env initTime finalTime (dt (settings s)) (eventTimes s))
         (int (length (timeDiscretizationWithEvents env initTime finalTime (dt (settings s))
                         (eventTimes s))) - 1) = Inr x
      \<and> initializeInputTrajectory env s
          (timeDiscretizationWithEvents env initTime finalTime (dt (settings s)) (eventTimes s))
          x (int (length (timeDiscretizationWithEvents env initTime finalTime (dt (settings s))
                            (eventTimes s))) - 1) = Inr u
      \<and> sqpAfter env
          (timeDiscretizationWithEvents env initTime finalTime (dt (settings s)) (eventTimes s))
          initState j 0 (s\<lparr>performanceIndeces := []\<rparr>) x u = Some (sPass, xPass, uPass)
      \<and> int j < sqpIteration (settings s)
      \<and> setupQuadraticSubproblem env sPass (schedule env j 0)
          (timeDiscretizationWithEvents env initTime finalTime (dt (settings s)) (eventTimes s))
          initState xPass uPass = Inr (perf, sQP)
      \<and> atIdx xPass 0 = Inr xFront
      \<and> frontOf (constraintPtr sQP) = Inr hasConstraintQP
      \<and> fst (hpipmSolve env (hpipmInterface sQP) (vsub initState xFront) (dynamicsQP sQP)
               (costQP sQP)
               (if hasConstraintQP \<and> \<not> projectStateInputEqualityConstraints (settings sQP)
                then Some (constraintsQP sQP) else None)) \<noteq> SUCCESS
      \<longrightarrow> (\<exists>sErr. runImpl env s initTime initState finalTime = Some (Some QPSolveFailure, sErr)
                  \<and> primalSolution sErr = primalSolution s))
   \<and> (runImpl env s initTime initState finalTime = Some (Some QPSolveFailure, s')
      \<longrightarrow> primalSolution s' = primalSolution s)"
proof (intro conjI impI)
  assume "frontOf (constraintPtr s) = Inr hasConstraint
    \<and> fst (hpipmSolve env (hpipmInterface s) deltaX (dynamicsQP s) (costQP s)
             (if hasConstraint \<and> \<not> projectStateInputEqualityConstraints (settings s)
              then Some (constraintsQP s) else None)) \<noteq> SUCCESS"
  then show "fst (getOCPSolution env s deltaX) = Inl QPSolveFailure"
    by (rule getOCPSolution_failure)
next
  let ?td = "timeDiscretizationWithEvents env initTime finalTime (dt (settings s)) (eventTimes s)"
  let ?N = "int (length ?td) - 1"
  assume a: "initializeStateTrajectory env s initState ?td ?N = Inr x
      \<and> initializeInputTrajectory env s ?td x ?N = Inr u
      \<and> sqpAfter env ?td initState j 0 (s\<lparr>performanceIndeces := []\<rparr>) x u
          = Some (sPass, xPass, uPass)
      \<and> int j < sqpIteration (settings s)
      \<and> setupQuadraticSubproblem env sPass (schedule env j 0) ?td initState xPass uPass
          = Inr (perf, sQP)
      \<and> atIdx xPass 0 = Inr xFront
      \<and> frontOf (constraintPtr sQP) = Inr hasConstraintQP
      \<and> fst (hpipmSolve env (hpipmInterface sQP) (vsub initState xFront) (dynamicsQP sQP)
               (costQP sQP)
               (if hasConstraintQP \<and> \<not> projectStateInputEqualityConstraints (settings sQP)
                then Some (constraintsQP sQP) else None)) \<noteq> SUCCESS"
  let ?s2 = "sQP\<lparr>performanceIndeces := performanceIndeces sQP @ [perf]\<rparr>"
  from a have "frontOf (constraintPtr ?s2) = Inr hasConstraintQP
    \<and> fst (hpipmSolve env (hpipmInterface ?s2) (vsub initState xFront) (dynamicsQP ?s2)
             (costQP ?s2)
             (if hasConstraintQP \<and> \<not> projectStateInputEqualityConstraints (settings ?s2)
              then Some (constraintsQP ?s2) else None)) \<noteq> SUCCESS"
    by (simp split del: if_split cong: if_cong)
  then have "fst (getOCPSolution env ?s2 (vsub initState xFront)) = Inl QPSolveFailure"
    by (rule getOCPSolution_failure)
  then obtain sErr where
    g: "getOCPSolution env ?s2 (vsub initState xFront) = (Inl QPSolveFailure, sErr)"
    by (cases "getOCPSolution env ?s2 (vsub initState xFront)") simp
  with a have stp: "sqpStep env ?td initState j sPass xPass uPass
                      = Some (Inl QPSolveFailure, sErr, xPass, uPass)"
    by (simp add: sqpStep_def Let_def)
  from a have "j < nat (sqpIteration (settings s))" by linarith
  then obtain m where m: "nat (sqpIteration (settings s)) = j + Suc m"
    by (auto simp add: less_iff_Suc_add)
  from a have aft: "sqpAfter env ?td initState j 0 (s\<lparr>performanceIndeces := []\<rparr>) x u
                      = Some (sPass, xPass, uPass)"
    by simp
  from sqpLoop_after [OF aft, of "Suc m"] stp m
  have loop: "sqpLoop env ?td initState (nat (sqpIteration (settings s))) 0
                (s\<lparr>performanceIndeces := []\<rparr>) x u = Some (Some QPSolveFailure, sErr, xPass, uPass)"
    by simp
  with a have run: "runImpl env s initTime initState finalTime = Some (Some QPSolveFailure, sErr)"
    by (simp add: runImpl_def Let_def del: sqpLoop.simps)
  from runImpl_raises [OF run] have "primalSolution sErr = primalSolution s" by simp
  with run show "\<exists>sErr. runImpl env s initTime initState finalTime
                         = Some (Some QPSolveFailure, sErr)
                       \<and> primalSolution sErr = primalSolution s"
    by blast
next
  assume "runImpl env s initTime initState finalTime = Some (Some QPSolveFailure, s')"
  from runImpl_raises [OF this] show "primalSolution s' = primalSolution s" by simp
qed

theorem C3_qp_failure_witness:
  "sqpAfter (exEnv False 1) [0, 1] [1] (Suc 0) 0 (exTwoPasses\<lparr>performanceIndeces := []\<rparr>)
     [[1], [1]] [[0]] = Some (exPass [exBaseline 1] (Suc 0) (Suc 0), [[1], [0]], [[- 1]])
   \<and> int (Suc 0) < sqpIteration (settings exTwoPasses)
   \<and> setupQuadraticSubproblem (exEnv False 1) (exPass [exBaseline 1] (Suc 0) (Suc 0))
       (\<lambda>i. i mod 2) [0, 1] [1] [[1], [0]] [[- 1]]
       = Inr (exBaseline 0, exPass [exBaseline 1] (Suc 0) (Suc 0))
   \<and> fst (hpipmSolve (exEnv False 1) (Suc 0) [0] [()] [(), ()] None) \<noteq> SUCCESS
   \<and> fst (getOCPSolution (exEnv False 1) (exPass [exBaseline 1, exBaseline 0] (Suc 0) (Suc 0))
            [0]) = Inl QPSolveFailure
   \<and> (\<exists>sErr. runImpl (exEnv False 1) exTwoPasses 0 [1] 1 = Some (Some QPSolveFailure, sErr)
             \<and> primalSolution sErr = primalSolution exTwoPasses)"
proof -
  let ?E = "exEnv False 1"
  let ?P = "exPass [exBaseline 1] (Suc 0) (Suc 0)"
  let ?Q = "exPass [exBaseline 1, exBaseline 0] (Suc 0) (Suc 0)"
  have td: "timeDiscretizationWithEvents ?E 0 1 (dt (settings exTwoPasses))
              (eventTimes exTwoPasses) = [0, 1]"
    by (simp add: exEnv_def)
  have sch: "schedule ?E iter r = (\<lambda>i. i mod 2)" for iter r
    by (simp add: exEnv_def)
  have it: "int (Suc 0) < sqpIteration (settings exTwoPasses)"
    by (simp add: exTwoPasses_def)
  have x0: "atIdx [[1], [0 :: real]] 0 = Inr [1]"
    by (simp add: atIdx_def)
  have d0: "vsub [1] [1] = [0]"
    by (simp add: vsub_def)
  have fq: "frontOf (constraintPtr ?P) = Inr False" "frontOf (constraintPtr ?Q) = Inr False"
    by (simp_all add: exPass_def exTwoPasses_def exSolver_def frontOf_def numeral_2_eq_2)
  have ns: "fst (hpipmSolve ?E (Suc 0) [0] [()] [(), ()] None) \<noteq> SUCCESS"
    by (simp add: exEnv_def)
  have nsP: "fst (hpipmSolve ?E (hpipmInterface ?P) (vsub [1] [1]) (dynamicsQP ?P) (costQP ?P)
               (if False \<and> \<not> projectStateInputEqualityConstraints (settings ?P)
                then Some (constraintsQP ?P) else None)) \<noteq> SUCCESS"
    by (simp add: exEnv_def exPass_def)
  have nsQ: "fst (hpipmSolve ?E (hpipmInterface ?Q) [0] (dynamicsQP ?Q) (costQP ?Q)
               (if False \<and> \<not> projectStateInputEqualityConstraints (settings ?Q)
                then Some (constraintsQP ?Q) else None)) \<noteq> SUCCESS"
    by (simp add: exEnv_def exPass_def)
  from C3_qp_failure [where env = ?E and s = ?Q and hasConstraint = False and deltaX = "[0]"]
    fq nsQ
  have 1: "fst (getOCPSolution ?E ?Q [0]) = Inl QPSolveFailure"
    by blast
  from C3_qp_failure [where env = ?E and s = exTwoPasses and initTime = 0 and initState = "[1]"
      and finalTime = 1 and x = "[[1], [1]]" and u = "[[0]]" and j = "Suc 0" and sPass = ?P
      and xPass = "[[1], [0]]" and uPass = "[[- 1]]" and perf = "exBaseline 0" and sQP = ?P
      and xFront = "[1]" and hasConstraintQP = False]
    ex_two_init ex_two_first_pass it ex_two_setup_second x0 fq nsP
  have 2: "\<exists>sErr. runImpl ?E exTwoPasses 0 [1] 1 = Some (Some QPSolveFailure, sErr)
             \<and> primalSolution sErr = primalSolution exTwoPasses"
    by (simp add: td sch)
  from ex_two_first_pass it ex_two_setup_second ns 1 2 show ?thesis by blast
qed

text \<open>
  C4. The index returned by \<^verbatim>\<open>setupQuadraticSubproblem\<close> and the index returned by
  \<^verbatim>\<open>computePerformance\<close> have \<open>merit = totalCost + inequalityConstraintPenalty\<close>, the sum
  of the two fields of the aggregated index as the machine computes it (rounded by
  \<open>roundScalar\<close>; in exact arithmetic, the sum itself): the merit accumulated from the
  workers is overwritten from the aggregate.
\<close>

theorem C4_merit_identity:
  "(setupQuadraticSubproblem env s sched time initState x u = Inr (p, s')
      \<longrightarrow> merit p = roundScalar env (totalCost p + inequalityConstraintPenalty p)
        \<and> ((\<forall>a. roundScalar env a = a)
            \<longrightarrow> merit p = totalCost p + inequalityConstraintPenalty p))
   \<and> (computePerformance env s sched time initState x u = Inr q
      \<longrightarrow> merit q = roundScalar env (totalCost q + inequalityConstraintPenalty q)
        \<and> ((\<forall>a. roundScalar env a = a)
            \<longrightarrow> merit q = totalCost q + inequalityConstraintPenalty q))"
proof (intro conjI impI)
  assume "setupQuadraticSubproblem env s sched time initState x u = Inr (p, s')"
  then obtain perf where "p = sumPerformance (roundScalar env) perf"
    by (auto simp add: setupQuadraticSubproblem_def Let_def bindE_Inr_iff split: if_splits)
  then show m: "merit p = roundScalar env (totalCost p + inequalityConstraintPenalty p)"
    by (simp only: merit_sumPerformance)
  assume "\<forall>a. roundScalar env a = a"
  with m show "merit p = totalCost p + inequalityConstraintPenalty p" by simp
next
  assume "computePerformance env s sched time initState x u = Inr q"
  then obtain perf where "q = sumPerformance (roundScalar env) perf"
    by (auto simp add: computePerformance_def Let_def bindE_Inr_iff split: if_splits)
  then show m: "merit q = roundScalar env (totalCost q + inequalityConstraintPenalty q)"
    by (simp only: merit_sumPerformance)
  assume "\<forall>a. roundScalar env a = a"
  with m show "merit q = totalCost q + inequalityConstraintPenalty q" by simp
qed

theorem C4_merit_identity_witness:
  "(\<forall>a. roundScalar (exEnv False 1) a = a)
   \<and> (\<exists>p s' q.
     setupQuadraticSubproblem (exEnv False 1) (exSolver False False False 2)
       (\<lambda>i. i mod 2) [0, 1] [1] [[1], [1]] [[0]] = Inr (p, s')
   \<and> computePerformance (exEnv False 1) (exSolver False False False 2) (\<lambda>i. i mod 2)
       [0, 1] [1] [[1], [1]] [[0]] = Inr q
   \<and> merit p = totalCost p + inequalityConstraintPenalty p
   \<and> merit q = totalCost q + inequalityConstraintPenalty q
   \<and> merit q = 1 \<and> totalCost q = 1 \<and> inequalityConstraintPenalty q = 0)"
proof -
  obtain p s' where run:
    "setupQuadraticSubproblem (exEnv False 1) (exSolver False False False 2)
       (\<lambda>i. i mod 2) [0, 1] [1] [[1], [1]] [[0]] = Inr (p, s')"
    using ex_setup_runs by (auto split: sum.splits)
  have rnd: "\<forall>a. roundScalar (exEnv False 1) a = a"
    by (simp add: exEnv_def)
  from C4_merit_identity
    [of "exEnv False 1" "exSolver False False False 2" "\<lambda>i. i mod 2" "[0, 1]" "[1]"
        "[[1], [1]]" "[[0]]" p s'] run ex_baseline_performance rnd
  show ?thesis by simp
qed




text \<open>
  C6. When \<^verbatim>\<open>runImpl\<close> returns normally on a time grid of \<open>N + 1\<close> points, the stored time,
  state and input trajectories all have length \<open>N + 1\<close>; the input trajectory is one of
  length \<open>N\<close> followed by a copy of its last element.
\<close>

theorem C6_trajectory_lengths:
  assumes "runImpl env s initTime initState finalTime = Some (None, s')"
  shows "timeTrajectory (primalSolution s')
           = timeDiscretizationWithEvents env initTime finalTime (dt (settings s)) (eventTimes s)
       \<and> length (stateTrajectory (primalSolution s')) = length (timeTrajectory (primalSolution s'))
       \<and> length (inputTrajectory (primalSolution s')) = length (timeTrajectory (primalSolution s'))
       \<and> (\<exists>u. u \<noteq> [] \<and> length u + 1 = length (timeTrajectory (primalSolution s'))
              \<and> inputTrajectory (primalSolution s') = u @ [last u])"
proof -
  let ?td = "timeDiscretizationWithEvents env initTime finalTime (dt (settings s)) (eventTimes s)"
  let ?N = "int (length ?td) - 1"
  from runImpl_returns [OF assms] obtain x u s1 x' u' s2 where
    ix: "initializeStateTrajectory env s initState ?td ?N = Inr x"
    and iu: "initializeInputTrajectory env s ?td x ?N = Inr u"
    and loop: "sqpLoop env ?td initState (nat (sqpIteration (settings s))) 0
                 (s\<lparr>performanceIndeces := []\<rparr>) x u = Some (None, s1, x', u')"
    and store: "storePrimalSolution s1 ?td x' u' = Inr s2"
    and ctrl: "computeController env s2 ?N = Inr s'"
    by blast
  from initializeInputTrajectory_length [OF iu] have N: "0 \<le> ?N" and lu: "length u = nat ?N"
    by simp_all
  from initializeStateTrajectory_length [OF ix N] have lx: "length x = nat (?N + 1)" .
  from sqpLoop_invariant [OF loop] have l': "length x' = length x" "length u' = length u"
    by simp_all
  from storePrimalSolution_Inr [OF store] computeController_trajectories [OF ctrl]
  have t: "timeTrajectory (primalSolution s') = ?td"
    and x: "stateTrajectory (primalSolution s') = x'"
    and u: "inputTrajectory (primalSolution s') = u' @ [last u']"
    and ne: "u' \<noteq> []"
    by simp_all
  from N have "nat (?N + 1) = length ?td" "nat ?N + 1 = length ?td"
    by arith+
  with lx lu l' have "length x' = length ?td" "length u' + 1 = length ?td"
    by simp_all
  with t x u ne show ?thesis by auto
qed

theorem C6_trajectory_lengths_witness:
  "runImpl (exEnv True 1) (exSolver True True True 2) 0 [1] 1 =
     Some (None, exReturned True True True [[1], [0]] [[2], [2]]
                   (LinearController [0, 1] [[- 5], [- 5]] [Matrix 1 [[7]], Matrix 1 [[7]]]))
   \<and> length (timeTrajectory (primalSolution (exReturned True True True [[1], [0]] [[2], [2]]
                   (LinearController [0, 1] [[- 5], [- 5]] [Matrix 1 [[7]], Matrix 1 [[7]]])))) = 2
   \<and> length (stateTrajectory (primalSolution (exReturned True True True [[1], [0]] [[2], [2]]
                   (LinearController [0, 1] [[- 5], [- 5]] [Matrix 1 [[7]], Matrix 1 [[7]]])))) = 2
   \<and> length (inputTrajectory (primalSolution (exReturned True True True [[1], [0]] [[2], [2]]
                   (LinearController [0, 1] [[- 5], [- 5]] [Matrix 1 [[7]], Matrix 1 [[7]]])))) = 2"
proof -
  have "timeDiscretizationWithEvents (exEnv True 1) 0 1
              (dt (settings (exSolver True True True 2))) (eventTimes (exSolver True True True 2))
            = [0, 1]"
    by (simp add: exEnv_def)
  with C6_trajectory_lengths [OF ex_run_projected] ex_run_projected show ?thesis
    by simp
qed

text \<open>
  C7. With a constraint and projection enabled, \<^verbatim>\<open>getOCPSolution\<close> maps the QP solution of
  every node \<open>i\<close> back to the real input: the new \<open>\<Delta>u[i]\<close> is \<open>dfdu[i]\<close> times the reduced
  \<open>\<Delta>u[i]\<close>, plus \<open>dfdx[i] \<Delta>x[i]\<close>, plus \<open>f[i]\<close>, with the stored block of the node. With
  projection disabled or without a constraint, \<open>\<Delta>u\<close> is returned as the back end gave it.
\<close>

theorem C7_remap:
  assumes "frontOf (constraintPtr s) = Inr hasConstraint"
    and "hpipmSolve env (hpipmInterface s) delta_x0 (dynamicsQP s) (costQP s)
           (if hasConstraint \<and> \<not> projectStateInputEqualityConstraints (settings s)
            then Some (constraintsQP s) else None) = (SUCCESS, deltaXSol, deltaUSol, h)"
  shows "(hasConstraint \<and> projectStateInputEqualityConstraints (settings s)
          \<and> length deltaUSol \<le> length (constraintsQP s) \<and> length deltaUSol \<le> length deltaXSol
          \<longrightarrow> (\<exists>deltaU. fst (getOCPSolution env s delta_x0) = Inr (deltaXSol, deltaU)
                 \<and> length deltaU = length deltaUSol
                 \<and> (\<forall>i<length deltaUSol.
                      deltaU ! i =
                        vadd (vadd (matvec (dfdu (constraintsQP s ! i)) (deltaUSol ! i))
                                (matvec (dfdx (constraintsQP s ! i)) (deltaXSol ! i)))
                          (f (constraintsQP s ! i)))))
       \<and> (\<not> (hasConstraint \<and> projectStateInputEqualityConstraints (settings s))
          \<longrightarrow> fst (getOCPSolution env s delta_x0) = Inr (deltaXSol, deltaUSol))"
proof (intro conjI impI)
  assume a: "hasConstraint \<and> projectStateInputEqualityConstraints (settings s)
          \<and> length deltaUSol \<le> length (constraintsQP s) \<and> length deltaUSol \<le> length deltaXSol"
  let ?h = "\<lambda>i. vadd (vadd (matvec (dfdu (constraintsQP s ! i)) (deltaUSol ! i))
                                (matvec (dfdx (constraintsQP s ! i)) (deltaXSol ! i)))
                          (f (constraintsQP s ! i))"
  from a have "\<forall>i<length deltaUSol. remapInput (constraintsQP s) deltaXSol deltaUSol (int i) = Inr (?h i)"
    by (simp add: remapInput_def)
  then have "mapE (remapInput (constraintsQP s) deltaXSol deltaUSol) (map int [0..<length deltaUSol])
               = Inr (map ?h [0..<length deltaUSol])"
    by (rule mapE_upt)
  with a assms have "fst (getOCPSolution env s delta_x0) = Inr (deltaXSol, map ?h [0..<length deltaUSol])"
    by (simp add: getOCPSolution_def)
  then show "\<exists>deltaU. fst (getOCPSolution env s delta_x0) = Inr (deltaXSol, deltaU)
                 \<and> length deltaU = length deltaUSol
                 \<and> (\<forall>i<length deltaUSol. deltaU ! i = ?h i)"
    by simp
next
  assume "\<not> (hasConstraint \<and> projectStateInputEqualityConstraints (settings s))"
  with assms show "fst (getOCPSolution env s delta_x0) = Inr (deltaXSol, deltaUSol)"
    by (auto simp add: getOCPSolution_def)
qed

theorem C7_remap_witness:
  "fst (getOCPSolution (exEnv True 1) (exQP True True True) [0]) = Inr ([[0], [- 1]], [[2]])"
proof -
  have 1: "frontOf (constraintPtr (exQP True True True)) = Inr True"
    by (simp add: exQP_def exSolver_def frontOf_def numeral_2_eq_2)
  have 2: "hpipmSolve (exEnv True 1) (hpipmInterface (exQP True True True)) [0] (dynamicsQP (exQP True True True))
           (costQP (exQP True True True))
           (if True \<and> \<not> projectStateInputEqualityConstraints (settings (exQP True True True))
            then Some (constraintsQP (exQP True True True)) else None) = (SUCCESS, [[0], [- 1]], [[- 1]], Suc 0)"
    by (simp add: exQP_def exSolver_def exEnv_def exSettings_def)
  have 3: "True \<and> projectStateInputEqualityConstraints (settings (exQP True True True))
          \<and> length [[- 1 :: real]] \<le> length (constraintsQP (exQP True True True))
          \<and> length [[- 1 :: real]] \<le> length [[0], [- 1 :: real]]"
    by (simp add: exQP_def exSolver_def exSettings_def)
  from C7_remap [OF 1 2] 3 obtain deltaU where
    r: "fst (getOCPSolution (exEnv True 1) (exQP True True True) [0]) = Inr ([[0], [- 1]], deltaU)"
    and l: "length deltaU = 1"
    and v: "deltaU ! 0 = vadd (vadd (matvec (dfdu (constraintsQP (exQP True True True) ! 0)) [- 1])
                                (matvec (dfdx (constraintsQP (exQP True True True) ! 0)) [0]))
                          (f (constraintsQP (exQP True True True) ! 0))"
    by auto
  from v have "deltaU ! 0 = [2]"
    by (simp add: exQP_def exSolver_def exBlock_def vadd_def matvec_def dot_def)
  with l have "deltaU = [[2]]"
    by (cases deltaU) simp_all
  with r show ?thesis by simp
qed

text \<open>
  C8 (amended). When a feedback controller is requested, \<^verbatim>\<open>runImpl\<close> emits a linear
  controller on the stored time trajectory. If projection is enabled and a constraint is
  present, the gain of every node \<open>i < N\<close> is \<open>dfdx[i] + dfdu[i] K[i]\<close>, with the stored
  projection block of the node and \<open>K\<close> the Riccati feedback of the last QP; if projection
  is disabled or no constraint is present, the gain is \<open>K[i]\<close>. In both cases the
  feedforward term is \<open>u[i] - gain[i] x[i]\<close>, and the last gain and the last feedforward
  sample are duplicated, to length \<open>N + 1\<close>. The blocks and the state of the QP back end
  are those of the solver \<open>sLast\<close> with which the loop of SQP passes ends: when a pass
  is made, the blocks that the last pass has assembled and the state in which its QP
  solve has left the back end. The projected formula does not hold for every solver
  with projection enabled: without a constraint the guard of the projected branch is
  false, and the gain is \<open>K[i]\<close>, as the run after the theorem shows.
\<close>

theorem C8_feedback_controller:
  assumes "runImpl env s initTime initState finalTime = Some (None, s')"
    and "controllerFeedback (settings s)"
    and "td = timeDiscretizationWithEvents env initTime finalTime (dt (settings s)) (eventTimes s)"
  shows "\<exists>N x u sLast xLast uLast hasConstraint d0 c0 uff gain.
           length td = N + 1 \<and> 0 < N
         \<and> initializeStateTrajectory env s initState td (int N) = Inr x
         \<and> initializeInputTrajectory env s td x (int N) = Inr u
         \<and> sqpLoop env td initState (nat (sqpIteration (settings s))) 0
             (s\<lparr>performanceIndeces := []\<rparr>) x u = Some (None, sLast, xLast, uLast)
         \<and> (0 < sqpIteration (settings s) \<longrightarrow>
              (\<exists>j sPass xPass uPass converged perf sQP xFront hasConstraintQP
                  deltaXSol deltaUSol h.
                 sqpAfter env td initState j 0 (s\<lparr>performanceIndeces := []\<rparr>) x u
                   = Some (sPass, xPass, uPass)
               \<and> sqpStep env td initState j sPass xPass uPass
                   = Some (Inr converged, sLast, xLast, uLast)
               \<and> setupQuadraticSubproblem env sPass (schedule env j 0) td initState
                   xPass uPass = Inr (perf, sQP)
               \<and> atIdx xPass 0 = Inr xFront
               \<and> frontOf (constraintPtr sQP) = Inr hasConstraintQP
               \<and> hpipmSolve env (hpipmInterface sQP) (vsub initState xFront) (dynamicsQP sQP)
                   (costQP sQP)
                   (if hasConstraintQP
                       \<and> \<not> projectStateInputEqualityConstraints (settings sQP)
                    then Some (constraintsQP sQP) else None)
                   = (SUCCESS, deltaXSol, deltaUSol, h)
               \<and> hpipmInterface sLast = h \<and> dynamicsQP sLast = dynamicsQP sQP
               \<and> costQP sLast = costQP sQP \<and> constraintsQP sLast = constraintsQP sQP))
         \<and> timeTrajectory (primalSolution s') = td
         \<and> stateTrajectory (primalSolution s') = xLast
         \<and> inputTrajectory (primalSolution s') = uLast @ [last uLast]
         \<and> frontOf (constraintPtr s) = Inr hasConstraint
         \<and> atIdx (dynamicsQP sLast) 0 = Inr d0 \<and> atIdx (costQP sLast) 0 = Inr c0
         \<and> controllerPtr (primalSolution s') = Some (LinearController td uff gain)
         \<and> length uff = N + 1 \<and> length gain = N + 1
         \<and> (\<forall>i<N.
               gain ! i =
                 (if hasConstraint \<and> projectStateInputEqualityConstraints (settings s)
                  then madd (dfdx (constraintsQP sLast ! i))
                         (mmul (dfdu (constraintsQP sLast ! i))
                            (getRiccatiFeedback env (hpipmInterface sLast) d0 c0 ! i))
                  else getRiccatiFeedback env (hpipmInterface sLast) d0 c0 ! i)
             \<and> uff ! i = vsub (uLast ! i) (matvec (gain ! i) (xLast ! i)))
         \<and> uff ! N = uff ! (N - 1) \<and> gain ! N = gain ! (N - 1)"
proof -
  let ?N = "int (length td) - 1"
  from runImpl_returns [OF assms(1)] assms(3) obtain x u sLast xLast uLast s2 where
    ix: "initializeStateTrajectory env s initState td ?N = Inr x"
    and iu: "initializeInputTrajectory env s td x ?N = Inr u"
    and loop: "sqpLoop env td initState (nat (sqpIteration (settings s))) 0
                 (s\<lparr>performanceIndeces := []\<rparr>) x u = Some (None, sLast, xLast, uLast)"
    and store: "storePrimalSolution sLast td xLast uLast = Inr s2"
    and ctrl: "computeController env s2 ?N = Inr s'"
    by auto
  from sqpLoop_settings [OF loop] storePrimalSolution_settings [OF store]
  have same: "settings s2 = settings s" "constraintPtr s2 = constraintPtr s"
    by simp_all
  with assms(2) have fb: "controllerFeedback (settings s2)" by simp
  from store have blocks: "dynamicsQP s2 = dynamicsQP sLast" "costQP s2 = costQP sLast"
    "constraintsQP s2 = constraintsQP sLast" "hpipmInterface s2 = hpipmInterface sLast"
    by (auto simp add: storePrimalSolution_def bindE_Inr_iff)
  from storePrimalSolution_Inr [OF store] computeController_trajectories [OF ctrl]
  have t: "timeTrajectory (primalSolution s') = td"
      "stateTrajectory (primalSolution s') = xLast"
      "inputTrajectory (primalSolution s') = uLast @ [last uLast]"
      "timeTrajectory (primalSolution s2) = td"
      "stateTrajectory (primalSolution s2) = xLast"
      "inputTrajectory (primalSolution s2) = uLast @ [last uLast]"
    by simp_all
  from initializeInputTrajectory_length [OF iu] sqpLoop_invariant [OF loop]
  have lu: "length uLast = nat ?N" by simp
  from computeController_feedback [OF ctrl fb] obtain hasConstraint d0 c0 uff gain where
    c: "frontOf (constraintPtr s2) = Inr hasConstraint"
      "atIdx (dynamicsQP s2) 0 = Inr d0" "atIdx (costQP s2) 0 = Inr c0"
      "controllerPtr (primalSolution s')
             = Some (LinearController (timeTrajectory (primalSolution s2)) uff gain)"
      "0 < nat ?N" "length uff = nat ?N + 1" "length gain = nat ?N + 1"
      "\<forall>i<nat ?N.
               gain ! i =
                 (if hasConstraint \<and> projectStateInputEqualityConstraints (settings s2)
                  then madd (dfdx (constraintsQP s2 ! i))
                         (mmul (dfdu (constraintsQP s2 ! i))
                            (getRiccatiFeedback env (hpipmInterface s2) d0 c0 ! i))
                  else getRiccatiFeedback env (hpipmInterface s2) d0 c0 ! i)
             \<and> uff ! i = vsub (inputTrajectory (primalSolution s2) ! i)
                            (matvec (gain ! i) (stateTrajectory (primalSolution s2) ! i))"
      "uff ! nat ?N = uff ! (nat ?N - 1)" "gain ! nat ?N = gain ! (nat ?N - 1)"
    by blast
  from \<open>0 < nat ?N\<close> have N: "int (nat ?N) = ?N" "length td = nat ?N + 1"
    by arith+
  have last: "0 < sqpIteration (settings s) \<longrightarrow>
              (\<exists>j sPass xPass uPass converged perf sQP xFront hasConstraintQP
                  deltaXSol deltaUSol h.
                 sqpAfter env td initState j 0 (s\<lparr>performanceIndeces := []\<rparr>) x u
                   = Some (sPass, xPass, uPass)
               \<and> sqpStep env td initState j sPass xPass uPass
                   = Some (Inr converged, sLast, xLast, uLast)
               \<and> setupQuadraticSubproblem env sPass (schedule env j 0) td initState
                   xPass uPass = Inr (perf, sQP)
               \<and> atIdx xPass 0 = Inr xFront
               \<and> frontOf (constraintPtr sQP) = Inr hasConstraintQP
               \<and> hpipmSolve env (hpipmInterface sQP) (vsub initState xFront) (dynamicsQP sQP)
                   (costQP sQP)
                   (if hasConstraintQP
                       \<and> \<not> projectStateInputEqualityConstraints (settings sQP)
                    then Some (constraintsQP sQP) else None)
                   = (SUCCESS, deltaXSol, deltaUSol, h)
               \<and> hpipmInterface sLast = h \<and> dynamicsQP sLast = dynamicsQP sQP
               \<and> costQP sLast = costQP sQP \<and> constraintsQP sLast = constraintsQP sQP)"
  proof
    assume "0 < sqpIteration (settings s)"
    then have "nat (sqpIteration (settings s)) \<noteq> 0" by simp
    with sqpLoop_last [OF loop] obtain j sPass xPass uPass converged where
      aft: "sqpAfter env td initState j 0 (s\<lparr>performanceIndeces := []\<rparr>) x u
              = Some (sPass, xPass, uPass)"
      and stp: "sqpStep env td initState (0 + j) sPass xPass uPass
                  = Some (Inr converged, sLast, xLast, uLast)"
      by blast
    from stp have stp': "sqpStep env td initState j sPass xPass uPass
                  = Some (Inr converged, sLast, xLast, uLast)"
      by simp
    from sqpStep_lastQP [OF stp'] aft stp' show
      "\<exists>j sPass xPass uPass converged perf sQP xFront hasConstraintQP deltaXSol deltaUSol h.
                 sqpAfter env td initState j 0 (s\<lparr>performanceIndeces := []\<rparr>) x u
                   = Some (sPass, xPass, uPass)
               \<and> sqpStep env td initState j sPass xPass uPass
                   = Some (Inr converged, sLast, xLast, uLast)
               \<and> setupQuadraticSubproblem env sPass (schedule env j 0) td initState
                   xPass uPass = Inr (perf, sQP)
               \<and> atIdx xPass 0 = Inr xFront
               \<and> frontOf (constraintPtr sQP) = Inr hasConstraintQP
               \<and> hpipmSolve env (hpipmInterface sQP) (vsub initState xFront) (dynamicsQP sQP)
                   (costQP sQP)
                   (if hasConstraintQP
                       \<and> \<not> projectStateInputEqualityConstraints (settings sQP)
                    then Some (constraintsQP sQP) else None)
                   = (SUCCESS, deltaXSol, deltaUSol, h)
               \<and> hpipmInterface sLast = h \<and> dynamicsQP sLast = dynamicsQP sQP
               \<and> costQP sLast = costQP sQP \<and> constraintsQP sLast = constraintsQP sQP"
      by blast
  qed
  have nodes: "\<forall>i<nat ?N.
               gain ! i =
                 (if hasConstraint \<and> projectStateInputEqualityConstraints (settings s)
                  then madd (dfdx (constraintsQP sLast ! i))
                         (mmul (dfdu (constraintsQP sLast ! i))
                            (getRiccatiFeedback env (hpipmInterface sLast) d0 c0 ! i))
                  else getRiccatiFeedback env (hpipmInterface sLast) d0 c0 ! i)
             \<and> uff ! i = vsub (uLast ! i) (matvec (gain ! i) (xLast ! i))"
  proof (intro allI impI)
    fix i assume i: "i < nat ?N"
    with c(8) have
      "gain ! i =
                 (if hasConstraint \<and> projectStateInputEqualityConstraints (settings s2)
                  then madd (dfdx (constraintsQP s2 ! i))
                         (mmul (dfdu (constraintsQP s2 ! i))
                            (getRiccatiFeedback env (hpipmInterface s2) d0 c0 ! i))
                  else getRiccatiFeedback env (hpipmInterface s2) d0 c0 ! i)
             \<and> uff ! i = vsub (inputTrajectory (primalSolution s2) ! i)
                            (matvec (gain ! i) (stateTrajectory (primalSolution s2) ! i))"
      by blast
    moreover from i lu have "(uLast @ [last uLast]) ! i = uLast ! i"
      by (simp add: nth_append)
    ultimately show
      "gain ! i =
                 (if hasConstraint \<and> projectStateInputEqualityConstraints (settings s)
                  then madd (dfdx (constraintsQP sLast ! i))
                         (mmul (dfdu (constraintsQP sLast ! i))
                            (getRiccatiFeedback env (hpipmInterface sLast) d0 c0 ! i))
                  else getRiccatiFeedback env (hpipmInterface sLast) d0 c0 ! i)
             \<and> uff ! i = vsub (uLast ! i) (matvec (gain ! i) (xLast ! i))"
      unfolding same blocks t by simp
  qed
  show ?thesis
  proof (rule exI [of _ "nat ?N"], rule exI [of _ x], rule exI [of _ u], rule exI [of _ sLast],
      rule exI [of _ xLast], rule exI [of _ uLast], rule exI [of _ hasConstraint],
      rule exI [of _ d0], rule exI [of _ c0], rule exI [of _ uff], rule exI [of _ gain],
      intro conjI)
    show "initializeStateTrajectory env s initState td (int (nat ?N)) = Inr x"
      using ix N by simp
    show "initializeInputTrajectory env s td x (int (nat ?N)) = Inr u"
      using iu N by simp
    show "0 < sqpIteration (settings s) \<longrightarrow>
              (\<exists>j sPass xPass uPass converged perf sQP xFront hasConstraintQP
                  deltaXSol deltaUSol h.
                 sqpAfter env td initState j 0 (s\<lparr>performanceIndeces := []\<rparr>) x u
                   = Some (sPass, xPass, uPass)
               \<and> sqpStep env td initState j sPass xPass uPass
                   = Some (Inr converged, sLast, xLast, uLast)
               \<and> setupQuadraticSubproblem env sPass (schedule env j 0) td initState
                   xPass uPass = Inr (perf, sQP)
               \<and> atIdx xPass 0 = Inr xFront
               \<and> frontOf (constraintPtr sQP) = Inr hasConstraintQP
               \<and> hpipmSolve env (hpipmInterface sQP) (vsub initState xFront) (dynamicsQP sQP)
                   (costQP sQP)
                   (if hasConstraintQP
                       \<and> \<not> projectStateInputEqualityConstraints (settings sQP)
                    then Some (constraintsQP sQP) else None)
                   = (SUCCESS, deltaXSol, deltaUSol, h)
               \<and> hpipmInterface sLast = h \<and> dynamicsQP sLast = dynamicsQP sQP
               \<and> costQP sLast = costQP sQP \<and> constraintsQP sLast = constraintsQP sQP)"
      by (rule last)
    show "\<forall>i<nat ?N.
               gain ! i =
                 (if hasConstraint \<and> projectStateInputEqualityConstraints (settings s)
                  then madd (dfdx (constraintsQP sLast ! i))
                         (mmul (dfdu (constraintsQP sLast ! i))
                            (getRiccatiFeedback env (hpipmInterface sLast) d0 c0 ! i))
                  else getRiccatiFeedback env (hpipmInterface sLast) d0 c0 ! i)
             \<and> uff ! i = vsub (uLast ! i) (matvec (gain ! i) (xLast ! i))"
      by (rule nodes)
  qed (use c same t blocks N loop in simp_all)
qed

theorem C8_feedback_controller_witness:
  "controllerFeedback (settings (exSolver True True True 2))
   \<and> runImpl (exEnv True 1) (exSolver True True True 2) 0 [1] 1 =
       Some (None, exReturned True True True [[1], [0]] [[2], [2]]
                     (LinearController [0, 1] [[- 5], [- 5]] [Matrix 1 [[7]], Matrix 1 [[7]]]))
   \<and> sqpLoop (exEnv True 1) [0, 1] [1] (Suc 0) 0
       ((exSolver True True True 2)\<lparr>performanceIndeces := []\<rparr>) [[1], [1]] [[0]]
       = Some (None, (exSolved True True True)\<lparr>totalNumIterations := Suc 0\<rparr>, [[1], [0]], [[2]])
   \<and> constraintsQP ((exSolved True True True)\<lparr>totalNumIterations := Suc 0\<rparr>) ! 0 = exBlock True
   \<and> getRiccatiFeedback (exEnv True 1)
       (hpipmInterface ((exSolved True True True)\<lparr>totalNumIterations := Suc 0\<rparr>)) () () ! 0
       = Matrix 1 [[5]]
   \<and> (\<exists>uff gain.
         LinearController [0, 1] [[- 5], [- 5]] [Matrix 1 [[7]], Matrix 1 [[7]]]
           = LinearController [0, 1] uff gain
       \<and> gain ! 0 = madd (dfdx (exBlock True)) (mmul (dfdu (exBlock True)) (Matrix 1 [[5]]))
       \<and> uff ! 0 = vsub [2] (matvec (gain ! 0) [1])
       \<and> uff ! 1 = uff ! 0 \<and> gain ! 1 = gain ! 0)"
proof -
  let ?E = "exEnv True 1"
  let ?S = "exSolver True True True 2"
  let ?L = "(exSolved True True True)\<lparr>totalNumIterations := Suc 0\<rparr>"
  let ?s' = "exReturned True True True [[1], [0]] [[2], [2]]
               (LinearController [0, 1] [[- 5], [- 5]] [Matrix 1 [[7]], Matrix 1 [[7]]])"
  have fb: "controllerFeedback (settings ?S)"
    by (simp add: exSolver_def exSettings_def)
  have td: "[0, 1] = timeDiscretizationWithEvents ?E 0 1 (dt (settings ?S)) (eventTimes ?S)"
    by (simp add: exEnv_def)
  have it: "nat (sqpIteration (settings ?S)) = Suc 0"
    by (simp add: exSolver_def)
  have cp: "controllerPtr (primalSolution ?s')
       = Some (LinearController [0, 1] [[- 5], [- 5]] [Matrix 1 [[7]], Matrix 1 [[7]]])"
    by (simp add: exReturned_def)
  have blk: "constraintsQP ?L ! 0 = exBlock True"
    by (simp add: exSolved_def exQP_def)
  have ric: "getRiccatiFeedback ?E (hpipmInterface ?L) () () ! 0 = Matrix 1 [[5]]"
    by (simp add: exEnv_def)
  from C8_feedback_controller [OF ex_run_projected fb td]
  obtain N x u sLast xLast uLast hasConstraint d0 c0 uff gain where
    c: "length [0, 1 :: real] = N + 1"
      "initializeStateTrajectory ?E ?S [1] [0, 1] (int N) = Inr x"
      "initializeInputTrajectory ?E ?S [0, 1] x (int N) = Inr u"
      "sqpLoop ?E [0, 1] [1] (nat (sqpIteration (settings ?S))) 0
         (?S\<lparr>performanceIndeces := []\<rparr>) x u = Some (None, sLast, xLast, uLast)"
      "frontOf (constraintPtr ?S) = Inr hasConstraint"
      "controllerPtr (primalSolution ?s') = Some (LinearController [0, 1] uff gain)"
      "\<forall>i<N.
               gain ! i =
                 (if hasConstraint \<and> projectStateInputEqualityConstraints (settings ?S)
                  then madd (dfdx (constraintsQP sLast ! i))
                         (mmul (dfdu (constraintsQP sLast ! i))
                            (getRiccatiFeedback ?E (hpipmInterface sLast) d0 c0 ! i))
                  else getRiccatiFeedback ?E (hpipmInterface sLast) d0 c0 ! i)
             \<and> uff ! i = vsub (uLast ! i) (matvec (gain ! i) (xLast ! i))"
      "uff ! N = uff ! (N - 1)" "gain ! N = gain ! (N - 1)"
    by blast
  from c(1) have N: "N = 1" by simp
  from c(2) N ex_init_x [of True 1 True True] have x: "x = [[1], [1]]" by simp
  from c(3) N x ex_init_u [of True 1 True True] have u: "u = [[0]]" by simp
  from c(4) x u it ex_loop_projected
  have l: "sLast = ?L" "xLast = [[1], [0]]" "uLast = [[2]]"
    by simp_all
  from c(5) have hc: "hasConstraint"
    by (simp add: exSolver_def frontOf_def numeral_2_eq_2)
  from c(7) N hc l blk ric have
    "gain ! 0 = madd (dfdx (exBlock True)) (mmul (dfdu (exBlock True)) (Matrix 1 [[5]]))
     \<and> uff ! 0 = vsub [2] (matvec (gain ! 0) [1])"
    by (simp add: exSolver_def exSettings_def)
  moreover from c(6) cp have
    "LinearController [0, 1] [[- 5], [- 5]] [Matrix 1 [[7]], Matrix 1 [[7]]]
       = LinearController [0, 1] uff gain"
    by simp
  moreover from c(8) c(9) N have "uff ! 1 = uff ! 0 \<and> gain ! 1 = gain ! 0" by simp
  ultimately show ?thesis using fb ex_run_projected ex_loop_projected blk ric by blast
qed

theorem C8_projection_flag_counterexample:
  "projectStateInputEqualityConstraints (settings (exSolver False True True 2))
   \<and> controllerFeedback (settings (exSolver False True True 2))
   \<and> runImpl (exEnv False 1) (exSolver False True True 2) 0 [1] 1 =
       Some (None, exReturned False True True [[1], [0]] [[- 1], [- 1]]
                     (LinearController [0, 1] [[- 6], [- 6]] [Matrix 1 [[5]], Matrix 1 [[5]]]))
   \<and> constraintsQP (exReturned False True True [[1], [0]] [[- 1], [- 1]]
                     (LinearController [0, 1] [[- 6], [- 6]] [Matrix 1 [[5]], Matrix 1 [[5]]])) ! 0
       = exBlock False
   \<and> getRiccatiFeedback (exEnv False 1) (Suc 0) () () ! 0 = Matrix 1 [[5]]
   \<and> Matrix 1 [[5]]
       \<noteq> madd (dfdx (exBlock False)) (mmul (dfdu (exBlock False)) (Matrix 1 [[5]]))"
proof (intro conjI)
  show "runImpl (exEnv False 1) (exSolver False True True 2) 0 [1] 1 =
       Some (None, exReturned False True True [[1], [0]] [[- 1], [- 1]]
                     (LinearController [0, 1] [[- 6], [- 6]] [Matrix 1 [[5]], Matrix 1 [[5]]]))"
    by (rule ex_run_plain)
  show "getRiccatiFeedback (exEnv False 1) (Suc 0) () () ! 0 = Matrix 1 [[5]]"
    by (simp add: exEnv_def)
qed (simp_all add: exSolver_def exSettings_def exReturned_def exBlock_def madd_def mmul_def)

text \<open>
  C9. When \<^verbatim>\<open>takeStep\<close> returns without accepting a candidate (the step size is below the
  tolerance on a rejected candidate, or \<open>\<alpha>\<close> has decayed to \<open>alpha_min\<close>), the
  trajectories \<open>x\<close> and \<open>u\<close> are unchanged; they are replaced by \<open>xNew\<close>, \<open>uNew\<close> only when
  a candidate is accepted.
\<close>

theorem C9_takeStep_frame:
  assumes "takeStep env s scheds baseline time initState dx du x u = Some (Inr (converged, x', u'))"
  shows "\<exists>k. (\<forall>j<k. alpha_min (settings s) < alpha_decay (settings s) ^ j
                 \<and> (\<exists>xNew uNew p.
                       candidate env s (scheds j) time initState dx du x u
                         (alpha_decay (settings s) ^ j) = Inr (xNew, uNew, p)
                     \<and> \<not> stepAccepted (settings s) baseline p))
           \<and> (if alpha_min (settings s) < alpha_decay (settings s) ^ k
              then \<exists>xNew uNew p.
                     candidate env s (scheds k) time initState dx du x u
                       (alpha_decay (settings s) ^ k) = Inr (xNew, uNew, p)
                   \<and> (if stepAccepted (settings s) baseline p
                      then x' = xNew \<and> u' = uNew
                      else stepSizeBelowTol (settings s) dx du (alpha_decay (settings s) ^ k)
                           \<and> converged \<and> x' = x \<and> u' = u)
              else converged \<and> x' = x \<and> u' = u)"
proof -
  from takeStep_outcome [OF assms] obtain k where
    rej: "\<forall>j<k. alpha_min (settings s) < alpha_decay (settings s) ^ j
                 \<and> (\<exists>xNew uNew p.
                       candidate env s (scheds j) time initState dx du x u
                         (alpha_decay (settings s) ^ j) = Inr (xNew, uNew, p)
                     \<and> \<not> stepAccepted (settings s) baseline p
                     \<and> \<not> stepSizeBelowTol (settings s) dx du (alpha_decay (settings s) ^ j))"
    and stop: "if alpha_min (settings s) < alpha_decay (settings s) ^ k
              then \<exists>xNew uNew p.
                     candidate env s (scheds k) time initState dx du x u
                       (alpha_decay (settings s) ^ k) = Inr (xNew, uNew, p)
                   \<and> (if stepAccepted (settings s) baseline p
                      then converged = (stepSizeBelowTol (settings s) dx du (alpha_decay (settings s) ^ k)
                                        \<or> improvementBelowTol (settings s) baseline p)
                           \<and> x' = xNew \<and> u' = uNew
                      else stepSizeBelowTol (settings s) dx du (alpha_decay (settings s) ^ k)
                           \<and> converged \<and> x' = x \<and> u' = u)
              else converged \<and> x' = x \<and> u' = u"
    by blast
  from rej have "\<forall>j<k. alpha_min (settings s) < alpha_decay (settings s) ^ j
                 \<and> (\<exists>xNew uNew p.
                       candidate env s (scheds j) time initState dx du x u
                         (alpha_decay (settings s) ^ j) = Inr (xNew, uNew, p)
                     \<and> \<not> stepAccepted (settings s) baseline p)"
    by blast
  moreover from stop have "if alpha_min (settings s) < alpha_decay (settings s) ^ k
              then \<exists>xNew uNew p.
                     candidate env s (scheds k) time initState dx du x u
                       (alpha_decay (settings s) ^ k) = Inr (xNew, uNew, p)
                   \<and> (if stepAccepted (settings s) baseline p
                      then x' = xNew \<and> u' = uNew
                      else stepSizeBelowTol (settings s) dx du (alpha_decay (settings s) ^ k)
                           \<and> converged \<and> x' = x \<and> u' = u)
              else converged \<and> x' = x \<and> u' = u"
    by (auto split: if_splits)
  ultimately show ?thesis by blast
qed

theorem C9_takeStep_frame_witness:
  "takeStep (exEnv False 1) (exSolver False False False 2) (\<lambda>k i. i mod 2) (exBaseline (- 1))
     [0, 1] [1] [[0], [- 1]] [[- 1]] [[1], [1]] [[0]] = Some (Inr (True, [[1], [1]], [[0]]))
   \<and> \<not> alpha_min (settings (exSolver False False False 2))
         < alpha_decay (settings (exSolver False False False 2)) ^ 2
   \<and> (\<exists>xNew uNew p.
          candidate (exEnv False 1) (exSolver False False False 2) (\<lambda>i. i mod 2)
            [0, 1] [1] [[0], [- 1]] [[- 1]] [[1], [1]] [[0]]
            (alpha_decay (settings (exSolver False False False 2)) ^ 0) = Inr (xNew, uNew, p)
          \<and> \<not> stepAccepted (settings (exSolver False False False 2)) (exBaseline (- 1)) p)
   \<and> (\<exists>xNew uNew p.
          candidate (exEnv False 1) (exSolver False False False 2) (\<lambda>i. i mod 2)
            [0, 1] [1] [[0], [- 1]] [[- 1]] [[1], [1]] [[0]]
            (alpha_decay (settings (exSolver False False False 2)) ^ 1) = Inr (xNew, uNew, p)
          \<and> \<not> stepAccepted (settings (exSolver False False False 2)) (exBaseline (- 1)) p)"
proof -
  from C9_takeStep_frame [OF ex_takeStep_reject] obtain k where
    rej: "\<forall>j<k. alpha_min (settings (exSolver False False False 2))
                   < alpha_decay (settings (exSolver False False False 2)) ^ j
                 \<and> (\<exists>xNew uNew p.
                       candidate (exEnv False 1) (exSolver False False False 2)
                         (\<lambda>i. i mod 2) [0, 1] [1] [[0], [- 1]] [[- 1]] [[1], [1]] [[0]]
                         (alpha_decay (settings (exSolver False False False 2)) ^ j)
                       = Inr (xNew, uNew, p)
                     \<and> \<not> stepAccepted (settings (exSolver False False False 2))
                           (exBaseline (- 1)) p)"
    and stop: "if alpha_min (settings (exSolver False False False 2))
                   < alpha_decay (settings (exSolver False False False 2)) ^ k
              then \<exists>xNew uNew p.
                     candidate (exEnv False 1) (exSolver False False False 2)
                         (\<lambda>i. i mod 2) [0, 1] [1] [[0], [- 1]] [[- 1]] [[1], [1]] [[0]]
                       (alpha_decay (settings (exSolver False False False 2)) ^ k)
                     = Inr (xNew, uNew, p)
                   \<and> (if stepAccepted (settings (exSolver False False False 2))
                            (exBaseline (- 1)) p
                      then [[1], [1]] = xNew \<and> [[0]] = uNew
                      else stepSizeBelowTol (settings (exSolver False False False 2))
                             [[0], [- 1]] [[- 1]]
                             (alpha_decay (settings (exSolver False False False 2)) ^ k)
                           \<and> True \<and> [[1], [1 :: real]] = [[1], [1]] \<and> [[0 :: real]] = [[0]])
              else True \<and> [[1], [1 :: real]] = [[1], [1]] \<and> [[0 :: real]] = [[0]]"
    by blast
  have "k = 2"
  proof (rule ccontr)
    assume "k \<noteq> 2"
    then consider "k = 0" | "k = 1" | "2 < k" by linarith
    then show False
    proof cases
      case 1
      with stop show False
        by (simp add: ex_candidate_1 stepAccepted_def stepSizeBelowTol_def lessNaN_def
              minusNaN_def timesNaN_def)
    next
      case 2
      with stop show False
        by (simp add: ex_candidate_2 stepAccepted_def stepSizeBelowTol_def lessNaN_def
              minusNaN_def timesNaN_def)
    next
      case 3
      with rej have "alpha_min (settings (exSolver False False False 2))
                   < alpha_decay (settings (exSolver False False False 2)) ^ 2"
        by blast
      then show False by (simp add: power2_eq_square)
    qed
  qed
  with rej have all: "\<forall>j<2. \<exists>xNew uNew p.
          candidate (exEnv False 1) (exSolver False False False 2) (\<lambda>i. i mod 2)
            [0, 1] [1] [[0], [- 1]] [[- 1]] [[1], [1]] [[0]]
            (alpha_decay (settings (exSolver False False False 2)) ^ j) = Inr (xNew, uNew, p)
          \<and> \<not> stepAccepted (settings (exSolver False False False 2)) (exBaseline (- 1)) p"
    by blast
  have "(0 :: nat) < 2" "(1 :: nat) < 2" by simp_all
  with all have "\<exists>xNew uNew p.
          candidate (exEnv False 1) (exSolver False False False 2) (\<lambda>i. i mod 2)
            [0, 1] [1] [[0], [- 1]] [[- 1]] [[1], [1]] [[0]]
            (alpha_decay (settings (exSolver False False False 2)) ^ 0) = Inr (xNew, uNew, p)
          \<and> \<not> stepAccepted (settings (exSolver False False False 2)) (exBaseline (- 1)) p"
    and "\<exists>xNew uNew p.
          candidate (exEnv False 1) (exSolver False False False 2) (\<lambda>i. i mod 2)
            [0, 1] [1] [[0], [- 1]] [[- 1]] [[1], [1]] [[0]]
            (alpha_decay (settings (exSolver False False False 2)) ^ 1) = Inr (xNew, uNew, p)
          \<and> \<not> stepAccepted (settings (exSolver False False False 2)) (exBaseline (- 1)) p"
    by blast+
  moreover have "\<not> alpha_min (settings (exSolver False False False 2))
         < alpha_decay (settings (exSolver False False False 2)) ^ 2"
    by (simp add: power2_eq_square)
  ultimately show ?thesis using ex_takeStep_reject by blast
qed

text \<open>
  C10. \<^verbatim>\<open>runImpl\<close> returns normally only on a time grid of at least two points
  (\<open>N \<ge> 1\<close>); when the grid is what the spec says of the time-grid builder (it starts at
  \<open>initTime\<close>, ends at \<open>finalTime\<close> and is strictly increasing), it has at least two points
  exactly when \<open>initTime < finalTime\<close>, so a solve that returns normally has
  \<open>initTime < finalTime\<close>. On a grid of one point \<^verbatim>\<open>runImpl\<close> does not return normally:
  the input trajectory is empty, it stays empty through the SQP passes, and the padding
  step reads \<^verbatim>\<open>back()\<close> of an empty vector (an undefined operation), by which \<^verbatim>\<open>runImpl\<close>
  is left; the controller loops over \<open>i < N\<close> push nothing, so the feedback controller
  would read \<^verbatim>\<open>back()\<close> of an empty vector as well.
\<close>

theorem C10_grid_needs_two_points:
  assumes "td = timeDiscretizationWithEvents env initTime finalTime (dt (settings s)) (eventTimes s)"
  shows "(runImpl env s initTime initState finalTime = Some (None, s') \<longrightarrow> 2 \<le> length td)
       \<and> (timeGridContract initTime finalTime td \<longrightarrow>
            (2 \<le> length td \<longleftrightarrow> initTime < finalTime)
          \<and> (runImpl env s initTime initState finalTime = Some (None, s')
             \<longrightarrow> initTime < finalTime))
       \<and> (length td = 1 \<longrightarrow>
            runImpl env s initTime initState finalTime \<noteq> Some (None, s')
          \<and> (\<forall>x u sLast xLast uLast.
               initializeStateTrajectory env s initState td 0 = Inr x
             \<and> initializeInputTrajectory env s td x 0 = Inr u
             \<and> sqpLoop env td initState (nat (sqpIteration (settings s))) 0
                 (s\<lparr>performanceIndeces := []\<rparr>) x u = Some (None, sLast, xLast, uLast)
             \<longrightarrow> u = [] \<and> uLast = [] \<and> backOf uLast = Inl Undefined
                 \<and> runImpl env s initTime initState finalTime = Some (Some Undefined, sLast))
          \<and> (controllerFeedback (settings sAny)
             \<longrightarrow> computeController env sAny (int (length td) - 1) = Inl Undefined))"
proof -
  let ?N = "int (length td) - 1"
  have two: "2 \<le> length td"
    if run: "runImpl env s initTime initState finalTime = Some (None, s')" for s'
  proof -
    from runImpl_returns [OF run] assms obtain x u s1 x' u' s2 where
      iu: "initializeInputTrajectory env s td x ?N = Inr u"
      and loop: "sqpLoop env td initState (nat (sqpIteration (settings s))) 0
                   (s\<lparr>performanceIndeces := []\<rparr>) x u = Some (None, s1, x', u')"
      and store: "storePrimalSolution s1 td x' u' = Inr s2"
      by auto
    from initializeInputTrajectory_length [OF iu] have "length u = nat ?N" by simp
    moreover from sqpLoop_invariant [OF loop] have "length u' = length u" by simp
    moreover from storePrimalSolution_Inr [OF store] have "u' \<noteq> []" by simp
    ultimately show ?thesis by (cases u') simp_all
  qed
  have grid: "2 \<le> length td \<longleftrightarrow> initTime < finalTime"
    if c: "timeGridContract initTime finalTime td"
  proof
    assume "2 \<le> length td"
    then have l: "0 < length td - 1" "length td - 1 < length td" by simp_all
    from c have "sorted_wrt (<) td" by (simp add: timeGridContract_def)
    from sorted_wrt_nth_less [OF this l] have "td ! 0 < td ! (length td - 1)" .
    moreover from c have ne: "td \<noteq> []" and ends: "hd td = initTime" "last td = finalTime"
      by (simp_all add: timeGridContract_def)
    from ends have "td ! 0 = initTime" "td ! (length td - 1) = finalTime"
      by (simp_all add: hd_conv_nth [OF ne] last_conv_nth [OF ne])
    ultimately show "initTime < finalTime" by simp
  next
    assume lt: "initTime < finalTime"
    show "2 \<le> length td"
    proof (rule ccontr)
      assume "\<not> 2 \<le> length td"
      moreover from c have "td \<noteq> []" by (simp add: timeGridContract_def)
      ultimately have "length td = 1" by (cases td) (auto simp add: not_le less_Suc_eq)
      then obtain a where "td = [a]" by (cases td) simp_all
      with c lt show False by (simp add: timeGridContract_def)
    qed
  qed
  have one: "u = [] \<and> uLast = [] \<and> backOf uLast = Inl Undefined
             \<and> runImpl env s initTime initState finalTime = Some (Some Undefined, sLast)"
    if l: "length td = 1"
      and h: "initializeStateTrajectory env s initState td 0 = Inr x
             \<and> initializeInputTrajectory env s td x 0 = Inr u
             \<and> sqpLoop env td initState (nat (sqpIteration (settings s))) 0
                 (s\<lparr>performanceIndeces := []\<rparr>) x u = Some (None, sLast, xLast, uLast)"
    for x u sLast xLast uLast
  proof -
    from h have iu: "initializeInputTrajectory env s td x 0 = Inr u"
      and loop: "sqpLoop env td initState (nat (sqpIteration (settings s))) 0
                 (s\<lparr>performanceIndeces := []\<rparr>) x u = Some (None, sLast, xLast, uLast)"
      by simp_all
    from initializeInputTrajectory_length [OF iu] have u: "u = []" by simp
    with sqpLoop_invariant [OF loop] have uL: "uLast = []" by simp
    then have "storePrimalSolution sLast td xLast uLast = Inl Undefined"
      by (simp add: storePrimalSolution_def backOf_def)
    with h l assms have "runImpl env s initTime initState finalTime = Some (Some Undefined, sLast)"
      by (simp add: runImpl_def Let_def del: sqpLoop.simps)
    with u uL show ?thesis by (simp add: backOf_def)
  qed
  have ctrl: "computeController env sAny (int (length td) - 1) = Inl Undefined"
    if l: "length td = 1" and fb: "controllerFeedback (settings sAny)"
  proof -
    have "\<exists>e. computeController env sAny 0 = Inl e"
      using fb
      by (cases "frontOf (constraintPtr sAny)"; cases "atIdx (dynamicsQP sAny) 0";
          cases "atIdx (costQP sAny) 0")
         (simp_all add: computeController_def Let_def duplicateLast_def backOf_def)
    then obtain e where e: "computeController env sAny 0 = Inl e" by blast
    from computeController_Inl [OF e] e l show ?thesis by simp
  qed
  show ?thesis
  proof (intro conjI impI allI)
    assume "runImpl env s initTime initState finalTime = Some (None, s')"
    then show "2 \<le> length td" by (rule two)
  next
    assume "timeGridContract initTime finalTime td"
    then show "2 \<le> length td \<longleftrightarrow> initTime < finalTime" by (rule grid)
  next
    assume "timeGridContract initTime finalTime td"
      and "runImpl env s initTime initState finalTime = Some (None, s')"
    with grid two show "initTime < finalTime" by blast
  next
    assume "length td = 1"
    with two [of s'] show "runImpl env s initTime initState finalTime \<noteq> Some (None, s')"
      by auto
  next
    fix x u sLast xLast uLast
    assume l: "length td = 1"
      and h: "initializeStateTrajectory env s initState td 0 = Inr x
             \<and> initializeInputTrajectory env s td x 0 = Inr u
             \<and> sqpLoop env td initState (nat (sqpIteration (settings s))) 0
                 (s\<lparr>performanceIndeces := []\<rparr>) x u = Some (None, sLast, xLast, uLast)"
    from one [OF l h] show "u = []" "uLast = []" "backOf uLast = Inl Undefined"
      "runImpl env s initTime initState finalTime = Some (Some Undefined, sLast)"
      by (simp_all add: backOf_def)
  next
    assume "length td = 1" and "controllerFeedback (settings sAny)"
    then show "computeController env sAny (int (length td) - 1) = Inl Undefined"
      by (rule ctrl)
  qed
qed

theorem C10_grid_needs_two_points_witness:
  "runImpl (exEnv False 1) (exSolver False True True 2) 0 [1] 1 =
     Some (None, exReturned False True True [[1], [0]] [[- 1], [- 1]]
                   (LinearController [0, 1] [[- 6], [- 6]] [Matrix 1 [[5]], Matrix 1 [[5]]]))
   \<and> timeGridContract 0 1
       (timeDiscretizationWithEvents (exEnv False 1) 0 1
          (dt (settings (exSolver False True True 2))) (eventTimes (exSolver False True True 2)))
   \<and> 2 \<le> length (timeDiscretizationWithEvents (exEnv False 1) 0 1
                    (dt (settings (exSolver False True True 2)))
                    (eventTimes (exSolver False True True 2)))
   \<and> (0 :: real) < 1
   \<and> timeDiscretizationWithEvents (exEnv False 1) 0 0
       (dt (settings exNoIteration)) (eventTimes exNoIteration) = [0]
   \<and> timeGridContract 0 0 [0]
   \<and> initializeInputTrajectory (exEnv False 1) exNoIteration [0] [[1]] 0 = Inr []
   \<and> backOf ([] :: vector_array_t) = Inl Undefined
   \<and> runImpl (exEnv False 1) exNoIteration 0 [1] 0 = Some (Some Undefined, exNoIteration)
   \<and> computeController (exEnv False 1) (exSolver False True True 2) 0 = Inl Undefined"
proof -
  let ?E = "exEnv False 1"
  let ?S = "exSolver False True True 2"
  have td: "[0, 1] = timeDiscretizationWithEvents ?E 0 1 (dt (settings ?S)) (eventTimes ?S)"
    by (simp add: exEnv_def)
  have td0: "[0] = timeDiscretizationWithEvents ?E 0 0 (dt (settings exNoIteration))
                     (eventTimes exNoIteration)"
    by (simp add: exEnv_def)
  have g: "timeGridContract 0 1 [0, 1]" "timeGridContract 0 0 [0]"
    by (simp_all add: timeGridContract_def)
  from C10_grid_needs_two_points [OF td, where initState = "[1]"] ex_run_plain g(1)
  have 1: "2 \<le> length [0, 1 :: real] \<and> (0 :: real) < 1"
    by blast
  have x: "initializeStateTrajectory ?E exNoIteration [1] [0] 0 = Inr [[1]]"
    by (simp add: initializeStateTrajectory_def exNoIteration_def exSolver_def)
  have u: "initializeInputTrajectory ?E exNoIteration [0] [[1]] 0 = Inr []"
    by (simp add: initializeInputTrajectory_def exNoIteration_def exSolver_def frontOf_def)
  have loop: "sqpLoop ?E [0] [1] (nat (sqpIteration (settings exNoIteration))) 0
                (exNoIteration\<lparr>performanceIndeces := []\<rparr>) [[1]] []
              = Some (None, exNoIteration, [[1]], [])"
    by (simp add: exNoIteration_def exSolver_def)
  have l: "length [0 :: real] = 1" by simp
  have fb: "controllerFeedback (settings ?S)"
    by (simp add: exSolver_def exSettings_def)
  from C10_grid_needs_two_points [OF td0, where initState = "[1]" and sAny = ?S] l x u loop fb
  have 2: "backOf ([] :: vector_array_t) = Inl Undefined
           \<and> runImpl ?E exNoIteration 0 [1] 0 = Some (Some Undefined, exNoIteration)
           \<and> computeController ?E ?S 0 = Inl Undefined"
    by (simp del: sqpLoop.simps)
  from 1 2 ex_run_plain g u td td0 show ?thesis by simp
qed

end
